theory Spec2Isabelle
  imports Complex_Main "HOL-Library.Word"
begin

section \<open>JavaScript numbers\<close>

text \<open>
  The export route computes with JavaScript \<^verbatim>\<open>number\<close>s. A number is modelled
  as \<open>NaN\<close>, one of the two infinities, or a finite value. In the model of the
  handler finite arithmetic is exact real arithmetic: the rounding of IEEE doubles
  (and of the \<^verbatim>\<open>Float32Array\<close> cells) is left out there, and the computations
  whose result depends on it are evaluated with the rounding of binary64 in a
  section of their own. The two zeros are not distinguished (a zero divisor counts
  as \<open>+0\<close>). The value \<^verbatim>\<open>undefined\<close>, which only ever flows into
  arithmetic and comparisons here, is identified with \<open>NaN\<close>, as \<^verbatim>\<open>ToNumber\<close>
  does.
\<close>

datatype jsnum = JNaN | JPosInf | JNegInf | JFin real

fun isFinite :: "jsnum \<Rightarrow> bool" where
  "isFinite (JFin r) = True"
| "isFinite _ = False"

fun jneg :: "jsnum \<Rightarrow> jsnum" where
  "jneg (JFin a) = JFin (- a)"
| "jneg JPosInf = JNegInf"
| "jneg JNegInf = JPosInf"
| "jneg JNaN = JNaN"

fun jadd :: "jsnum \<Rightarrow> jsnum \<Rightarrow> jsnum" where
  "jadd (JFin a) (JFin b) = JFin (a + b)"
| "jadd JNaN y = JNaN"
| "jadd x JNaN = JNaN"
| "jadd JPosInf JNegInf = JNaN"
| "jadd JNegInf JPosInf = JNaN"
| "jadd JPosInf y = JPosInf"
| "jadd JNegInf y = JNegInf"
| "jadd (JFin a) y = y"

definition jsub :: "jsnum \<Rightarrow> jsnum \<Rightarrow> jsnum" where
  "jsub x y = jadd x (jneg y)"

fun jmul :: "jsnum \<Rightarrow> jsnum \<Rightarrow> jsnum" where
  "jmul (JFin a) (JFin b) = JFin (a * b)"
| "jmul JNaN y = JNaN"
| "jmul x JNaN = JNaN"
| "jmul (JFin a) y = (if a = 0 then JNaN else if 0 < a then y else jneg y)"
| "jmul x (JFin b) = (if b = 0 then JNaN else if 0 < b then x else jneg x)"
| "jmul JPosInf y = y"
| "jmul JNegInf y = jneg y"

fun jdiv :: "jsnum \<Rightarrow> jsnum \<Rightarrow> jsnum" where
  "jdiv (JFin a) (JFin b) =
     (if b = 0 then (if a = 0 then JNaN else if 0 < a then JPosInf else JNegInf)
      else JFin (a / b))"
| "jdiv JNaN y = JNaN"
| "jdiv x JNaN = JNaN"
| "jdiv (JFin a) y = JFin 0"
| "jdiv x (JFin b) = (if 0 \<le> b then x else jneg x)"
| "jdiv x y = JNaN"

text \<open>Comparisons: every comparison with \<open>NaN\<close> is false.\<close>

fun jlt :: "jsnum \<Rightarrow> jsnum \<Rightarrow> bool" where
  "jlt (JFin a) (JFin b) = (a < b)"
| "jlt JNaN y = False"
| "jlt x JNaN = False"
| "jlt x JNegInf = False"
| "jlt JPosInf y = False"
| "jlt x y = True"

fun jle :: "jsnum \<Rightarrow> jsnum \<Rightarrow> bool" where
  "jle (JFin a) (JFin b) = (a \<le> b)"
| "jle JNaN y = False"
| "jle x JNaN = False"
| "jle JNegInf y = True"
| "jle x JPosInf = True"
| "jle x y = False"

definition jgt :: "jsnum \<Rightarrow> jsnum \<Rightarrow> bool" where
  "jgt x y = jlt y x"

text \<open>\<^verbatim>\<open>Math.min\<close>, \<^verbatim>\<open>Math.max\<close>: \<open>NaN\<close> if an argument is \<open>NaN\<close>.\<close>

fun jmin :: "jsnum \<Rightarrow> jsnum \<Rightarrow> jsnum" where
  "jmin JNaN y = JNaN"
| "jmin x JNaN = JNaN"
| "jmin x y = (if jlt y x then y else x)"

fun jmax :: "jsnum \<Rightarrow> jsnum \<Rightarrow> jsnum" where
  "jmax JNaN y = JNaN"
| "jmax x JNaN = JNaN"
| "jmax x y = (if jlt x y then y else x)"

text \<open>\<^verbatim>\<open>Math.floor\<close>, \<^verbatim>\<open>Math.ceil\<close>, \<^verbatim>\<open>Math.round\<close> (halves go up).\<close>

fun jfloor :: "jsnum \<Rightarrow> jsnum" where
  "jfloor (JFin a) = JFin (of_int \<lfloor>a\<rfloor>)"
| "jfloor x = x"

fun jceil :: "jsnum \<Rightarrow> jsnum" where
  "jceil (JFin a) = JFin (of_int \<lceil>a\<rceil>)"
| "jceil x = x"

fun jround :: "jsnum \<Rightarrow> jsnum" where
  "jround (JFin a) = JFin (of_int \<lfloor>a + 1 / 2\<rfloor>)"
| "jround x = x"

text \<open>
  \<^verbatim>\<open>Math.tan\<close>, \<^verbatim>\<open>Math.cos\<close>, \<^verbatim>\<open>Math.log\<close>: on finite arguments the
  real functions; the logarithm of a negative number is \<open>NaN\<close> and of zero
  \<open>-Infinity\<close>.
\<close>

fun jtan :: "jsnum \<Rightarrow> jsnum" where
  "jtan (JFin a) = JFin (tan a)"
| "jtan x = JNaN"

fun jcos :: "jsnum \<Rightarrow> jsnum" where
  "jcos (JFin a) = JFin (cos a)"
| "jcos x = JNaN"

fun jlog :: "jsnum \<Rightarrow> jsnum" where
  "jlog (JFin a) = (if a < 0 then JNaN else if a = 0 then JNegInf else JFin (ln a))"
| "jlog JPosInf = JPosInf"
| "jlog x = JNaN"

section \<open>Helpers of the export route\<close>

text \<open>\<^verbatim>\<open>clamp(n, a, b) = Math.max(a, Math.min(b, n))\<close>\<close>

definition clamp :: "jsnum \<Rightarrow> jsnum \<Rightarrow> jsnum \<Rightarrow> jsnum" where
  "clamp n a b = jmax a (jmin b n)"

text \<open>Terrarium: \<^verbatim>\<open>r * 256 + g + b / 256 - 32768\<close>\<close>

definition decodeTerrarium :: "jsnum \<Rightarrow> jsnum \<Rightarrow> jsnum \<Rightarrow> jsnum" where
  "decodeTerrarium r g b =
     jsub (jadd (jadd (jmul r (JFin 256)) g) (jdiv b (JFin 256))) (JFin 32768)"

text \<open>A channel byte of the decoded PNG buffer, read as a number.\<close>

definition byteNum :: "8 word \<Rightarrow> jsnum" where
  "byteNum c = JFin (of_nat (unat c))"

text \<open>\<^verbatim>\<open>png.data[i]\<close>: past the end of the buffer the read is \<^verbatim>\<open>undefined\<close>.\<close>

definition pngByte :: "8 word list \<Rightarrow> nat \<Rightarrow> jsnum" where
  "pngByte png i = (if i < length png then byteNum (png ! i) else JNaN)"

text \<open>
  \<^verbatim>\<open>lonLatToTile(lon, lat, z)\<close>: the fractional tile coordinates \<open>(x, y)\<close> of a
  point at zoom \<open>z\<close>.
\<close>

definition lonLatToTile :: "jsnum \<Rightarrow> jsnum \<Rightarrow> nat \<Rightarrow> jsnum \<times> jsnum" where
  "lonLatToTile lon lat z =
     (let n = JFin (2 ^ z);
          x = jmul (jdiv (jadd lon (JFin 180)) (JFin 360)) n;
          latRad = jdiv (jmul lat (JFin pi)) (JFin 180);
          y = jmul (jdiv (jsub (JFin 1)
                (jdiv (jlog (jadd (jtan latRad) (jdiv (JFin 1) (jcos latRad)))) (JFin pi)))
                (JFin 2)) n
      in (x, y))"

subsection \<open>Typed arrays\<close>

text \<open>
  A \<^verbatim>\<open>Float32Array\<close> is the list of its cells. An index expression is a number:
  it addresses a cell only when it is an integer within the length; a read elsewhere
  gives \<^verbatim>\<open>undefined\<close>, a write elsewhere does nothing.
\<close>

definition f32index :: "jsnum list \<Rightarrow> jsnum \<Rightarrow> nat option" where
  "f32index xs i =
     (case i of
        JFin r \<Rightarrow>
          if r = of_int \<lfloor>r\<rfloor> \<and> 0 \<le> r \<and> r < real (length xs) then Some (nat \<lfloor>r\<rfloor>) else None
      | _ \<Rightarrow> None)"

definition f32get :: "jsnum list \<Rightarrow> jsnum \<Rightarrow> jsnum" where
  "f32get xs i = (case f32index xs i of Some k \<Rightarrow> xs ! k | None \<Rightarrow> JNaN)"

definition f32set :: "jsnum list \<Rightarrow> jsnum \<Rightarrow> jsnum \<Rightarrow> jsnum list" where
  "f32set xs i v = (case f32index xs i of Some k \<Rightarrow> xs[k := v] | None \<Rightarrow> xs)"

text \<open>
  \<^verbatim>\<open>new Float32Array(n)\<close>: the length is \<open>n\<close> truncated towards zero (\<open>NaN\<close>
  gives length 0); a negative or infinite length, or one beyond the engine's limit
  \<open>limit\<close>, throws a \<^verbatim>\<open>RangeError\<close> (\<open>None\<close>). The cells start at 0.
\<close>

definition newFloat32Array :: "nat \<Rightarrow> jsnum \<Rightarrow> jsnum list option" where
  "newFloat32Array limit n =
     (case n of
        JNaN \<Rightarrow> Some []
      | JFin r \<Rightarrow>
          if r \<le> - 1 \<or> int limit < \<lfloor>r\<rfloor> then None
          else Some (replicate (nat \<lfloor>r\<rfloor>) (JFin 0))
      | _ \<Rightarrow> None)"

text \<open>
  \<^verbatim>\<open>nearestSample(src, srcW, srcH, x, y)\<close>: round the coordinates, clamp them
  to the raster, read the cell.
\<close>

definition nearestSample :: "jsnum list \<Rightarrow> jsnum \<Rightarrow> jsnum \<Rightarrow> jsnum \<Rightarrow> jsnum \<Rightarrow> jsnum" where
  "nearestSample src srcW srcH x y =
     (let ix = clamp (jround x) (JFin 0) (jsub srcW (JFin 1));
          iy = clamp (jround y) (JFin 0) (jsub srcH (JFin 1))
      in f32get src (jadd (jmul iy srcW) ix))"

subsection \<open>Output documents\<close>

text \<open>
  The SVG text of a layer is kept as the values the template strings interpolate
  (the rendering of a fractional number as text is not modelled): canvas size,
  alignment circles \<open>(cx, cy, r)\<close>, the two scale factors, the path data and the
  stroke width. A layer's file name \<^verbatim>\<open>layer_${layerNumber}_${Math.round(level)}m.svg\<close>
  is kept as the padded number string and the rounded level.
\<close>

record svgDoc =
  docWidthIn :: jsnum
  docHeightIn :: jsnum
  docHoles :: "(jsnum \<times> jsnum \<times> jsnum) list"
  docScaleX :: jsnum
  docScaleY :: jsnum
  docPath :: string
  docStroke :: jsnum

record readme =
  readmeMinE :: jsnum
  readmeMaxE :: jsnum
  readmeInterval :: jsnum
  readmeGrid :: jsnum
  readmeLayersWritten :: nat

datatype fileName = LayerSvg string jsnum | ReadmeTxt

datatype payload = Svg svgDoc | Readme readme

text \<open>
  \<^verbatim>\<open>circlesForAlignment\<close>: four circles of radius \<open>holeDiameterIn / 2\<close>, inset
  from the canvas corners.
\<close>

definition circlesForAlignment ::
  "jsnum \<Rightarrow> jsnum \<Rightarrow> jsnum \<Rightarrow> jsnum \<Rightarrow> (jsnum \<times> jsnum \<times> jsnum) list" where
  "circlesForAlignment w h holeDiameter holeInset =
     (let r = jdiv holeDiameter (JFin 2);
          pts = [(holeInset, holeInset),
                 (jsub w holeInset, holeInset),
                 (holeInset, jsub h holeInset),
                 (jsub w holeInset, jsub h holeInset)]
      in map (\<lambda>(cx, cy). (cx, cy, r)) pts)"

text \<open>\<^verbatim>\<open>String(n)\<close> for a natural number, and \<^verbatim>\<open>padStart\<close>.\<close>

definition digitChar :: "nat \<Rightarrow> char" where
  "digitChar d = ''0123456789'' ! d"

fun natString :: "nat \<Rightarrow> string" where
  "natString n = (if n < 10 then [digitChar n] else natString (n div 10) @ [digitChar (n mod 10)])"

declare natString.simps [simp del]

definition padStart :: "nat \<Rightarrow> char \<Rightarrow> string \<Rightarrow> string" where
  "padStart n c s = replicate (n - length s) c @ s"

section \<open>The export route\<close>

record Bounds =
  west :: jsnum
  south :: jsnum
  east :: jsnum
  north :: jsnum

text \<open>
  The request body after the route's coercions (\<^verbatim>\<open>Number(body.widthIn ?? 20)\<close>
  and so on); \<open>bounds = None\<close> is a missing (falsy) \<^verbatim>\<open>body.bounds\<close>.
\<close>

record request =
  bounds :: "Bounds option"
  widthIn :: jsnum
  heightIn :: jsnum
  intervalM :: jsnum
  grid :: jsnum
  addAlignmentHoles :: bool
  holeDiameterIn :: jsnum
  holeInsetIn :: jsnum

text \<open>
  The request of a body that carries only \<^verbatim>\<open>bounds\<close>: every other field takes
  the default of its \<^verbatim>\<open>??\<close>.
\<close>

definition defaults :: "Bounds option \<Rightarrow> request" where
  "defaults b =
     \<lparr> bounds = b, widthIn = JFin 20, heightIn = JFin 12, intervalM = JFin 30,
       grid = JFin 256, addAlignmentHoles = True, holeDiameterIn = JFin (125 / 1000),
       holeInsetIn = JFin (35 / 100) \<rparr>"

text \<open>
  What the route calls and does not define: the tile server with the PNG decoder
  (\<open>fetchPng tx ty\<close> is the decoded RGBA buffer of tile \<open>(tx, ty)\<close> at the fixed
  zoom, \<open>None\<close> when \<^verbatim>\<open>fetchPng\<close> throws), the engine's typed-array length limit,
  and the contour library: \<open>contourPath values n t\<close> is
  \<^verbatim>\<open>pathGen\<close> applied to the contour of the \<open>n \<times> n\<close> grid \<open>values\<close> at
  threshold \<open>t\<close>, \<open>None\<close> for \<^verbatim>\<open>null\<close>. The library returns one feature per
  threshold, in the order given, with \<^verbatim>\<open>f.value\<close> the threshold.
\<close>

record env =
  fetchPng :: "jsnum \<Rightarrow> jsnum \<Rightarrow> 8 word list option"
  maxArrayLength :: nat
  contourPath :: "jsnum list \<Rightarrow> jsnum \<Rightarrow> jsnum \<Rightarrow> string option"

text \<open>The responses of the route, and their HTTP status.\<close>

datatype response =
    BadRequest
  | SelectionTooLarge jsnum
  | ElevationInvalid
  | NoLayersProduced
  | ExportError
  | ZipOk "(fileName \<times> payload) list"

fun status :: "response \<Rightarrow> nat" where
  "status BadRequest = 400"
| "status (SelectionTooLarge n) = 413"
| "status ElevationInvalid = 502"
| "status NoLayersProduced = 400"
| "status ExportError = 500"
| "status (ZipOk files) = 200"

text \<open>
  A \<^verbatim>\<open>for (let t = t0; cond(t); t = step(t)) body\<close> loop over a number. The body
  returns the new state, or \<open>Inl\<close> when it leaves the route (a response or an
  exception); the loop itself may run forever, which is the value \<open>None\<close>.
\<close>

partial_function (option) forLoop ::
  "(jsnum \<Rightarrow> bool) \<Rightarrow> (jsnum \<Rightarrow> jsnum) \<Rightarrow> (jsnum \<Rightarrow> 's \<Rightarrow> ('e + 's) option) \<Rightarrow>
   jsnum \<Rightarrow> 's \<Rightarrow> ('e + 's) option" where
  "forLoop cond step body t s =
     (if cond t
      then Option.bind (body t s)
             (\<lambda>r. case r of Inl e \<Rightarrow> Some (Inl e) | Inr s' \<Rightarrow> forLoop cond step body (step t) s')
      else Some (Inr s))"

definition inc :: "jsnum \<Rightarrow> jsnum" where
  "inc t = jadd t (JFin 1)"

subsection \<open>Validation and tile range\<close>

definition badRequest :: "request \<Rightarrow> bool" where
  "badRequest rq =
     (bounds rq = None \<or> jle (widthIn rq) (JFin 0) \<or> jle (heightIn rq) (JFin 0) \<or>
      jle (intervalM rq) (JFin 0) \<or> jlt (grid rq) (JFin 64))"

text \<open>
  The copy of the route that is kept in \<^verbatim>\<open>src/app/api/geocode/route.ts\<close> validates
  more: every number is tested with \<^verbatim>\<open>!isFinite\<close> before it is compared.
\<close>

fun notFinite :: "jsnum \<Rightarrow> bool" where
  "notFinite (JFin r) = False"
| "notFinite x = True"

definition badRequestFinite :: "request \<Rightarrow> bool" where
  "badRequestFinite rq =
     (bounds rq = None \<or> notFinite (widthIn rq) \<or> notFinite (heightIn rq) \<or>
      jle (widthIn rq) (JFin 0) \<or> jle (heightIn rq) (JFin 0) \<or>
      notFinite (intervalM rq) \<or> jle (intervalM rq) (JFin 0) \<or>
      notFinite (grid rq) \<or> jlt (grid rq) (JFin 64))"

definition zoom :: nat where
  "zoom = 12"

definition tileSize :: nat where
  "tileSize = 256"

record tiles =
  xMin :: jsnum
  xMax :: jsnum
  yMin :: jsnum
  yMax :: jsnum

definition tileRange :: "jsnum \<times> jsnum \<Rightarrow> jsnum \<times> jsnum \<Rightarrow> tiles" where
  "tileRange tlc brc =
     \<lparr> xMin = jfloor (jmin (fst tlc) (fst brc)),
       xMax = jfloor (jmax (fst tlc) (fst brc)),
       yMin = jfloor (jmin (snd tlc) (snd brc)),
       yMax = jfloor (jmax (snd tlc) (snd brc)) \<rparr>"

definition tileCount :: "tiles \<Rightarrow> jsnum" where
  "tileCount rng =
     jmul (jadd (jsub (xMax rng) (xMin rng)) (JFin 1)) (jadd (jsub (yMax rng) (yMin rng)) (JFin 1))"

subsection \<open>Stitching\<close>

text \<open>The two pixel loops over one fetched tile.\<close>

definition putTile ::
  "8 word list \<Rightarrow> tiles \<Rightarrow> jsnum \<Rightarrow> jsnum \<Rightarrow> jsnum \<Rightarrow> jsnum list \<Rightarrow> jsnum list" where
  "putTile png rng stitchedW ty tx stitched =
     fold (\<lambda>py. fold (\<lambda>px st.
        let si = (py * tileSize + px) * 4;
            elev = decodeTerrarium (pngByte png si) (pngByte png (si + 1)) (pngByte png (si + 2));
            gx = jadd (jmul (jsub tx (xMin rng)) (JFin (real tileSize))) (JFin (real px));
            gy = jadd (jmul (jsub ty (yMin rng)) (JFin (real tileSize))) (JFin (real py))
        in f32set st (jadd (jmul gy stitchedW) gx) elev) [0..<tileSize]) [0..<tileSize] stitched"

text \<open>
  One step of the inner tile loop. The state is the raster with the list of the
  tiles requested so far; a failed fetch throws, which the route turns into its 500
  response.
\<close>

definition stitchTile ::
  "env \<Rightarrow> tiles \<Rightarrow> jsnum \<Rightarrow> jsnum \<Rightarrow> jsnum \<Rightarrow> jsnum list \<times> (jsnum \<times> jsnum) list \<Rightarrow>
   (response \<times> (jsnum \<times> jsnum) list + jsnum list \<times> (jsnum \<times> jsnum) list) option" where
  "stitchTile ev rng stitchedW ty tx s =
     (case s of (stitched, fetched) \<Rightarrow>
        (case fetchPng ev tx ty of
           None \<Rightarrow> Some (Inl (ExportError, fetched @ [(tx, ty)]))
         | Some png \<Rightarrow> Some (Inr (putTile png rng stitchedW ty tx stitched, fetched @ [(tx, ty)]))))"

definition stitch ::
  "env \<Rightarrow> tiles \<Rightarrow>
   (response \<times> (jsnum \<times> jsnum) list + jsnum list \<times> (jsnum \<times> jsnum) list) option" where
  "stitch ev rng =
     (let stitchedW = jmul (jadd (jsub (xMax rng) (xMin rng)) (JFin 1)) (JFin (real tileSize));
          stitchedH = jmul (jadd (jsub (yMax rng) (yMin rng)) (JFin 1)) (JFin (real tileSize))
      in case newFloat32Array (maxArrayLength ev) (jmul stitchedW stitchedH) of
           None \<Rightarrow> Some (Inl (ExportError, []))
         | Some stitched \<Rightarrow>
             forLoop (\<lambda>ty. jle ty (yMax rng)) inc
               (\<lambda>ty. forLoop (\<lambda>tx. jle tx (xMax rng)) inc (stitchTile ev rng stitchedW ty)
                        (xMin rng))
               (yMin rng) (stitched, []))"

subsection \<open>Resampling\<close>

text \<open>
  The pixel rectangle \<open>(pxWest, pxEast, pxNorth, pxSouth)\<close> of the viewport inside
  the stitched raster.
\<close>

definition pixelRect ::
  "jsnum \<times> jsnum \<Rightarrow> jsnum \<times> jsnum \<Rightarrow> tiles \<Rightarrow> jsnum \<times> jsnum \<times> jsnum \<times> jsnum" where
  "pixelRect tlc brc rng =
     (jmul (jsub (jmin (fst tlc) (fst brc)) (xMin rng)) (JFin (real tileSize)),
      jmul (jsub (jmax (fst tlc) (fst brc)) (xMin rng)) (JFin (real tileSize)),
      jmul (jsub (jmin (snd tlc) (snd brc)) (yMin rng)) (JFin (real tileSize)),
      jmul (jsub (jmax (snd tlc) (snd brc)) (yMin rng)) (JFin (real tileSize)))"

text \<open>The source coordinates \<open>(sx, sy)\<close> of grid cell \<open>(i, j)\<close>.\<close>

definition sampleCoord ::
  "jsnum \<times> jsnum \<times> jsnum \<times> jsnum \<Rightarrow> jsnum \<Rightarrow> jsnum \<Rightarrow> jsnum \<Rightarrow> jsnum \<times> jsnum" where
  "sampleCoord rect g j i =
     (case rect of (pxWest, pxEast, pxNorth, pxSouth) \<Rightarrow>
        let tY = jdiv j (jsub g (JFin 1));
            sy = jadd pxNorth (jmul (jsub pxSouth pxNorth) tY);
            tX = jdiv i (jsub g (JFin 1));
            sx = jadd pxWest (jmul (jsub pxEast pxWest) tX)
        in (sx, sy))"

text \<open>The body of the inner sampling loop, on the state \<open>(values, minE, maxE)\<close>.\<close>

definition sampleCell ::
  "jsnum list \<Rightarrow> jsnum \<Rightarrow> jsnum \<Rightarrow> jsnum \<times> jsnum \<times> jsnum \<times> jsnum \<Rightarrow> jsnum \<Rightarrow> jsnum \<Rightarrow> jsnum \<Rightarrow>
   jsnum list \<times> jsnum \<times> jsnum \<Rightarrow> jsnum list \<times> jsnum \<times> jsnum" where
  "sampleCell stitched stitchedW stitchedH rect g j i s =
     (case s of (values, minE, maxE) \<Rightarrow>
        let v = nearestSample stitched stitchedW stitchedH
                  (fst (sampleCoord rect g j i)) (snd (sampleCoord rect g j i))
        in (f32set values (jadd (jmul j g) i) v,
            if jlt v minE then v else minE,
            if jgt v maxE then v else maxE))"

definition resample ::
  "env \<Rightarrow> jsnum list \<Rightarrow> jsnum \<Rightarrow> jsnum \<Rightarrow> jsnum \<times> jsnum \<times> jsnum \<times> jsnum \<Rightarrow> jsnum \<Rightarrow>
   (response + jsnum list \<times> jsnum \<times> jsnum) option" where
  "resample ev stitched stitchedW stitchedH rect g =
     (case newFloat32Array (maxArrayLength ev) (jmul g g) of
        None \<Rightarrow> Some (Inl ExportError)
      | Some values \<Rightarrow>
          forLoop (\<lambda>j. jlt j g) inc
            (\<lambda>j. forLoop (\<lambda>i. jlt i g) inc
                     (\<lambda>i s. Some (Inr (sampleCell stitched stitchedW stitchedH rect g j i s)))
                     (JFin 0))
            (JFin 0) (values, JPosInf, JNegInf))"

subsection \<open>Thresholds\<close>

definition degenerate :: "jsnum \<Rightarrow> jsnum \<Rightarrow> bool" where
  "degenerate minE maxE = (\<not> isFinite minE \<or> \<not> isFinite maxE \<or> jle maxE minE)"

definition planStart :: "jsnum \<Rightarrow> jsnum \<Rightarrow> jsnum" where
  "planStart minE interval = jmul (jfloor (jdiv minE interval)) interval"

definition planEnd :: "jsnum \<Rightarrow> jsnum \<Rightarrow> jsnum" where
  "planEnd maxE interval = jmul (jceil (jdiv maxE interval)) interval"

text \<open>
  \<^verbatim>\<open>for (let t = start + intervalM; t <= end; t += intervalM) thresholds.push(t)\<close>
\<close>

definition thresholdsOf :: "jsnum \<Rightarrow> jsnum \<Rightarrow> jsnum \<Rightarrow> (response + jsnum list) option" where
  "thresholdsOf minE maxE interval =
     forLoop (\<lambda>t. jle t (planEnd maxE interval)) (\<lambda>t. jadd t interval)
       (\<lambda>t ths. Some (Inr (ths @ [t])))
       (jadd (planStart minE interval) interval) []"

subsection \<open>Layers and manifest\<close>

definition strokeWidth :: "jsnum \<Rightarrow> jsnum \<Rightarrow> jsnum" where
  "strokeWidth scaleX scaleY = jdiv (JFin (1 / 1000)) (jmax scaleX scaleY)"

definition scaleOf :: "jsnum \<Rightarrow> jsnum \<Rightarrow> jsnum" where
  "scaleOf sizeIn g = jdiv sizeIn (jsub g (JFin 1))"

definition layerName :: "nat \<Rightarrow> jsnum \<Rightarrow> fileName" where
  "layerName idx level = LayerSvg (padStart 3 (CHR ''0'') (natString (idx + 1))) (jround level)"

definition layerSvg :: "request \<Rightarrow> string \<Rightarrow> svgDoc" where
  "layerSvg rq d =
     \<lparr> docWidthIn = widthIn rq,
       docHeightIn = heightIn rq,
       docHoles = (if addAlignmentHoles rq
                   then circlesForAlignment (widthIn rq) (heightIn rq) (holeDiameterIn rq) (holeInsetIn rq)
                   else []),
       docScaleX = scaleOf (widthIn rq) (grid rq),
       docScaleY = scaleOf (heightIn rq) (grid rq),
       docPath = d,
       docStroke = strokeWidth (scaleOf (widthIn rq) (grid rq)) (scaleOf (heightIn rq) (grid rq)) \<rparr>"

text \<open>
  The loop over \<^verbatim>\<open>contourFeatures\<close>, from index \<open>idx\<close>: a feature whose path is
  \<^verbatim>\<open>null\<close> or empty is skipped; the others are added to the archive under the
  name made from their index, and counted in \<open>written\<close>.
\<close>

fun writeLayers ::
  "request \<Rightarrow> nat \<Rightarrow> (jsnum \<times> string option) list \<Rightarrow> (fileName \<times> payload) list \<times> nat \<Rightarrow>
   (fileName \<times> payload) list \<times> nat" where
  "writeLayers rq idx [] acc = acc"
| "writeLayers rq idx (f # fs) (files, written) =
     (case snd f of
        None \<Rightarrow> writeLayers rq (Suc idx) fs (files, written)
      | Some d \<Rightarrow>
          if d = [] then writeLayers rq (Suc idx) fs (files, written)
          else writeLayers rq (Suc idx) fs
                 (files @ [(layerName idx (fst f), Svg (layerSvg rq d))], Suc written))"

definition contourFeatures :: "env \<Rightarrow> request \<Rightarrow> jsnum list \<Rightarrow> jsnum list \<Rightarrow> (jsnum \<times> string option) list" where
  "contourFeatures ev rq values thresholds =
     map (\<lambda>t. (t, contourPath ev values (grid rq) t)) thresholds"

definition buildZip ::
  "env \<Rightarrow> request \<Rightarrow> jsnum list \<Rightarrow> jsnum \<Rightarrow> jsnum \<Rightarrow> jsnum list \<Rightarrow> (fileName \<times> payload) list" where
  "buildZip ev rq values minE maxE thresholds =
     (case writeLayers rq 0 (contourFeatures ev rq values thresholds) ([], 0) of
        (files, written) \<Rightarrow>
          files @ [(ReadmeTxt, Readme \<lparr> readmeMinE = minE, readmeMaxE = maxE,
                                         readmeInterval = intervalM rq, readmeGrid = grid rq,
                                         readmeLayersWritten = written \<rparr>)])"

subsection \<open>The handler\<close>

text \<open>From the degenerate-data check to the response.\<close>

definition planAndExport ::
  "env \<Rightarrow> request \<Rightarrow> jsnum list \<Rightarrow> jsnum \<Rightarrow> jsnum \<Rightarrow> response option" where
  "planAndExport ev rq values minE maxE =
     (if degenerate minE maxE then Some ElevationInvalid
      else Option.bind (thresholdsOf minE maxE (intervalM rq))
             (\<lambda>r. case r of
                    Inl e \<Rightarrow> Some e
                  | Inr thresholds \<Rightarrow>
                      if thresholds = [] then Some NoLayersProduced
                      else Some (ZipOk (buildZip ev rq values minE maxE thresholds))))"

text \<open>From the stitched raster to the response.\<close>

definition sampleAndExport ::
  "env \<Rightarrow> request \<Rightarrow> jsnum \<times> jsnum \<Rightarrow> jsnum \<times> jsnum \<Rightarrow> tiles \<Rightarrow> jsnum list \<Rightarrow> response option" where
  "sampleAndExport ev rq tlc brc rng stitched =
     (let stitchedW = jmul (jadd (jsub (xMax rng) (xMin rng)) (JFin 1)) (JFin (real tileSize));
          stitchedH = jmul (jadd (jsub (yMax rng) (yMin rng)) (JFin 1)) (JFin (real tileSize))
      in Option.bind (resample ev stitched stitchedW stitchedH (pixelRect tlc brc rng) (grid rq))
           (\<lambda>r. case r of
                  Inl e \<Rightarrow> Some e
                | Inr s \<Rightarrow> planAndExport ev rq (fst s) (fst (snd s)) (snd (snd s))))"

text \<open>
  \<^verbatim>\<open>POST\<close>: the response together with the list of the tiles that were
  requested from the tile server, in order. \<open>None\<close>: the handler does not return.
  Of the exceptions that the \<^verbatim>\<open>catch\<close> turns into the 500 response, the failed
  tile fetch and the failed array allocation are modelled; a body that is not JSON
  and an exception inside the contour library are not.
\<close>

definition POST :: "env \<Rightarrow> request \<Rightarrow> (response \<times> (jsnum \<times> jsnum) list) option" where
  "POST ev rq =
     (case bounds rq of
        None \<Rightarrow> Some (BadRequest, [])
      | Some b \<Rightarrow>
          if badRequest rq then Some (BadRequest, [])
          else
            let tlc = lonLatToTile (west b) (north b) zoom;
                brc = lonLatToTile (east b) (south b) zoom;
                rng = tileRange tlc brc
            in if jgt (tileCount rng) (JFin 64) then Some (SelectionTooLarge (tileCount rng), [])
               else Option.bind (stitch ev rng)
                      (\<lambda>r. case r of
                             Inl (e, fetched) \<Rightarrow> Some (e, fetched)
                           | Inr (stitched, fetched) \<Rightarrow>
                               Option.bind (sampleAndExport ev rq tlc brc rng stitched)
                                 (\<lambda>resp. Some (resp, fetched))))"

section \<open>Binary64 arithmetic\<close>

text \<open>
  The model of the handler above takes finite arithmetic as exact. Three of its
  computations are sensitive to the rounding of the engine's numbers: the
  threshold loop, which accumulates sums; the stroke width, a quotient that is
  multiplied back; and the tile coordinates with the tile count. They are
  evaluated here as the engine evaluates them, in IEEE 754 binary64: every
  arithmetic operation returns the exact result rounded to the nearest number with
  53 significant bits, ties to the even significand; in the subnormal range to the
  nearest multiple of \<open>2 powi - 1074\<close>; and to an infinity when the rounded
  magnitude reaches \<open>2 ^ 1024\<close>. The two zeros are still not distinguished.
\<close>

text \<open>Rounding to the nearest integer, ties to even.\<close>

definition rne :: "real \<Rightarrow> int" where
  "rne y = (if y - of_int \<lfloor>y\<rfloor> < 1 / 2 then \<lfloor>y\<rfloor>
            else if 1 / 2 < y - of_int \<lfloor>y\<rfloor> then \<lfloor>y\<rfloor> + 1
            else if even \<lfloor>y\<rfloor> then \<lfloor>y\<rfloor> else \<lfloor>y\<rfloor> + 1)"

text \<open>
  The exponent of the binade of \<open>x\<close>, not below that of the subnormal numbers, and
  the distance between neighbouring binary64 numbers there.
\<close>

definition binade :: "real \<Rightarrow> int" where
  "binade x = max (- 1022) \<lfloor>log 2 \<bar>x\<bar>\<rfloor>"

definition ulp :: "real \<Rightarrow> real" where
  "ulp x = 2 powi (binade x - 52)"

definition round64 :: "real \<Rightarrow> real" where
  "round64 x = (if x = 0 then 0 else of_int (rne (x / ulp x)) * ulp x)"

definition fl :: "real \<Rightarrow> jsnum" where
  "fl x = (let y = round64 x in
           if 2 ^ 1024 \<le> y then JPosInf else if y \<le> - (2 ^ 1024) then JNegInf else JFin y)"

fun rnd :: "jsnum \<Rightarrow> jsnum" where
  "rnd (JFin a) = fl a"
| "rnd x = x"

text \<open>The operators \<^verbatim>\<open>+\<close>, \<^verbatim>\<open>-\<close>, \<^verbatim>\<open>*\<close>, \<^verbatim>\<open>/\<close> on binary64 numbers.\<close>

definition add64 :: "jsnum \<Rightarrow> jsnum \<Rightarrow> jsnum" where
  "add64 x y = rnd (jadd x y)"

definition sub64 :: "jsnum \<Rightarrow> jsnum \<Rightarrow> jsnum" where
  "sub64 x y = rnd (jsub x y)"

definition mul64 :: "jsnum \<Rightarrow> jsnum \<Rightarrow> jsnum" where
  "mul64 x y = rnd (jmul x y)"

definition div64 :: "jsnum \<Rightarrow> jsnum \<Rightarrow> jsnum" where
  "div64 x y = rnd (jdiv x y)"

subsection \<open>Threshold planning\<close>

text \<open>
  \<^verbatim>\<open>const start = Math.floor(minE / intervalM) * intervalM\<close>,
  \<^verbatim>\<open>const end = Math.ceil(maxE / intervalM) * intervalM\<close>, and the loop
  \<^verbatim>\<open>for (let t = start + intervalM; t <= end; t += intervalM) thresholds.push(t)\<close>.
  The sum \<open>t + intervalM\<close> is rounded: the thresholds are running sums, and
  where the interval is too small for the sum to differ from \<open>t\<close> the loop does
  not end.
\<close>

definition planStart64 :: "jsnum \<Rightarrow> jsnum \<Rightarrow> jsnum" where
  "planStart64 minE interval = mul64 (jfloor (div64 minE interval)) interval"

definition planEnd64 :: "jsnum \<Rightarrow> jsnum \<Rightarrow> jsnum" where
  "planEnd64 maxE interval = mul64 (jceil (div64 maxE interval)) interval"

definition thresholds64 :: "jsnum \<Rightarrow> jsnum \<Rightarrow> jsnum \<Rightarrow> (response + jsnum list) option" where
  "thresholds64 minE maxE interval =
     forLoop (\<lambda>t. jle t (planEnd64 maxE interval)) (\<lambda>t. add64 t interval)
       (\<lambda>t ths. Some (Inr (ths @ [t])))
       (add64 (planStart64 minE interval) interval) []"

text \<open>
  The loop followed by
  \<^verbatim>\<open>if (!thresholds.length) return new NextResponse("No layers produced", { status: 400 })\<close>:
  the response that ends the route, or the thresholds it goes on with.
\<close>

definition plan64 :: "jsnum \<Rightarrow> jsnum \<Rightarrow> jsnum \<Rightarrow> (response + jsnum list) option" where
  "plan64 minE maxE interval =
     Option.bind (thresholds64 minE maxE interval)
       (\<lambda>r. case r of
              Inl e \<Rightarrow> Some (Inl e)
            | Inr thresholds \<Rightarrow>
                if thresholds = [] then Some (Inl NoLayersProduced) else Some (Inr thresholds))"

subsection \<open>Scale factors and stroke width\<close>

text \<open>
  \<^verbatim>\<open>const scaleX = widthIn / (grid - 1)\<close>, \<^verbatim>\<open>const scaleY = heightIn / (grid - 1)\<close>,
  \<^verbatim>\<open>const stroke = 0.001 / Math.max(scaleX, scaleY)\<close>: computed once, before the
  loop over the layers, and written into every layer document. The literal
  \<^verbatim>\<open>0.001\<close> denotes the binary64 number nearest to \<open>1 / 1000\<close>.
\<close>

definition scaleOf64 :: "jsnum \<Rightarrow> jsnum \<Rightarrow> jsnum" where
  "scaleOf64 sizeIn g = div64 sizeIn (sub64 g (JFin 1))"

definition strokeWidth64 :: "jsnum \<Rightarrow> jsnum \<Rightarrow> jsnum" where
  "strokeWidth64 scaleX scaleY = div64 (fl (1 / 1000)) (jmax scaleX scaleY)"

text \<open>
  The layer document, the loop over \<^verbatim>\<open>contourFeatures\<close> and the archive, as in the
  handler, with the quotients and differences of the document rounded.
\<close>

definition circlesForAlignment64 ::
  "jsnum \<Rightarrow> jsnum \<Rightarrow> jsnum \<Rightarrow> jsnum \<Rightarrow> (jsnum \<times> jsnum \<times> jsnum) list" where
  "circlesForAlignment64 w h holeDiameter holeInset =
     (let r = div64 holeDiameter (JFin 2);
          pts = [(holeInset, holeInset),
                 (sub64 w holeInset, holeInset),
                 (holeInset, sub64 h holeInset),
                 (sub64 w holeInset, sub64 h holeInset)]
      in map (\<lambda>(cx, cy). (cx, cy, r)) pts)"

definition layerSvg64 :: "request \<Rightarrow> string \<Rightarrow> svgDoc" where
  "layerSvg64 rq d =
     \<lparr> docWidthIn = widthIn rq,
       docHeightIn = heightIn rq,
       docHoles = (if addAlignmentHoles rq
                   then circlesForAlignment64 (widthIn rq) (heightIn rq) (holeDiameterIn rq)
                          (holeInsetIn rq)
                   else []),
       docScaleX = scaleOf64 (widthIn rq) (grid rq),
       docScaleY = scaleOf64 (heightIn rq) (grid rq),
       docPath = d,
       docStroke = strokeWidth64 (scaleOf64 (widthIn rq) (grid rq))
                     (scaleOf64 (heightIn rq) (grid rq)) \<rparr>"

fun writeLayers64 ::
  "request \<Rightarrow> nat \<Rightarrow> (jsnum \<times> string option) list \<Rightarrow> (fileName \<times> payload) list \<times> nat \<Rightarrow>
   (fileName \<times> payload) list \<times> nat" where
  "writeLayers64 rq idx [] acc = acc"
| "writeLayers64 rq idx (f # fs) (files, written) =
     (case snd f of
        None \<Rightarrow> writeLayers64 rq (Suc idx) fs (files, written)
      | Some d \<Rightarrow>
          if d = [] then writeLayers64 rq (Suc idx) fs (files, written)
          else writeLayers64 rq (Suc idx) fs
                 (files @ [(layerName idx (fst f), Svg (layerSvg64 rq d))], Suc written))"

definition buildZip64 ::
  "env \<Rightarrow> request \<Rightarrow> jsnum list \<Rightarrow> jsnum \<Rightarrow> jsnum \<Rightarrow> jsnum list \<Rightarrow> (fileName \<times> payload) list" where
  "buildZip64 ev rq values minE maxE thresholds =
     (case writeLayers64 rq 0 (contourFeatures ev rq values thresholds) ([], 0) of
        (files, written) \<Rightarrow>
          files @ [(ReadmeTxt, Readme \<lparr> readmeMinE = minE, readmeMaxE = maxE,
                                         readmeInterval = intervalM rq, readmeGrid = grid rq,
                                         readmeLayersWritten = written \<rparr>)])"

subsection \<open>Tile coordinates and tile count\<close>

text \<open>
  \<^verbatim>\<open>Math.tan\<close>, \<^verbatim>\<open>Math.cos\<close> and \<^verbatim>\<open>Math.log\<close> are approximations that the
  language leaves to the engine: they are parameters here. \<^verbatim>\<open>Math.PI\<close> is the
  binary64 number nearest to \<open>\<pi>\<close>.
\<close>

record libm =
  mathTan :: "jsnum \<Rightarrow> jsnum"
  mathCos :: "jsnum \<Rightarrow> jsnum"
  mathLog :: "jsnum \<Rightarrow> jsnum"

definition mathPI :: jsnum where
  "mathPI = JFin (884279719003555 / 281474976710656)"

definition lonLatToTile64 :: "libm \<Rightarrow> jsnum \<Rightarrow> jsnum \<Rightarrow> nat \<Rightarrow> jsnum \<times> jsnum" where
  "lonLatToTile64 lm lon lat z =
     (let n = fl (2 ^ z);
          x = mul64 (div64 (add64 lon (JFin 180)) (JFin 360)) n;
          latRad = div64 (mul64 lat mathPI) (JFin 180);
          y = mul64 (div64 (sub64 (JFin 1)
                 (div64 (mathLog lm (add64 (mathTan lm latRad) (div64 (JFin 1) (mathCos lm latRad))))
                    mathPI))
               (JFin 2)) n
      in (x, y))"

definition tileCount64 :: "tiles \<Rightarrow> jsnum" where
  "tileCount64 rng =
     mul64 (add64 (sub64 (xMax rng) (xMin rng)) (JFin 1)) (add64 (sub64 (yMax rng) (yMin rng)) (JFin 1))"

section \<open>Notions for the statements and proofs\<close>

text \<open>
  The run of a loop body over a given list of values of the loop variable. A loop
  whose condition fails after \<open>n\<close> steps is this run over its first \<open>n\<close>
  values, so it returns.
\<close>

fun iterE :: "(jsnum \<Rightarrow> 's \<Rightarrow> ('e + 's) option) \<Rightarrow> jsnum list \<Rightarrow> 's \<Rightarrow> ('e + 's) option" where
  "iterE body [] s = Some (Inr s)"
| "iterE body (t # ts) s =
     Option.bind (body t s) (\<lambda>r. case r of Inl e \<Rightarrow> Some (Inl e) | Inr s' \<Rightarrow> iterE body ts s')"

text \<open>
  The number of runs of \<^verbatim>\<open>for (let j = 0; j < g; j++)\<close>: the least natural number
  that is not below \<open>g\<close>, and none when \<open>g\<close> is \<open>NaN\<close>.
\<close>

definition loopCount :: "jsnum \<Rightarrow> nat" where
  "loopCount g = (case g of JFin r \<Rightarrow> nat \<lceil>r\<rceil> | _ \<Rightarrow> 0)"





section \<open>Facts about numbers\<close>

lemma jadd_NaN_right [simp]: "jadd x JNaN = JNaN"
  by (cases x) simp_all

lemma jmul_NaN_right [simp]: "jmul x JNaN = JNaN"
  by (cases x) simp_all

lemma jdiv_NaN_right [simp]: "jdiv x JNaN = JNaN"
  by (cases x) simp_all

lemma jlt_NaN_right [simp]: "jlt x JNaN = False"
  by (cases x) simp_all

lemma jle_NaN_right [simp]: "jle x JNaN = False"
  by (cases x) simp_all

section \<open>Loops that end\<close>

text \<open>
  A loop whose condition holds for the first \<open>n\<close> values of its variable and fails
  at the next one is the run of its body over those \<open>n\<close> values.
\<close>

lemma map_upt_Suc_shift: "map f [0..<Suc n] = f 0 # map (\<lambda>k. f (Suc k)) [0..<n]"
  by (simp add: upt_conv_Cons map_Suc_upt [symmetric] del: upt_Suc)

lemma forLoop_unroll:
  "(\<And>k. k < n \<Longrightarrow> cond ((step ^^ k) t)) \<Longrightarrow> \<not> cond ((step ^^ n) t) \<Longrightarrow>
   forLoop cond step body t s = iterE body (map (\<lambda>k. (step ^^ k) t) [0..<n]) s"
proof (induction n arbitrary: t s)
  case 0
  then show ?case by (simp add: forLoop.simps)
next
  case (Suc n)
  have c0: "cond t" using Suc.prems(1) [of 0] by simp
  have step: "\<And>s'. forLoop cond step body (step t) s' =
      iterE body (map (\<lambda>k. (step ^^ k) (step t)) [0..<n]) s'"
  proof (rule Suc.IH)
    fix k assume "k < n"
    then show "cond ((step ^^ k) (step t))"
      using Suc.prems(1) [of "Suc k"] by (simp add: funpow_swap1)
  next
    show "\<not> cond ((step ^^ n) (step t))"
      using Suc.prems(2) by (simp add: funpow_swap1)
  qed
  have step': "forLoop cond step body (step t) =
      iterE body (map (\<lambda>k. (step ^^ k) (step t)) [0..<n])"
    by (rule ext) (rule step)
  show ?case
    by (subst forLoop.simps) (simp add: c0 step' map_upt_Suc_shift funpow_swap1 del: upt_Suc)
qed

lemma inc_funpow: "(inc ^^ k) (JFin a) = JFin (a + real k)"
  by (induction k) (simp_all add: inc_def)

lemma addstep_funpow: "((\<lambda>t. jadd t (JFin i)) ^^ k) (JFin a) = JFin (a + real k * i)"
  by (induction k) (simp_all add: algebra_simps)

lemma iterE_push: "iterE (\<lambda>t ths. Some (Inr (ths @ [t]))) ts acc = Some (Inr (acc @ ts))"
  by (induction ts arbitrary: acc) simp_all

lemma iterE_total: "iterE (\<lambda>t s. Some (Inr (f t s))) ts s = Some (Inr (fold f ts s))"
  by (induction ts arbitrary: s) simp_all

section \<open>Binary64 rounding\<close>

lemma rne_error: "\<bar>of_int (rne y) - y\<bar> \<le> 1 / 2"
  unfolding rne_def by (auto simp: abs_if) linarith+

lemma rne_of_int [simp]: "rne (of_int n) = n"
  by (simp add: rne_def)

lemma powr2_powi: "(2::real) powr real_of_int k = 2 powi k"
  by (rule powr_real_of_int') simp_all

lemma powi2_less_cancel:
  assumes "(2::real) powi a < 2 powi b"
  shows "a < b"
proof (rule ccontr)
  assume "\<not> a < b"
  hence "(2::real) powi b \<le> 2 powi a" by (intro power_int_increasing) simp_all
  thus False using assms by simp
qed

lemma log_binade:
  assumes "x \<noteq> 0"
  shows "2 powi \<lfloor>log 2 \<bar>x\<bar>\<rfloor> \<le> \<bar>x\<bar>" "\<bar>x\<bar> < 2 powi (\<lfloor>log 2 \<bar>x\<bar>\<rfloor> + 1)"
proof -
  have pos: "0 < \<bar>x\<bar>" using assms by simp
  have "(\<lfloor>log 2 \<bar>x\<bar>\<rfloor> = \<lfloor>log 2 \<bar>x\<bar>\<rfloor>) =
      (2 powr real_of_int \<lfloor>log 2 \<bar>x\<bar>\<rfloor> \<le> \<bar>x\<bar> \<and> \<bar>x\<bar> < 2 powr real_of_int (\<lfloor>log 2 \<bar>x\<bar>\<rfloor> + 1))"
    by (rule floor_log_eq_powr_iff) (use pos in simp_all)
  hence "2 powr real_of_int \<lfloor>log 2 \<bar>x\<bar>\<rfloor> \<le> \<bar>x\<bar> \<and> \<bar>x\<bar> < 2 powr real_of_int (\<lfloor>log 2 \<bar>x\<bar>\<rfloor> + 1)"
    by simp
  thus "2 powi \<lfloor>log 2 \<bar>x\<bar>\<rfloor> \<le> \<bar>x\<bar>" "\<bar>x\<bar> < 2 powi (\<lfloor>log 2 \<bar>x\<bar>\<rfloor> + 1)"
    by (simp_all only: powr2_powi)
qed

lemma binade_eq:
  assumes "2 powi e \<le> \<bar>x\<bar>" "\<bar>x\<bar> < 2 powi (e + 1)"
  shows "binade x = max (- 1022) e"
proof -
  have "(0::real) < 2 powi e" by simp
  hence pos: "0 < \<bar>x\<bar>" using assms(1) by linarith
  have "(\<lfloor>log 2 \<bar>x\<bar>\<rfloor> = e) = (2 powr real_of_int e \<le> \<bar>x\<bar> \<and> \<bar>x\<bar> < 2 powr real_of_int (e + 1))"
    by (rule floor_log_eq_powr_iff) (use pos in simp_all)
  hence "\<lfloor>log 2 \<bar>x\<bar>\<rfloor> = e"
    using assms by (simp only: powr2_powi)
  thus ?thesis by (simp add: binade_def)
qed

lemma ulp_pos [simp]: "0 < ulp x"
  by (simp add: ulp_def)

lemma ulp_nz [simp]: "ulp x \<noteq> 0"
  by (simp add: ulp_def)

text \<open>The rounding error is at most half the distance between neighbours.\<close>

lemma round64_error: "\<bar>round64 x - x\<bar> \<le> ulp x / 2"
proof (cases "x = 0")
  case True thus ?thesis by (simp add: round64_def less_imp_le)
next
  case False
  have "\<bar>of_int (rne (x / ulp x)) - x / ulp x\<bar> * ulp x \<le> 1 / 2 * ulp x"
    by (rule mult_right_mono [OF rne_error]) (simp add: less_imp_le)
  moreover have "\<bar>of_int (rne (x / ulp x)) - x / ulp x\<bar> * ulp x
      = \<bar>of_int (rne (x / ulp x)) * ulp x - x\<bar>"
  proof -
    have "\<bar>of_int (rne (x / ulp x)) - x / ulp x\<bar> * ulp x
        = \<bar>(of_int (rne (x / ulp x)) - x / ulp x) * ulp x\<bar>"
      by (simp add: abs_mult less_imp_le)
    also have "(of_int (rne (x / ulp x)) - x / ulp x) * ulp x = of_int (rne (x / ulp x)) * ulp x - x"
      by (simp add: left_diff_distrib)
    finally show ?thesis .
  qed
  ultimately show ?thesis using False by (simp add: round64_def)
qed

lemma ulp_normal:
  assumes "2 powi (- 1022) \<le> \<bar>x\<bar>"
  shows "ulp x \<le> \<bar>x\<bar> / 2 ^ 52"
proof -
  have "(0::real) < 2 powi (- 1022)" by simp
  hence nz: "x \<noteq> 0" using assms by auto
  have "(2::real) powi (- 1022) < 2 powi (\<lfloor>log 2 \<bar>x\<bar>\<rfloor> + 1)"
    using assms log_binade(2) [OF nz] by linarith
  hence "- 1022 < \<lfloor>log 2 \<bar>x\<bar>\<rfloor> + 1"
    by (rule powi2_less_cancel)
  hence b: "binade x = \<lfloor>log 2 \<bar>x\<bar>\<rfloor>" by (simp add: binade_def)
  have "ulp x = 2 powi binade x / 2 ^ 52"
    by (simp add: ulp_def power_int_diff)
  also have "\<dots> \<le> \<bar>x\<bar> / 2 ^ 52"
    using log_binade(1) [OF nz] b by (simp add: divide_right_mono)
  finally show ?thesis .
qed

text \<open>In the normal range the relative error is at most \<open>2 powi - 53\<close>.\<close>

lemma round64_relative:
  assumes "2 powi (- 1022) \<le> \<bar>x\<bar>"
  shows "\<bar>round64 x - x\<bar> \<le> \<bar>x\<bar> / 2 ^ 53"
  using round64_error [of x] ulp_normal [OF assms] by simp

text \<open>Numbers with at most 53 significant bits are not rounded.\<close>

lemma round64_exact:
  assumes m: "\<bar>m\<bar> < 2 ^ 53" and k: "- 1074 \<le> k"
  shows "round64 (of_int m * 2 powi k) = of_int m * 2 powi k"
proof (cases "m = 0")
  case True thus ?thesis by (simp add: round64_def)
next
  case False
  define x :: real where "x = of_int m * 2 powi k"
  have nz: "x \<noteq> 0" using False by (simp add: x_def)
  have absx: "\<bar>x\<bar> = of_int \<bar>m\<bar> * 2 powi k"
    by (simp add: x_def abs_mult)
  have "of_int \<bar>m\<bar> < (2::real) ^ 53" using m by (metis of_int_less_numeral_power_cancel_iff)
  hence "\<bar>x\<bar> < 2 ^ 53 * 2 powi k"
    unfolding absx by (intro mult_strict_right_mono) simp_all
  also have "\<dots> = 2 powi (53 + k)" by (simp add: power_int_add)
  finally have "2 powi \<lfloor>log 2 \<bar>x\<bar>\<rfloor> < (2::real) powi (53 + k)"
    using log_binade(1) [OF nz] by linarith
  hence "\<lfloor>log 2 \<bar>x\<bar>\<rfloor> < 53 + k" by (rule powi2_less_cancel)
  hence b: "binade x - 52 \<le> k" using k by (simp add: binade_def)
  define j where "j = nat (k - (binade x - 52))"
  have kj: "k = (binade x - 52) + int j" using b by (simp add: j_def)
  have "2 powi k = (2::real) powi (binade x - 52) * 2 ^ j"
    by (subst kj, subst power_int_add) (simp_all add: power_int_of_nat)
  hence "x = of_int (m * 2 ^ j) * ulp x"
    by (simp add: x_def ulp_def mult.commute)
  hence xu: "x / ulp x = of_int (m * 2 ^ j)"
    by (metis nonzero_mult_div_cancel_right ulp_nz)
  have "round64 x = of_int (m * 2 ^ j) * ulp x"
    using nz by (simp only: round64_def xu rne_of_int if_False)
  also have "\<dots> = x / ulp x * ulp x" by (simp only: xu)
  also have "\<dots> = x" by simp
  finally show ?thesis by (simp add: x_def)
qed

lemma round64_of_int:
  assumes "\<bar>m\<bar> < 2 ^ 53"
  shows "round64 (of_int m) = of_int m"
  using round64_exact [OF assms, of 0] by simp

lemma ulp_le:
  assumes nz: "x \<noteq> 0"
  shows "ulp x \<le> \<bar>x\<bar> / 2 ^ 52 + 1"
proof (cases "2 powi (- 1022) \<le> \<bar>x\<bar>")
  case True thus ?thesis using ulp_normal [OF True] by simp
next
  case False
  have nn: "0 \<le> \<bar>x\<bar> / 2 ^ 52" by simp
  have "ulp x \<le> 1"
  proof -
    have "(2::real) powi \<lfloor>log 2 \<bar>x\<bar>\<rfloor> < 2 powi (- 1022)"
      using log_binade(1) [OF nz] False by linarith
    hence "\<lfloor>log 2 \<bar>x\<bar>\<rfloor> < - 1022" by (rule powi2_less_cancel)
    hence "binade x = - 1022" by (simp add: binade_def)
    thus ?thesis by (simp add: ulp_def power_int_minus_divide)
  qed
  thus ?thesis using nn by linarith
qed

text \<open>A crude bound on the rounded number, and no overflow below \<open>2 ^ 1000\<close>.\<close>

lemma round64_crude: "\<bar>round64 x\<bar> \<le> 2 * \<bar>x\<bar> + 1"
proof (cases "x = 0")
  case True thus ?thesis by (simp add: round64_def)
next
  case False
  define A where "A = \<bar>x\<bar> / 2 ^ 52"
  have "\<bar>round64 x - x\<bar> \<le> (A + 1) / 2"
    using round64_error [of x] ulp_le [OF False] by (simp add: A_def)
  moreover have "A \<le> \<bar>x\<bar>" by (simp add: A_def field_simps)
  ultimately show ?thesis
    by (auto simp: abs_if split: if_splits)
qed

lemma fl_finite:
  assumes "\<bar>x\<bar> \<le> 2 ^ 1000"
  shows "fl x = JFin (round64 x)"
proof -
  have "\<bar>round64 x\<bar> \<le> 2 * \<bar>x\<bar> + 1" by (rule round64_crude)
  also have "\<dots> \<le> 2 * 2 ^ 1000 + 1" using assms by simp
  also have "\<dots> < (2::real) ^ 1024" by simp
  finally have "\<bar>round64 x\<bar> < 2 ^ 1024" .
  thus ?thesis by (simp add: fl_def Let_def abs_if split: if_splits)
qed

lemma fl_crude:
  assumes "\<bar>x\<bar> \<le> b" "b \<le> 2 ^ 1000"
  shows "\<exists>y. fl x = JFin y \<and> \<bar>y\<bar> \<le> 2 * b + 1"
proof -
  have "\<bar>x\<bar> \<le> 2 ^ 1000" using assms by (rule order_trans)
  hence "fl x = JFin (round64 x)" by (rule fl_finite)
  moreover have "\<bar>round64 x\<bar> \<le> 2 * \<bar>x\<bar> + 1" by (rule round64_crude)
  moreover have "2 * \<bar>x\<bar> + 1 \<le> 2 * b + 1" using assms(1) by simp
  ultimately show ?thesis by (intro exI [of _ "round64 x"]) linarith
qed

lemma fl_of_int:
  assumes "\<bar>m\<bar> < 2 ^ 53"
  shows "fl (of_int m) = JFin (of_int m)"
proof -
  have "\<bar>of_int m :: real\<bar> < 2 ^ 53" using assms by (metis of_int_abs of_int_less_numeral_power_cancel_iff)
  also have "\<dots> \<le> (2::real) ^ 1000" by simp
  finally have "\<bar>of_int m :: real\<bar> \<le> 2 ^ 1000" by simp
  thus ?thesis using fl_finite [of "of_int m"] round64_of_int [OF assms] by simp
qed

text \<open>The rounding of a number whose binade is known.\<close>

lemma round64_eval:
  assumes "2 powi e \<le> \<bar>x\<bar>" "\<bar>x\<bar> < 2 powi (e + 1)" "- 1022 \<le> e"
  shows "round64 x = of_int (rne (x * 2 powi (52 - e))) * 2 powi (e - 52)"
proof -
  have nz: "x \<noteq> 0"
  proof
    assume "x = 0"
    with assms(1) have "(2::real) powi e \<le> 0" by simp
    moreover have "(0::real) < 2 powi e" by (rule zero_less_power_int) simp
    ultimately show False by linarith
  qed
  have "binade x = e" using binade_eq [OF assms(1,2)] assms(3) by simp
  hence u: "ulp x = 2 powi (e - 52)" by (simp add: ulp_def)
  have "(2::real) powi (52 - e) = inverse (2 powi (e - 52))"
    using power_int_minus [of "2::real" "e - 52"] by simp
  hence "x / ulp x = x * 2 powi (52 - e)" by (simp add: u divide_inverse)
  thus ?thesis using nz by (simp add: round64_def u)
qed

lemma fl_eval:
  assumes "2 powi e \<le> \<bar>x\<bar>" "\<bar>x\<bar> < 2 powi (e + 1)" "- 1022 \<le> e" "\<bar>x\<bar> \<le> 2 ^ 1000"
  shows "fl x = JFin (of_int (rne (x * 2 powi (52 - e))) * 2 powi (e - 52))"
  using fl_finite [OF assms(4)] round64_eval [OF assms(1,2,3)] by simp

text \<open>A positive number in the normal range, rounded.\<close>

lemma fl_pos:
  assumes "2 powi (- 1022) \<le> x" "x \<le> 2 ^ 1000"
  shows "\<exists>y. fl x = JFin y \<and> x * (1 - 1 / 2 ^ 53) \<le> y \<and> y \<le> x * (1 + 1 / 2 ^ 53)"
proof -
  have "(0::real) < 2 powi (- 1022)" by simp
  hence pos: "0 < x" using assms(1) by linarith
  hence ax: "\<bar>x\<bar> = x" by simp
  have "\<bar>round64 x - x\<bar> \<le> x / 2 ^ 53"
    using round64_relative [of x] assms(1) ax by simp
  hence "x - x / 2 ^ 53 \<le> round64 x" "round64 x \<le> x + x / 2 ^ 53"
    by (auto simp: abs_if split: if_splits)
  hence "x * (1 - 1 / 2 ^ 53) \<le> round64 x \<and> round64 x \<le> x * (1 + 1 / 2 ^ 53)"
    by (simp add: algebra_simps)
  moreover have "fl x = JFin (round64 x)" using assms(2) ax by (intro fl_finite) simp
  ultimately show ?thesis by blast
qed

section \<open>Binary64 operations on finite numbers\<close>

lemma add64_fin: "add64 (JFin a) (JFin b) = fl (a + b)"
  by (simp add: add64_def)

lemma sub64_fin: "sub64 (JFin a) (JFin b) = fl (a - b)"
  by (simp add: sub64_def jsub_def)

lemma mul64_fin: "mul64 (JFin a) (JFin b) = fl (a * b)"
  by (simp add: mul64_def)

lemma div64_fin: "b \<noteq> 0 \<Longrightarrow> div64 (JFin a) (JFin b) = fl (a / b)"
  by (simp add: div64_def)

text \<open>Sums and products of integers below \<open>2 ^ 53\<close> are exact.\<close>

lemma add64_int:
  assumes "\<bar>x + y\<bar> < 2 ^ 53"
  shows "add64 (JFin (of_int x)) (JFin (of_int y)) = JFin (of_int (x + y))"
  using fl_of_int [OF assms] by (simp add: add64_fin)

lemma sub64_int:
  assumes "\<bar>x - y\<bar> < 2 ^ 53"
  shows "sub64 (JFin (of_int x)) (JFin (of_int y)) = JFin (of_int (x - y))"
  using fl_of_int [OF assms] by (simp add: sub64_fin)

lemma mul64_int:
  assumes "\<bar>x * y\<bar> < 2 ^ 53"
  shows "mul64 (JFin (of_int x)) (JFin (of_int y)) = JFin (of_int (x * y))"
  using fl_of_int [OF assms] by (simp add: mul64_fin)

text \<open>
  The quotient of two integers is rounded, but not across an integer: its floor and
  its ceiling are those of the exact quotient.
\<close>

lemma round64_ratio:
  fixes p q :: int
  assumes q: "0 < q" "q < 2 ^ 53" and p: "\<bar>p\<bar> < 2 ^ 53"
  shows "\<lfloor>round64 (of_int p / of_int q)\<rfloor> = \<lfloor>of_int p / of_int q :: real\<rfloor>"
    and "\<lceil>round64 (of_int p / of_int q)\<rceil> = \<lceil>of_int p / of_int q :: real\<rceil>"
proof -
  define x :: real where "x = of_int p / of_int q"
  define k where "k = p div q"
  define r where "r = p mod q"
  have qr: "(0::real) < of_int q" using q(1) by simp
  have pk: "p = k * q + r" by (simp add: k_def r_def)
  have r: "0 \<le> r" "r < q" using q(1) by (simp_all add: r_def)
  have xk: "x = of_int k + of_int r / of_int q"
    using qr by (simp add: x_def pk field_simps)
  have both: "\<lfloor>round64 x\<rfloor> = \<lfloor>x\<rfloor> \<and> \<lceil>round64 x\<rceil> = \<lceil>x\<rceil>"
  proof (cases "r = 0")
    case True
    hence xi: "x = of_int k" by (simp add: xk)
    have "\<bar>k\<bar> \<le> \<bar>p\<bar>"
    proof -
      have "\<bar>p\<bar> = \<bar>k\<bar> * q" using True q(1) by (simp add: pk abs_mult)
      moreover have "\<bar>k\<bar> * 1 \<le> \<bar>k\<bar> * q" using q(1) by (intro mult_left_mono) simp_all
      ultimately show ?thesis by simp
    qed
    hence "\<bar>k\<bar> < 2 ^ 53" using p by linarith
    hence "round64 x = x" unfolding xi by (rule round64_of_int)
    thus ?thesis by simp
  next
    case False
    hence r1: "1 \<le> r" "r \<le> q - 1" using r by simp_all
    have lo: "of_int k + 1 / of_int q \<le> x"
    proof -
      have "(1::real) / of_int q \<le> of_int r / of_int q"
        using r1(1) qr by (intro divide_right_mono) simp_all
      thus ?thesis by (simp add: xk)
    qed
    have hi: "x \<le> of_int k + 1 - 1 / of_int q"
    proof -
      have "(of_int r :: real) \<le> of_int (q - 1)" using r1(2) by (simp only: of_int_le_iff)
      hence "of_int r / (of_int q :: real) \<le> of_int (q - 1) / of_int q"
        by (rule divide_right_mono) (rule less_imp_le [OF qr])
      also have "\<dots> = 1 - 1 / of_int q" using qr by (simp add: field_simps)
      finally show ?thesis by (simp add: xk)
    qed
    have pnz: "p \<noteq> 0" using False q(1) by (auto simp: r_def)
    have ax: "\<bar>x\<bar> = of_int \<bar>p\<bar> / of_int q" using qr by (simp add: x_def)
    have "1 \<le> \<bar>p\<bar>" using pnz by simp
    hence "(1::real) \<le> of_int \<bar>p\<bar>" by (simp only: of_int_1_le_iff)
    hence "1 / of_int q \<le> \<bar>x\<bar>" unfolding ax using qr by (intro divide_right_mono) simp_all
    moreover have "(2::real) powi (- 1022) \<le> 1 / of_int q"
    proof -
      have "q \<le> 2 ^ 53" using q(2) by simp
      hence "(of_int q :: real) \<le> 2 ^ 53" by (simp only: of_int_le_numeral_power_cancel_iff)
      hence "1 / (2::real) ^ 53 \<le> 1 / of_int q" using qr by (intro divide_left_mono) simp_all
      moreover have "(2::real) powi (- 1022) \<le> 1 / 2 ^ 53" by (simp add: power_int_minus_divide)
      ultimately show ?thesis by linarith
    qed
    ultimately have "2 powi (- 1022) \<le> \<bar>x\<bar>" by linarith
    hence e: "\<bar>round64 x - x\<bar> \<le> \<bar>x\<bar> / 2 ^ 53" by (rule round64_relative)
    have "of_int \<bar>p\<bar> < (2::real) ^ 53" using p by (metis of_int_less_numeral_power_cancel_iff)
    hence "of_int \<bar>p\<bar> / (2::real) ^ 53 < 1" by simp
    hence "of_int \<bar>p\<bar> / 2 ^ 53 / (of_int q :: real) < 1 / of_int q"
      using qr by (intro divide_strict_right_mono) simp_all
    hence "\<bar>x\<bar> / 2 ^ 53 < 1 / of_int q" by (simp add: ax)
    with e have d: "\<bar>round64 x - x\<bar> < 1 / of_int q" by linarith
    have gt: "of_int k < round64 x" using d lo by (auto simp: abs_if split: if_splits)
    have lt: "round64 x < of_int k + 1" using d hi by (auto simp: abs_if split: if_splits)
    have qpos: "0 < 1 / (of_int q :: real)" using qr by simp
    have xgt: "of_int k < x" using lo qpos by linarith
    have xlt: "x < of_int k + 1" using hi qpos by linarith
    have "\<lfloor>round64 x\<rfloor> = k" using gt lt by (intro floor_unique) simp_all
    moreover have "\<lfloor>x\<rfloor> = k" using xgt xlt by (intro floor_unique) simp_all
    moreover have "\<lceil>round64 x\<rceil> = k + 1" using gt lt by (intro ceiling_unique) simp_all
    moreover have "\<lceil>x\<rceil> = k + 1" using xgt xlt by (intro ceiling_unique) simp_all
    ultimately show ?thesis by simp
  qed
  from both show "\<lfloor>round64 (of_int p / of_int q)\<rfloor> = \<lfloor>of_int p / of_int q :: real\<rfloor>"
    by (simp add: x_def)
  from both show "\<lceil>round64 (of_int p / of_int q)\<rceil> = \<lceil>of_int p / of_int q :: real\<rceil>"
    by (simp add: x_def)
qed

text \<open>Repeated addition of an integer, as long as the sums stay below \<open>2 ^ 53\<close>.\<close>

lemma add64_int_funpow:
  assumes "\<And>j. j \<le> k \<Longrightarrow> \<bar>s + int j * i\<bar> < 2 ^ 53"
  shows "((\<lambda>t. add64 t (JFin (of_int i))) ^^ k) (JFin (of_int s)) = JFin (of_int (s + int k * i))"
  using assms
proof (induction k)
  case 0 thus ?case by simp
next
  case (Suc k)
  have ih: "((\<lambda>t. add64 t (JFin (of_int i))) ^^ k) (JFin (of_int s)) = JFin (of_int (s + int k * i))"
    by (rule Suc.IH) (rule Suc.prems, simp)
  have e: "(s + int k * i) + i = s + int (Suc k) * i" by (simp add: algebra_simps)
  have "\<bar>(s + int k * i) + i\<bar> < 2 ^ 53"
    unfolding e by (rule Suc.prems) simp
  hence "add64 (JFin (of_int (s + int k * i))) (JFin (of_int i)) = JFin (of_int ((s + int k * i) + i))"
    by (rule add64_int)
  thus ?case
    by (simp only: funpow.simps o_apply ih e)
qed

section \<open>Tile decoding\<close>

text \<open>
  C7. For every triple of channel bytes the decoder returns exactly
  \<open>c0 * 256 + c1 + c2 / 256 - 32768\<close>, a finite number.
\<close>

theorem decodeTerrarium_law:
  "decodeTerrarium (byteNum c0) (byteNum c1) (byteNum c2) =
     JFin (of_nat (unat c0) * 256 + of_nat (unat c1) + of_nat (unat c2) / 256 - 32768)"
  by (simp add: decodeTerrarium_def byteNum_def jsub_def)

text \<open>
  The decoded value is a multiple of \<open>1 / 256\<close> of magnitude at most \<open>2 ^ 15\<close>,
  that is 24 significant bits: the \<^verbatim>\<open>Float32Array\<close> cell holds it unrounded.
\<close>

lemma decodeTerrarium_binary32:
  "\<exists>m :: int. decodeTerrarium (byteNum c0) (byteNum c1) (byteNum c2) = JFin (of_int m / 256) \<and>
              - (2 ^ 23) \<le> m \<and> m < 2 ^ 23"
proof -
  let ?m = "uint c0 * 65536 + uint c1 * 256 + uint c2 - 8388608"
  have b: "uint c0 < 256" "uint c1 < 256" "uint c2 < 256"
    using unsigned_less [of c0, where ?'a = int] unsigned_less [of c1, where ?'a = int]
      unsigned_less [of c2, where ?'a = int] by simp_all
  have n: "0 \<le> uint c0" "0 \<le> uint c1" "0 \<le> uint c2" by simp_all
  have "decodeTerrarium (byteNum c0) (byteNum c1) (byteNum c2) = JFin (of_int ?m / 256)"
    by (simp add: decodeTerrarium_def byteNum_def jsub_def field_simps)
  moreover have "- (2 ^ 23) \<le> ?m" using n by simp
  moreover have "?m < 2 ^ 23" using b by simp
  ultimately show ?thesis by blast
qed

section \<open>The threshold loop in exact arithmetic\<close>

lemma planStart_fin: "i \<noteq> 0 \<Longrightarrow> planStart (JFin mn) (JFin i) = JFin (of_int \<lfloor>mn / i\<rfloor> * i)"
  by (simp add: planStart_def)

lemma planEnd_fin: "i \<noteq> 0 \<Longrightarrow> planEnd (JFin mx) (JFin i) = JFin (of_int \<lceil>mx / i\<rceil> * i)"
  by (simp add: planEnd_def)

lemma threshold_count:
  fixes i :: real and a b :: int
  assumes "0 < i"
  shows "(of_int a * i + real k * i \<le> of_int b * i) = (int k \<le> b - a)"
proof -
  have "of_int a * i + real k * i = of_int (a + int k) * i"
    by (simp add: algebra_simps)
  then have "(of_int a * i + real k * i \<le> of_int b * i) = (of_int (a + int k) * i \<le> of_int b * i)"
    by simp
  also have "\<dots> = ((of_int (a + int k) :: real) \<le> of_int b)"
    using assms by (simp only: mult_le_cancel_right_pos)
  also have "\<dots> = (int k \<le> b - a)"
    by (simp only: of_int_le_iff) arith
  finally show ?thesis .
qed

lemma thresholdsOf_finite:
  assumes "0 < i"
  shows "thresholdsOf (JFin mn) (JFin mx) (JFin i) =
    Some (Inr (map (\<lambda>k. JFin (of_int \<lfloor>mn / i\<rfloor> * i + real k * i))
                 [1..<Suc (nat (\<lceil>mx / i\<rceil> - \<lfloor>mn / i\<rfloor>))]))"
proof -
  let ?a = "\<lfloor>mn / i\<rfloor>" and ?b = "\<lceil>mx / i\<rceil>"
  let ?n = "nat (?b - ?a)"
  let ?t0 = "JFin (of_int ?a * i + i)"
  let ?cond = "\<lambda>t. jle t (JFin (of_int ?b * i))"
  let ?step = "\<lambda>t. jadd t (JFin i)"
  have it: "\<And>k. (?step ^^ k) ?t0 = JFin (of_int ?a * i + real (Suc k) * i)"
    by (simp add: addstep_funpow algebra_simps)
  have c1: "\<And>k. k < ?n \<Longrightarrow> ?cond ((?step ^^ k) ?t0)"
  proof -
    fix k assume "k < ?n"
    then have "int (Suc k) \<le> ?b - ?a" by simp
    then show "?cond ((?step ^^ k) ?t0)"
      by (simp only: it jle.simps threshold_count [OF assms])
  qed
  have c2: "\<not> ?cond ((?step ^^ ?n) ?t0)"
  proof -
    have "\<not> int (Suc ?n) \<le> ?b - ?a" by simp
    then show ?thesis
      by (simp only: it jle.simps threshold_count [OF assms] not_False_eq_True)
  qed
  have unfold: "thresholdsOf (JFin mn) (JFin mx) (JFin i) =
      forLoop ?cond ?step (\<lambda>t ths. Some (Inr (ths @ [t]))) ?t0 []"
    using assms by (simp add: thresholdsOf_def planStart_fin planEnd_fin)
  have "forLoop ?cond ?step (\<lambda>t ths. Some (Inr (ths @ [t]))) ?t0 [] =
      iterE (\<lambda>t ths. Some (Inr (ths @ [t]))) (map (\<lambda>k. (?step ^^ k) ?t0) [0..<?n]) []"
    by (rule forLoop_unroll [where cond = ?cond and step = ?step and n = ?n and t = ?t0, OF c1 c2])
  also have "\<dots> = Some (Inr (map (\<lambda>k. JFin (of_int ?a * i + real (Suc k) * i)) [0..<?n]))"
    by (simp only: iterE_push it append_Nil)
  also have "map (\<lambda>k. JFin (of_int ?a * i + real (Suc k) * i)) [0..<?n] =
      map (\<lambda>k. JFin (of_int ?a * i + real k * i)) [1..<Suc ?n]"
    by (simp only: map_Suc_upt [symmetric] map_map o_def One_nat_def)
  finally show ?thesis
    by (simp only: unfold)
qed





lemma threshold_members:
  fixes i :: real
  assumes "0 < i"
  shows "(k \<in> set [1..<Suc (nat (b - a))]) = (1 \<le> k \<and> of_int a * i + real k * i \<le> of_int b * i)"
  unfolding threshold_count [OF assms] by auto



section \<open>The threshold loop in binary64\<close>

text \<open>
  A loop that pushes its variable and returns has run over finitely many values of
  the variable: the condition holds for each of them and fails at the next one.
\<close>

lemma forLoop_run:
  fixes r :: "'e + jsnum list"
  assumes "forLoop cond step (\<lambda>t ths. Some (Inr (ths @ [t]))) t s = Some r"
  shows "\<exists>n. r = Inr (s @ map (\<lambda>k. (step ^^ k) t) [0..<n]) \<and>
             (\<forall>k<n. cond ((step ^^ k) t)) \<and> \<not> cond ((step ^^ n) t)"
proof -
  let ?push = "\<lambda>(t::jsnum) ths. Some (Inr (ths @ [t]) :: 'e + jsnum list)"
  let ?P = "\<lambda>(cond :: jsnum \<Rightarrow> bool) (step :: jsnum \<Rightarrow> jsnum) body (t :: jsnum)
      (s :: jsnum list) (r :: 'e + jsnum list). body = ?push \<longrightarrow>
      (\<exists>n. r = Inr (s @ map (\<lambda>k. (step ^^ k) t) [0..<n]) \<and>
           (\<forall>k<n. cond ((step ^^ k) t)) \<and> \<not> cond ((step ^^ n) t))"
  have "?P cond step ?push t s r"
  proof (rule forLoop.raw_induct [where P = ?P])
    show "forLoop cond step ?push t s = Some r" by (rule assms)
  next
    fix loop cond step body t s r
    assume IH: "\<And>cond step body t s r. loop cond step body t s = Some r \<Longrightarrow> ?P cond step body t s r"
    assume eq: "(if cond t
        then Option.bind (body t s)
               (\<lambda>r. case r of Inl e \<Rightarrow> Some (Inl e) | Inr s' \<Rightarrow> loop cond step body (step t) s')
        else Some (Inr s)) = Some r"
    show "?P cond step body t s r"
    proof
      assume b: "body = ?push"
      show "\<exists>n. r = Inr (s @ map (\<lambda>k. (step ^^ k) t) [0..<n]) \<and>
             (\<forall>k<n. cond ((step ^^ k) t)) \<and> \<not> cond ((step ^^ n) t)"
      proof (cases "cond t")
        case False
        with eq have "r = Inr s" by simp
        with False show ?thesis by (intro exI [of _ 0]) simp
      next
        case True
        with eq b have "loop cond step body (step t) (s @ [t]) = Some r" by simp
        from IH [OF this] b obtain n where
          n: "r = Inr ((s @ [t]) @ map (\<lambda>k. (step ^^ k) (step t)) [0..<n])"
             "\<forall>k<n. cond ((step ^^ k) (step t))" "\<not> cond ((step ^^ n) (step t))"
          by blast
        have "r = Inr (s @ map (\<lambda>k. (step ^^ k) t) [0..<Suc n])"
          by (simp add: n(1) map_upt_Suc_shift funpow_swap1 del: upt_Suc)
        moreover have "\<forall>k<Suc n. cond ((step ^^ k) t)"
        proof (intro allI impI)
          fix k assume k: "k < Suc n"
          show "cond ((step ^^ k) t)"
          proof (cases k)
            case 0 thus ?thesis using True by simp
          next
            case (Suc j)
            with k n(2) show ?thesis by (simp add: funpow_swap1)
          qed
        qed
        moreover have "\<not> cond ((step ^^ Suc n) t)" using n(3) by (simp add: funpow_swap1)
        ultimately show ?thesis by blast
      qed
    qed
  qed
  thus ?thesis by simp
qed

lemma ex_drop_middle: "\<exists>n. A n \<and> B n \<and> C n \<Longrightarrow> \<exists>n. A n \<and> C n"
  by blast

lemma thresholds64_run:
  assumes "thresholds64 minE maxE interval = Some r"
  shows "\<exists>n. r = Inr (map (\<lambda>k. ((\<lambda>t. add64 t interval) ^^ k) (add64 (planStart64 minE interval) interval))
                        [0..<n]) \<and>
             (\<forall>k<n. jle (((\<lambda>t. add64 t interval) ^^ k) (add64 (planStart64 minE interval) interval))
                       (planEnd64 maxE interval)) \<and>
             \<not> jle (((\<lambda>t. add64 t interval) ^^ n) (add64 (planStart64 minE interval) interval))
                   (planEnd64 maxE interval)"
  using forLoop_run [OF assms [unfolded thresholds64_def]] by simp

lemma thresholds64_empty:
  "(thresholds64 minE maxE interval = Some (Inr [])) =
   (\<not> jle (add64 (planStart64 minE interval) interval) (planEnd64 maxE interval))"
proof
  assume "thresholds64 minE maxE interval = Some (Inr [])"
  from thresholds64_run [OF this] obtain n where
    n: "[] = map (\<lambda>k. ((\<lambda>t. add64 t interval) ^^ k) (add64 (planStart64 minE interval) interval)) [0..<n]"
       "\<not> jle (((\<lambda>t. add64 t interval) ^^ n) (add64 (planStart64 minE interval) interval))
                   (planEnd64 maxE interval)"
    by blast
  from n(1) have "n = 0" by simp
  with n(2) show "\<not> jle (add64 (planStart64 minE interval) interval) (planEnd64 maxE interval)"
    by simp
next
  assume "\<not> jle (add64 (planStart64 minE interval) interval) (planEnd64 maxE interval)"
  thus "thresholds64 minE maxE interval = Some (Inr [])"
    unfolding thresholds64_def by (subst forLoop.simps) simp
qed

lemma plan64_no_layers:
  "(plan64 minE maxE interval = Some (Inl NoLayersProduced)) =
   (thresholds64 minE maxE interval = Some (Inr []))"
proof (cases "thresholds64 minE maxE interval")
  case None
  thus ?thesis by (simp add: plan64_def)
next
  case (Some r)
  from thresholds64_run [OF Some] obtain ths where "r = Inr ths" by blast
  with Some show ?thesis by (simp add: plan64_def)
qed

text \<open>
  Elevations that are multiples of \<open>1 / 256\<close>, as the decoder returns them, and a
  whole-number interval: only the two quotients are rounded, and not across an
  integer, so that the loop computes the thresholds of exact arithmetic.
\<close>

lemma divide_ge_one_le:
  fixes a d :: real
  assumes "0 \<le> a" "1 \<le> d"
  shows "a / d \<le> a"
proof -
  have "a * 1 \<le> a * d" using assms by (intro mult_left_mono)
  moreover have "0 < d" using assms(2) by linarith
  ultimately show ?thesis by (simp add: pos_divide_le_eq)
qed

lemma div64_floor_ceiling:
  fixes m i :: int
  assumes i: "0 < i" "i \<le> 2 ^ 20" and m: "\<bar>m\<bar> \<le> 2 ^ 31"
  shows "jfloor (div64 (JFin (of_int m / 256)) (JFin (of_int i))) =
           JFin (of_int \<lfloor>of_int m / 256 / of_int i :: real\<rfloor>)"
    and "jceil (div64 (JFin (of_int m / 256)) (JFin (of_int i))) =
           JFin (of_int \<lceil>of_int m / 256 / of_int i :: real\<rceil>)"
proof -
  define x :: real where "x = of_int m / 256 / of_int i"
  have xq: "x = of_int m / of_int (256 * i)" by (simp add: x_def)
  have q: "0 < 256 * i" "256 * i < 2 ^ 53" using i by simp_all
  have p: "\<bar>m\<bar> < 2 ^ 53" using m by simp
  have "1 \<le> 256 * i" using i(1) by simp
  hence d1: "(1::real) \<le> of_int (256 * i)" by (simp only: of_int_1_le_iff)
  hence "\<bar>x\<bar> = \<bar>of_int m\<bar> / of_int (256 * i)" by (simp add: xq)
  also have "\<dots> \<le> \<bar>of_int m\<bar>" using d1 by (intro divide_ge_one_le) simp_all
  also have "\<dots> \<le> 2 ^ 31" using m by (metis of_int_abs of_int_le_numeral_power_cancel_iff)
  also have "\<dots> \<le> (2::real) ^ 1000" by simp
  finally have flx: "fl x = JFin (round64 x)" by (rule fl_finite)
  have nz: "(of_int i :: real) \<noteq> 0" using i(1) by simp
  have d: "div64 (JFin (of_int m / 256)) (JFin (of_int i)) = JFin (round64 x)"
    unfolding div64_fin [OF nz] x_def [symmetric] by (rule flx)
  have f: "\<lfloor>round64 x\<rfloor> = \<lfloor>x\<rfloor>" unfolding xq by (rule round64_ratio(1) [OF q p])
  have c: "\<lceil>round64 x\<rceil> = \<lceil>x\<rceil>" unfolding xq by (rule round64_ratio(2) [OF q p])
  show "jfloor (div64 (JFin (of_int m / 256)) (JFin (of_int i))) =
           JFin (of_int \<lfloor>of_int m / 256 / of_int i :: real\<rfloor>)"
    unfolding d x_def [symmetric] by (simp only: jfloor.simps f)
  show "jceil (div64 (JFin (of_int m / 256)) (JFin (of_int i))) =
           JFin (of_int \<lceil>of_int m / 256 / of_int i :: real\<rceil>)"
    unfolding d x_def [symmetric] by (simp only: jceil.simps c)
qed

lemma bucket_bound:
  fixes m i :: int
  assumes i: "0 < i" and m: "\<bar>m\<bar> \<le> 2 ^ 31"
  shows "\<bar>\<lfloor>of_int m / 256 / of_int i :: real\<rfloor>\<bar> \<le> 2 ^ 31"
    and "\<bar>\<lceil>of_int m / 256 / of_int i :: real\<rceil>\<bar> \<le> 2 ^ 31"
proof -
  define x :: real where "x = of_int m / 256 / of_int i"
  have xq: "x = of_int m / of_int (256 * i)" by (simp add: x_def)
  have "1 \<le> 256 * i" using i by simp
  hence d1: "(1::real) \<le> of_int (256 * i)" by (simp only: of_int_1_le_iff)
  hence "\<bar>x\<bar> = \<bar>of_int m\<bar> / of_int (256 * i)" by (simp add: xq)
  also have "\<dots> \<le> \<bar>of_int m\<bar>" using d1 by (intro divide_ge_one_le) simp_all
  also have "\<dots> \<le> 2 ^ 31" using m by (metis of_int_abs of_int_le_numeral_power_cancel_iff)
  finally have b: "- (2 ^ 31) \<le> x" "x \<le> 2 ^ 31" by (auto simp: abs_if split: if_splits)
  have "(- (2 ^ 31) :: int) \<le> \<lfloor>x\<rfloor>" using b(1) by (simp add: le_floor_iff)
  moreover have "\<lfloor>x\<rfloor> \<le> 2 ^ 31" using b(2) by (simp add: floor_le_iff)
  ultimately have f: "\<bar>\<lfloor>x\<rfloor>\<bar> \<le> 2 ^ 31" by linarith
  have "(- (2 ^ 31) :: int) \<le> \<lceil>x\<rceil>" using b(1) by (simp add: le_ceiling_iff)
  moreover have "\<lceil>x\<rceil> \<le> 2 ^ 31" using b(2) by (simp add: ceiling_le_iff)
  ultimately have c: "\<bar>\<lceil>x\<rceil>\<bar> \<le> 2 ^ 31" by linarith
  from f show "\<bar>\<lfloor>of_int m / 256 / of_int i :: real\<rfloor>\<bar> \<le> 2 ^ 31" by (simp only: x_def)
  from c show "\<bar>\<lceil>of_int m / 256 / of_int i :: real\<rceil>\<bar> \<le> 2 ^ 31" by (simp only: x_def)
qed

lemma product_bound:
  fixes a i :: int
  assumes "\<bar>a\<bar> \<le> 2 ^ 31 + 1" "0 < i" "i \<le> 2 ^ 20"
  shows "\<bar>a * i\<bar> < 2 ^ 53"
proof -
  have "\<bar>a * i\<bar> = \<bar>a\<bar> * i" using assms(2) by (simp add: abs_mult)
  also have "\<dots> \<le> (2 ^ 31 + 1) * 2 ^ 20"
    using assms by (intro mult_mono) simp_all
  also have "\<dots> < 2 ^ 53" by simp
  finally show ?thesis .
qed

lemma planStart64_exact:
  fixes m i :: int
  assumes i: "0 < i" "i \<le> 2 ^ 20" and m: "\<bar>m\<bar> \<le> 2 ^ 31"
  shows "planStart64 (JFin (of_int m / 256)) (JFin (of_int i)) =
           JFin (of_int (\<lfloor>of_int m / 256 / of_int i :: real\<rfloor> * i))"
proof -
  have "\<bar>\<lfloor>of_int m / 256 / of_int i :: real\<rfloor>\<bar> \<le> 2 ^ 31 + 1"
    using bucket_bound(1) [OF i(1) m] by linarith
  hence "\<bar>\<lfloor>of_int m / 256 / of_int i :: real\<rfloor> * i\<bar> < 2 ^ 53"
    using i by (rule product_bound)
  thus ?thesis
    unfolding planStart64_def div64_floor_ceiling(1) [OF i m] by (rule mul64_int)
qed

lemma planEnd64_exact:
  fixes m i :: int
  assumes i: "0 < i" "i \<le> 2 ^ 20" and m: "\<bar>m\<bar> \<le> 2 ^ 31"
  shows "planEnd64 (JFin (of_int m / 256)) (JFin (of_int i)) =
           JFin (of_int (\<lceil>of_int m / 256 / of_int i :: real\<rceil> * i))"
proof -
  have "\<bar>\<lceil>of_int m / 256 / of_int i :: real\<rceil>\<bar> \<le> 2 ^ 31 + 1"
    using bucket_bound(2) [OF i(1) m] by linarith
  hence "\<bar>\<lceil>of_int m / 256 / of_int i :: real\<rceil> * i\<bar> < 2 ^ 53"
    using i by (rule product_bound)
  thus ?thesis
    unfolding planEnd64_def div64_floor_ceiling(2) [OF i m] by (rule mul64_int)
qed

lemma thresholds64_int:
  fixes a b i :: int
  assumes i: "0 < i" "i \<le> 2 ^ 20" and a: "\<bar>a\<bar> \<le> 2 ^ 31" and b: "\<bar>b\<bar> \<le> 2 ^ 31"
  shows "forLoop (\<lambda>t. jle t (JFin (of_int (b * i)))) (\<lambda>t. add64 t (JFin (of_int i)))
           (\<lambda>t ths. Some (Inr (ths @ [t])))
           (add64 (JFin (of_int (a * i))) (JFin (of_int i))) [] =
         Some (Inr (map (\<lambda>k. JFin (of_int (a * i + int k * i))) [1..<Suc (nat (b - a))]))"
proof -
  let ?n = "nat (b - a)"
  let ?cond = "\<lambda>t. jle t (JFin (of_int (b * i)))"
  let ?step = "\<lambda>t. add64 t (JFin (of_int i))"
  let ?t0 = "JFin (of_int (a * i + i))"
  have bound: "\<bar>a * i + i + int j * i\<bar> < 2 ^ 53" if "j \<le> ?n" for j
  proof -
    have "\<bar>a + 1 + int j\<bar> \<le> 2 ^ 31 + 1" using that a b by linarith
    hence "\<bar>(a + 1 + int j) * i\<bar> < 2 ^ 53" using i by (rule product_bound)
    thus ?thesis by (simp add: algebra_simps)
  qed
  have "\<bar>a * i + i\<bar> < 2 ^ 53" using bound [of 0] by simp
  hence t0: "add64 (JFin (of_int (a * i))) (JFin (of_int i)) = ?t0" by (rule add64_int)
  have it: "(?step ^^ k) ?t0 = JFin (of_int (a * i + i + int k * i))" if "k \<le> ?n" for k
  proof (rule add64_int_funpow)
    fix j assume "j \<le> k"
    with that have "j \<le> ?n" by simp
    thus "\<bar>a * i + i + int j * i\<bar> < 2 ^ 53" by (rule bound)
  qed
  have le: "(a * i + i + int k * i \<le> b * i) = (k < ?n)" for k
  proof -
    have "a * i + i + int k * i = (a + 1 + int k) * i" by (simp add: algebra_simps)
    hence "(a * i + i + int k * i \<le> b * i) = ((a + 1 + int k) * i \<le> b * i)" by simp
    also have "\<dots> = (a + 1 + int k \<le> b)" using i(1) by simp
    also have "\<dots> = (k < ?n)" by linarith
    finally show ?thesis .
  qed
  have c1: "\<And>k. k < ?n \<Longrightarrow> ?cond ((?step ^^ k) ?t0)"
  proof -
    fix k assume k: "k < ?n"
    hence "(?step ^^ k) ?t0 = JFin (of_int (a * i + i + int k * i))" by (intro it) simp
    thus "?cond ((?step ^^ k) ?t0)" using k by (simp only: jle.simps of_int_le_iff le)
  qed
  have c2: "\<not> ?cond ((?step ^^ ?n) ?t0)"
  proof -
    have "(?step ^^ ?n) ?t0 = JFin (of_int (a * i + i + int ?n * i))" by (intro it) simp
    thus ?thesis by (simp only: jle.simps of_int_le_iff le)
  qed
  have "forLoop ?cond ?step (\<lambda>t ths. Some (Inr (ths @ [t]))) ?t0 [] =
      iterE (\<lambda>t ths. Some (Inr (ths @ [t]))) (map (\<lambda>k. (?step ^^ k) ?t0) [0..<?n]) []"
    by (rule forLoop_unroll [where cond = ?cond and step = ?step and n = ?n and t = ?t0, OF c1 c2])
  also have "\<dots> = Some (Inr (map (\<lambda>k. (?step ^^ k) ?t0) [0..<?n]))"
    by (simp only: iterE_push append_Nil)
  also have "map (\<lambda>k. (?step ^^ k) ?t0) [0..<?n] =
      map (\<lambda>k. JFin (of_int (a * i + i + int k * i))) [0..<?n]"
  proof (rule map_cong [OF refl])
    fix k assume "k \<in> set [0..<?n]"
    hence "k \<le> ?n" by simp
    thus "(?step ^^ k) ?t0 = JFin (of_int (a * i + i + int k * i))" by (rule it)
  qed
  also have "\<dots> = map (\<lambda>k. JFin (of_int (a * i + int (Suc k) * i))) [0..<?n]"
    by (simp add: algebra_simps)
  also have "\<dots> = map (\<lambda>k. JFin (of_int (a * i + int k * i))) [1..<Suc ?n]"
    by (simp only: map_Suc_upt [symmetric] map_map o_def One_nat_def)
  finally show ?thesis by (simp only: t0)
qed

lemma thresholds64_exact:
  fixes m M i :: int
  assumes i: "0 < i" "i \<le> 2 ^ 20" and m: "\<bar>m\<bar> \<le> 2 ^ 31" and M: "\<bar>M\<bar> \<le> 2 ^ 31"
  shows "thresholds64 (JFin (of_int m / 256)) (JFin (of_int M / 256)) (JFin (of_int i)) =
     Some (Inr (map (\<lambda>k. JFin (of_int \<lfloor>of_int m / 256 / of_int i :: real\<rfloor> * of_int i + real k * of_int i))
                  [1..<Suc (nat (\<lceil>of_int M / 256 / of_int i :: real\<rceil> -
                                 \<lfloor>of_int m / 256 / of_int i :: real\<rfloor>))]))"
proof -
  let ?a = "\<lfloor>of_int m / 256 / of_int i :: real\<rfloor>" and ?b = "\<lceil>of_int M / 256 / of_int i :: real\<rceil>"
  have "thresholds64 (JFin (of_int m / 256)) (JFin (of_int M / 256)) (JFin (of_int i)) =
      Some (Inr (map (\<lambda>k. JFin (of_int (?a * i + int k * i))) [1..<Suc (nat (?b - ?a))]))"
    unfolding thresholds64_def planStart64_exact [OF i m] planEnd64_exact [OF i M]
    by (rule thresholds64_int [OF i bucket_bound(1) [OF i(1) m] bucket_bound(2) [OF i(1) M]])
  thus ?thesis by simp
qed

text \<open>There the loop of binary64 and the loop of exact arithmetic agree.\<close>

lemma thresholds64_thresholdsOf:
  fixes m M i :: int
  assumes i: "0 < i" "i \<le> 2 ^ 20" and m: "\<bar>m\<bar> \<le> 2 ^ 31" and M: "\<bar>M\<bar> \<le> 2 ^ 31"
  shows "thresholds64 (JFin (of_int m / 256)) (JFin (of_int M / 256)) (JFin (of_int i)) =
         thresholdsOf (JFin (of_int m / 256)) (JFin (of_int M / 256)) (JFin (of_int i))"
proof -
  have "(0::real) < of_int i" using i(1) by simp
  from thresholdsOf_finite [OF this] thresholds64_exact [OF assms] show ?thesis by simp
qed

lemma thresholds64_105_242_30:
  "thresholds64 (JFin 105) (JFin 242) (JFin 30) =
     Some (Inr [JFin 120, JFin 150, JFin 180, JFin 210, JFin 240, JFin 270])"
  using thresholds64_exact [of 30 26880 61952] by (simp add: upt_rec [of _ "numeral n" for n])

lemma thresholds64_100_110_50:
  "thresholds64 (JFin 100) (JFin 110) (JFin 50) = Some (Inr [JFin 150])"
  using thresholds64_exact [of 50 25600 28160] by (simp add: upt_rec [of _ "numeral n" for n])

text \<open>
  Runs of the loop on numbers that are not whole. The literal \<^verbatim>\<open>0.1\<close> denotes the
  binary64 number \<open>3602879701896397 / 2 ^ 55\<close>, the literal \<^verbatim>\<open>0.3\<close> the number
  \<open>5404319552844595 / 2 ^ 54\<close>, and \<^verbatim>\<open>1e-20\<close> the number
  \<open>6646139978924579 / 2 ^ 119\<close>.
\<close>

text \<open>
  Range 0 to 1.75 with the interval \<^verbatim>\<open>0.3\<close>: five thresholds, the running sums
  \<^verbatim>\<open>0.3\<close>, \<^verbatim>\<open>0.6\<close>, \<^verbatim>\<open>0.8999999999999999\<close>, \<^verbatim>\<open>1.2\<close>, \<^verbatim>\<open>1.5\<close>; the next sum
  \<^verbatim>\<open>1.8\<close> is above \<^verbatim>\<open>end = 1.7999999999999998\<close>.
\<close>

lemma thresholds64_running_sums:
  "planStart64 (JFin 0) (JFin (5404319552844595 / 18014398509481984)) = JFin 0"
  "planEnd64 (JFin (7 / 4)) (JFin (5404319552844595 / 18014398509481984)) = JFin (2026619832316723 / 1125899906842624)"
  "thresholds64 (JFin 0) (JFin (7 / 4)) (JFin (5404319552844595 / 18014398509481984)) =
     Some (Inr [JFin (5404319552844595 / 18014398509481984),
                JFin (5404319552844595 / 9007199254740992),
                JFin (2026619832316723 / 2251799813685248),
                JFin (5404319552844595 / 4503599627370496), JFin (3 / 2)])"
proof -
  have q0: "div64 (JFin 0) (JFin (5404319552844595 / 18014398509481984)) = JFin 0"
    by (simp add: div64_def jsub_def fl_def round64_def)
  have q1: "div64 (JFin (7 / 4)) (JFin (5404319552844595 / 18014398509481984)) =
      JFin (3283874728290987 / 562949953421312)"
    using fl_eval [of 2
        "(7 / 4) / (5404319552844595 / 18014398509481984)"]
    by (simp add: div64_def jsub_def rne_def)
  have st: "mul64 (JFin 0) (JFin (5404319552844595 / 18014398509481984)) = JFin 0"
    by (simp add: mul64_def jsub_def fl_def round64_def)
  have en: "mul64 (JFin 6) (JFin (5404319552844595 / 18014398509481984)) =
      JFin (2026619832316723 / 1125899906842624)"
    using fl_eval [of 0
        "(6) * (5404319552844595 / 18014398509481984)"]
    by (simp add: mul64_def jsub_def rne_def)
  have s0: "add64 (JFin 0) (JFin (5404319552844595 / 18014398509481984)) =
      JFin (5404319552844595 / 18014398509481984)"
    using fl_eval [of "- 2"
        "(0) + (5404319552844595 / 18014398509481984)"]
    by (simp add: add64_def jsub_def rne_def)
  have s1: "add64 (JFin (5404319552844595 / 18014398509481984))
        (JFin (5404319552844595 / 18014398509481984)) =
      JFin (5404319552844595 / 9007199254740992)"
    using fl_eval [of "- 1"
        "(5404319552844595 / 18014398509481984) + (5404319552844595 / 18014398509481984)"]
    by (simp add: add64_def jsub_def rne_def)
  have s2: "add64 (JFin (5404319552844595 / 9007199254740992))
        (JFin (5404319552844595 / 18014398509481984)) =
      JFin (2026619832316723 / 2251799813685248)"
    using fl_eval [of "- 1"
        "(5404319552844595 / 9007199254740992) + (5404319552844595 / 18014398509481984)"]
    by (simp add: add64_def jsub_def rne_def)
  have s3: "add64 (JFin (2026619832316723 / 2251799813685248))
        (JFin (5404319552844595 / 18014398509481984)) =
      JFin (5404319552844595 / 4503599627370496)"
    using fl_eval [of 0
        "(2026619832316723 / 2251799813685248) + (5404319552844595 / 18014398509481984)"]
    by (simp add: add64_def jsub_def rne_def)
  have s4: "add64 (JFin (5404319552844595 / 4503599627370496))
        (JFin (5404319552844595 / 18014398509481984)) =
      JFin (3 / 2)"
    using fl_eval [of 0
        "(5404319552844595 / 4503599627370496) + (5404319552844595 / 18014398509481984)"]
    by (simp add: add64_def jsub_def rne_def)
  have s5: "add64 (JFin (3 / 2)) (JFin (5404319552844595 / 18014398509481984)) =
      JFin (8106479329266893 / 4503599627370496)"
    using fl_eval [of 0
        "(3 / 2) + (5404319552844595 / 18014398509481984)"]
    by (simp add: add64_def jsub_def rne_def)
  show a: "planStart64 (JFin 0) (JFin (5404319552844595 / 18014398509481984)) = JFin 0"
    by (simp add: planStart64_def q0 st)
  show b: "planEnd64 (JFin (7 / 4)) (JFin (5404319552844595 / 18014398509481984)) =
      JFin (2026619832316723 / 1125899906842624)"
    by (simp add: planEnd64_def q1 en)
  show "thresholds64 (JFin 0) (JFin (7 / 4)) (JFin (5404319552844595 / 18014398509481984)) =
     Some (Inr [JFin (5404319552844595 / 18014398509481984),
                JFin (5404319552844595 / 9007199254740992),
                JFin (2026619832316723 / 2251799813685248),
                JFin (5404319552844595 / 4503599627370496), JFin (3 / 2)])"
    unfolding thresholds64_def a b
    apply (simp only: s0)
    apply (subst forLoop.simps, simp add: s1 s2 s3 s4 s5)
    apply (subst forLoop.simps, simp add: s1 s2 s3 s4 s5)
    apply (subst forLoop.simps, simp add: s1 s2 s3 s4 s5)
    apply (subst forLoop.simps, simp add: s1 s2 s3 s4 s5)
    apply (subst forLoop.simps, simp add: s1 s2 s3 s4 s5)
    apply (subst forLoop.simps, simp add: s1 s2 s3 s4 s5)
    done
qed

text \<open>
  Range 1.40625 to 1.5 with the interval \<^verbatim>\<open>0.1\<close>: \<^verbatim>\<open>start\<close> is
  \<^verbatim>\<open>1.4000000000000001\<close>, the first sum \<^verbatim>\<open>1.5000000000000002\<close> is above
  \<^verbatim>\<open>end = 1.5\<close>, and no threshold is planned, although the minimum lies in bucket 14
  and the maximum in bucket 15.
\<close>

lemma thresholds64_across_buckets:
  "planStart64 (JFin (45 / 32)) (JFin (3602879701896397 / 36028797018963968)) = JFin (6305039478318695 / 4503599627370496)"
  "planEnd64 (JFin (3 / 2)) (JFin (3602879701896397 / 36028797018963968)) = JFin (3 / 2)"
  "thresholds64 (JFin (45 / 32)) (JFin (3 / 2)) (JFin (3602879701896397 / 36028797018963968)) =
     Some (Inr [])"
  "jfloor (div64 (JFin (45 / 32)) (JFin (3602879701896397 / 36028797018963968))) = JFin 14"
  "jfloor (div64 (JFin (3 / 2)) (JFin (3602879701896397 / 36028797018963968))) = JFin 15"
  "jceil (div64 (JFin (3 / 2)) (JFin (3602879701896397 / 36028797018963968))) = JFin 15"
proof -
  have q0: "div64 (JFin (45 / 32)) (JFin (3602879701896397 / 36028797018963968)) = JFin (225 / 16)"
    using fl_eval [of 3
        "(45 / 32) / (3602879701896397 / 36028797018963968)"]
    by (simp add: div64_def jsub_def rne_def)
  have q1: "div64 (JFin (3 / 2)) (JFin (3602879701896397 / 36028797018963968)) = JFin 15"
    using fl_eval [of 3
        "(3 / 2) / (3602879701896397 / 36028797018963968)"]
    by (simp add: div64_def jsub_def rne_def)
  have st: "mul64 (JFin 14) (JFin (3602879701896397 / 36028797018963968)) =
      JFin (6305039478318695 / 4503599627370496)"
    using fl_eval [of 0
        "(14) * (3602879701896397 / 36028797018963968)"]
    by (simp add: mul64_def jsub_def rne_def)
  have en: "mul64 (JFin 15) (JFin (3602879701896397 / 36028797018963968)) = JFin (3 / 2)"
    using fl_eval [of 0
        "(15) * (3602879701896397 / 36028797018963968)"]
    by (simp add: mul64_def jsub_def rne_def)
  have s0: "add64 (JFin (6305039478318695 / 4503599627370496))
        (JFin (3602879701896397 / 36028797018963968)) =
      JFin (6755399441055745 / 4503599627370496)"
    using fl_eval [of 0
        "(6305039478318695 / 4503599627370496) + (3602879701896397 / 36028797018963968)"]
    by (simp add: add64_def jsub_def rne_def)
  show a: "planStart64 (JFin (45 / 32)) (JFin (3602879701896397 / 36028797018963968)) =
      JFin (6305039478318695 / 4503599627370496)"
    by (simp add: planStart64_def q0 st)
  show b: "planEnd64 (JFin (3 / 2)) (JFin (3602879701896397 / 36028797018963968)) = JFin (3 / 2)"
    by (simp add: planEnd64_def q1 en)
  show "thresholds64 (JFin (45 / 32)) (JFin (3 / 2)) (JFin (3602879701896397 / 36028797018963968)) =
     Some (Inr [])"
    unfolding thresholds64_def a b
    apply (simp only: s0)
    apply (subst forLoop.simps, simp)
    done
  show "jfloor (div64 (JFin (45 / 32)) (JFin (3602879701896397 / 36028797018963968))) = JFin 14"
    by (simp add: q0)
  show "jfloor (div64 (JFin (3 / 2)) (JFin (3602879701896397 / 36028797018963968))) = JFin 15"
    by (simp add: q1)
  show "jceil (div64 (JFin (3 / 2)) (JFin (3602879701896397 / 36028797018963968))) = JFin 15"
    by (simp add: q1)
qed

text \<open>
  Range 0 to 1.5 with the interval \<^verbatim>\<open>0.1\<close>: fourteen thresholds; the fifteenth
  sum, \<^verbatim>\<open>1.5000000000000002\<close>, is above \<^verbatim>\<open>end = 1.5\<close>.
\<close>

lemma thresholds64_0_15_01:
  "planStart64 (JFin 0) (JFin (3602879701896397 / 36028797018963968)) = JFin 0"
  "planEnd64 (JFin (3 / 2)) (JFin (3602879701896397 / 36028797018963968)) = JFin (3 / 2)"
  "thresholds64 (JFin 0) (JFin (3 / 2)) (JFin (3602879701896397 / 36028797018963968)) =
     Some (Inr [JFin (3602879701896397 / 36028797018963968),
                JFin (3602879701896397 / 18014398509481984),
                JFin (1351079888211149 / 4503599627370496),
                JFin (3602879701896397 / 9007199254740992), JFin (1 / 2),
                JFin (5404319552844595 / 9007199254740992),
                JFin (3152519739159347 / 4503599627370496),
                JFin (7205759403792793 / 9007199254740992),
                JFin (2026619832316723 / 2251799813685248),
                JFin (9007199254740991 / 9007199254740992),
                JFin (4953959590107545 / 4503599627370496),
                JFin (5404319552844595 / 4503599627370496),
                JFin (5854679515581645 / 4503599627370496),
                JFin (6305039478318695 / 4503599627370496)])"
proof -
  have q0: "div64 (JFin 0) (JFin (3602879701896397 / 36028797018963968)) = JFin 0"
    by (simp add: div64_def jsub_def fl_def round64_def)
  have q1: "div64 (JFin (3 / 2)) (JFin (3602879701896397 / 36028797018963968)) = JFin 15"
    using fl_eval [of 3
        "(3 / 2) / (3602879701896397 / 36028797018963968)"]
    by (simp add: div64_def jsub_def rne_def)
  have st: "mul64 (JFin 0) (JFin (3602879701896397 / 36028797018963968)) = JFin 0"
    by (simp add: mul64_def jsub_def fl_def round64_def)
  have en: "mul64 (JFin 15) (JFin (3602879701896397 / 36028797018963968)) = JFin (3 / 2)"
    using fl_eval [of 0
        "(15) * (3602879701896397 / 36028797018963968)"]
    by (simp add: mul64_def jsub_def rne_def)
  have s0: "add64 (JFin 0) (JFin (3602879701896397 / 36028797018963968)) =
      JFin (3602879701896397 / 36028797018963968)"
    using fl_eval [of "- 4"
        "(0) + (3602879701896397 / 36028797018963968)"]
    by (simp add: add64_def jsub_def rne_def)
  have s1: "add64 (JFin (3602879701896397 / 36028797018963968))
        (JFin (3602879701896397 / 36028797018963968)) =
      JFin (3602879701896397 / 18014398509481984)"
    using fl_eval [of "- 3"
        "(3602879701896397 / 36028797018963968) + (3602879701896397 / 36028797018963968)"]
    by (simp add: add64_def jsub_def rne_def)
  have s2: "add64 (JFin (3602879701896397 / 18014398509481984))
        (JFin (3602879701896397 / 36028797018963968)) =
      JFin (1351079888211149 / 4503599627370496)"
    using fl_eval [of "- 2"
        "(3602879701896397 / 18014398509481984) + (3602879701896397 / 36028797018963968)"]
    by (simp add: add64_def jsub_def rne_def)
  have s3: "add64 (JFin (1351079888211149 / 4503599627370496))
        (JFin (3602879701896397 / 36028797018963968)) =
      JFin (3602879701896397 / 9007199254740992)"
    using fl_eval [of "- 2"
        "(1351079888211149 / 4503599627370496) + (3602879701896397 / 36028797018963968)"]
    by (simp add: add64_def jsub_def rne_def)
  have s4: "add64 (JFin (3602879701896397 / 9007199254740992))
        (JFin (3602879701896397 / 36028797018963968)) =
      JFin (1 / 2)"
    using fl_eval [of "- 1"
        "(3602879701896397 / 9007199254740992) + (3602879701896397 / 36028797018963968)"]
    by (simp add: add64_def jsub_def rne_def)
  have s5: "add64 (JFin (1 / 2)) (JFin (3602879701896397 / 36028797018963968)) =
      JFin (5404319552844595 / 9007199254740992)"
    using fl_eval [of "- 1"
        "(1 / 2) + (3602879701896397 / 36028797018963968)"]
    by (simp add: add64_def jsub_def rne_def)
  have s6: "add64 (JFin (5404319552844595 / 9007199254740992))
        (JFin (3602879701896397 / 36028797018963968)) =
      JFin (3152519739159347 / 4503599627370496)"
    using fl_eval [of "- 1"
        "(5404319552844595 / 9007199254740992) + (3602879701896397 / 36028797018963968)"]
    by (simp add: add64_def jsub_def rne_def)
  have s7: "add64 (JFin (3152519739159347 / 4503599627370496))
        (JFin (3602879701896397 / 36028797018963968)) =
      JFin (7205759403792793 / 9007199254740992)"
    using fl_eval [of "- 1"
        "(3152519739159347 / 4503599627370496) + (3602879701896397 / 36028797018963968)"]
    by (simp add: add64_def jsub_def rne_def)
  have s8: "add64 (JFin (7205759403792793 / 9007199254740992))
        (JFin (3602879701896397 / 36028797018963968)) =
      JFin (2026619832316723 / 2251799813685248)"
    using fl_eval [of "- 1"
        "(7205759403792793 / 9007199254740992) + (3602879701896397 / 36028797018963968)"]
    by (simp add: add64_def jsub_def rne_def)
  have s9: "add64 (JFin (2026619832316723 / 2251799813685248))
        (JFin (3602879701896397 / 36028797018963968)) =
      JFin (9007199254740991 / 9007199254740992)"
    using fl_eval [of "- 1"
        "(2026619832316723 / 2251799813685248) + (3602879701896397 / 36028797018963968)"]
    by (simp add: add64_def jsub_def rne_def)
  have s10: "add64 (JFin (9007199254740991 / 9007199254740992))
        (JFin (3602879701896397 / 36028797018963968)) =
      JFin (4953959590107545 / 4503599627370496)"
    using fl_eval [of 0
        "(9007199254740991 / 9007199254740992) + (3602879701896397 / 36028797018963968)"]
    by (simp add: add64_def jsub_def rne_def)
  have s11: "add64 (JFin (4953959590107545 / 4503599627370496))
        (JFin (3602879701896397 / 36028797018963968)) =
      JFin (5404319552844595 / 4503599627370496)"
    using fl_eval [of 0
        "(4953959590107545 / 4503599627370496) + (3602879701896397 / 36028797018963968)"]
    by (simp add: add64_def jsub_def rne_def)
  have s12: "add64 (JFin (5404319552844595 / 4503599627370496))
        (JFin (3602879701896397 / 36028797018963968)) =
      JFin (5854679515581645 / 4503599627370496)"
    using fl_eval [of 0
        "(5404319552844595 / 4503599627370496) + (3602879701896397 / 36028797018963968)"]
    by (simp add: add64_def jsub_def rne_def)
  have s13: "add64 (JFin (5854679515581645 / 4503599627370496))
        (JFin (3602879701896397 / 36028797018963968)) =
      JFin (6305039478318695 / 4503599627370496)"
    using fl_eval [of 0
        "(5854679515581645 / 4503599627370496) + (3602879701896397 / 36028797018963968)"]
    by (simp add: add64_def jsub_def rne_def)
  have s14: "add64 (JFin (6305039478318695 / 4503599627370496))
        (JFin (3602879701896397 / 36028797018963968)) =
      JFin (6755399441055745 / 4503599627370496)"
    using fl_eval [of 0
        "(6305039478318695 / 4503599627370496) + (3602879701896397 / 36028797018963968)"]
    by (simp add: add64_def jsub_def rne_def)
  show a: "planStart64 (JFin 0) (JFin (3602879701896397 / 36028797018963968)) = JFin 0"
    by (simp add: planStart64_def q0 st)
  show b: "planEnd64 (JFin (3 / 2)) (JFin (3602879701896397 / 36028797018963968)) = JFin (3 / 2)"
    by (simp add: planEnd64_def q1 en)
  show "thresholds64 (JFin 0) (JFin (3 / 2)) (JFin (3602879701896397 / 36028797018963968)) =
     Some (Inr [JFin (3602879701896397 / 36028797018963968),
                JFin (3602879701896397 / 18014398509481984),
                JFin (1351079888211149 / 4503599627370496),
                JFin (3602879701896397 / 9007199254740992), JFin (1 / 2),
                JFin (5404319552844595 / 9007199254740992),
                JFin (3152519739159347 / 4503599627370496),
                JFin (7205759403792793 / 9007199254740992),
                JFin (2026619832316723 / 2251799813685248),
                JFin (9007199254740991 / 9007199254740992),
                JFin (4953959590107545 / 4503599627370496),
                JFin (5404319552844595 / 4503599627370496),
                JFin (5854679515581645 / 4503599627370496),
                JFin (6305039478318695 / 4503599627370496)])"
    unfolding thresholds64_def a b
    apply (simp only: s0)
    apply (subst forLoop.simps, simp add: s1 s2 s3 s4 s5 s6 s7 s8 s9 s10 s11 s12 s13 s14)
    apply (subst forLoop.simps, simp add: s1 s2 s3 s4 s5 s6 s7 s8 s9 s10 s11 s12 s13 s14)
    apply (subst forLoop.simps, simp add: s1 s2 s3 s4 s5 s6 s7 s8 s9 s10 s11 s12 s13 s14)
    apply (subst forLoop.simps, simp add: s1 s2 s3 s4 s5 s6 s7 s8 s9 s10 s11 s12 s13 s14)
    apply (subst forLoop.simps, simp add: s1 s2 s3 s4 s5 s6 s7 s8 s9 s10 s11 s12 s13 s14)
    apply (subst forLoop.simps, simp add: s1 s2 s3 s4 s5 s6 s7 s8 s9 s10 s11 s12 s13 s14)
    apply (subst forLoop.simps, simp add: s1 s2 s3 s4 s5 s6 s7 s8 s9 s10 s11 s12 s13 s14)
    apply (subst forLoop.simps, simp add: s1 s2 s3 s4 s5 s6 s7 s8 s9 s10 s11 s12 s13 s14)
    apply (subst forLoop.simps, simp add: s1 s2 s3 s4 s5 s6 s7 s8 s9 s10 s11 s12 s13 s14)
    apply (subst forLoop.simps, simp add: s1 s2 s3 s4 s5 s6 s7 s8 s9 s10 s11 s12 s13 s14)
    apply (subst forLoop.simps, simp add: s1 s2 s3 s4 s5 s6 s7 s8 s9 s10 s11 s12 s13 s14)
    apply (subst forLoop.simps, simp add: s1 s2 s3 s4 s5 s6 s7 s8 s9 s10 s11 s12 s13 s14)
    apply (subst forLoop.simps, simp add: s1 s2 s3 s4 s5 s6 s7 s8 s9 s10 s11 s12 s13 s14)
    apply (subst forLoop.simps, simp add: s1 s2 s3 s4 s5 s6 s7 s8 s9 s10 s11 s12 s13 s14)
    apply (subst forLoop.simps, simp add: s1 s2 s3 s4 s5 s6 s7 s8 s9 s10 s11 s12 s13 s14)
    done
qed

text \<open>
  Range 1.5 to 1.796875 with the interval \<^verbatim>\<open>0.3\<close>: the first sum \<^verbatim>\<open>1.8\<close> is
  above \<^verbatim>\<open>end = 1.7999999999999998\<close>, and no threshold is planned.
\<close>

lemma thresholds64_15_18_03:
  "planStart64 (JFin (3 / 2)) (JFin (5404319552844595 / 18014398509481984)) = JFin (3 / 2)"
  "planEnd64 (JFin (115 / 64)) (JFin (5404319552844595 / 18014398509481984)) = JFin (2026619832316723 / 1125899906842624)"
  "thresholds64 (JFin (3 / 2)) (JFin (115 / 64)) (JFin (5404319552844595 / 18014398509481984)) =
     Some (Inr [])"
proof -
  have q0: "div64 (JFin (3 / 2)) (JFin (5404319552844595 / 18014398509481984)) = JFin 5"
    using fl_eval [of 2
        "(3 / 2) / (5404319552844595 / 18014398509481984)"]
    by (simp add: div64_def jsub_def rne_def)
  have q1: "div64 (JFin (115 / 64)) (JFin (5404319552844595 / 18014398509481984)) =
      JFin (3371835658513067 / 562949953421312)"
    using fl_eval [of 2
        "(115 / 64) / (5404319552844595 / 18014398509481984)"]
    by (simp add: div64_def jsub_def rne_def)
  have st: "mul64 (JFin 5) (JFin (5404319552844595 / 18014398509481984)) = JFin (3 / 2)"
    using fl_eval [of 0
        "(5) * (5404319552844595 / 18014398509481984)"]
    by (simp add: mul64_def jsub_def rne_def)
  have en: "mul64 (JFin 6) (JFin (5404319552844595 / 18014398509481984)) =
      JFin (2026619832316723 / 1125899906842624)"
    using fl_eval [of 0
        "(6) * (5404319552844595 / 18014398509481984)"]
    by (simp add: mul64_def jsub_def rne_def)
  have s0: "add64 (JFin (3 / 2)) (JFin (5404319552844595 / 18014398509481984)) =
      JFin (8106479329266893 / 4503599627370496)"
    using fl_eval [of 0
        "(3 / 2) + (5404319552844595 / 18014398509481984)"]
    by (simp add: add64_def jsub_def rne_def)
  show a: "planStart64 (JFin (3 / 2)) (JFin (5404319552844595 / 18014398509481984)) = JFin (3 / 2)"
    by (simp add: planStart64_def q0 st)
  show b: "planEnd64 (JFin (115 / 64)) (JFin (5404319552844595 / 18014398509481984)) =
      JFin (2026619832316723 / 1125899906842624)"
    by (simp add: planEnd64_def q1 en)
  show "thresholds64 (JFin (3 / 2)) (JFin (115 / 64)) (JFin (5404319552844595 / 18014398509481984)) =
     Some (Inr [])"
    unfolding thresholds64_def a b
    apply (simp only: s0)
    apply (subst forLoop.simps, simp)
    done
qed

text \<open>
  A loop whose variable does not move while its condition holds does not return.
\<close>

lemma funpow_fixed: "f x = x \<Longrightarrow> (f ^^ n) x = x"
  by (induction n) simp_all

lemma forLoop_stuck:
  assumes "cond t" and "step t = t"
  shows "(forLoop cond step (\<lambda>t ths. Some (Inr (ths @ [t]))) t s :: ('e + jsnum list) option) = None"
proof (rule ccontr)
  assume "(forLoop cond step (\<lambda>t ths. Some (Inr (ths @ [t]))) t s :: ('e + jsnum list) option) \<noteq> None"
  then obtain r :: "'e + jsnum list"
    where "forLoop cond step (\<lambda>t ths. Some (Inr (ths @ [t]))) t s = Some r" by auto
  from forLoop_run [OF this] obtain n where "\<not> cond ((step ^^ n) t)" by blast
  with assms show False by (simp add: funpow_fixed)
qed

text \<open>
  Range 100 to 110 with the interval \<^verbatim>\<open>1e-20\<close>: \<^verbatim>\<open>start\<close> is 100, the sum
  \<^verbatim>\<open>100 + 1e-20\<close> is 100 again, and the loop does not end.
\<close>

lemma thresholds64_stuck:
  "thresholds64 (JFin 100) (JFin 110) (JFin (6646139978924579 / 664613997892457936451903530140172288)) = None"
proof -
  have q0: "div64 (JFin 100) (JFin (6646139978924579 / 664613997892457936451903530140172288)) =
      JFin 10000000000000000000000"
    using fl_eval [of 73
        "(100) / (6646139978924579 / 664613997892457936451903530140172288)"]
    by (simp add: div64_def jsub_def rne_def)
  have q1: "div64 (JFin 110) (JFin (6646139978924579 / 664613997892457936451903530140172288)) =
      JFin 11000000000000000000000"
    using fl_eval [of 73
        "(110) / (6646139978924579 / 664613997892457936451903530140172288)"]
    by (simp add: div64_def jsub_def rne_def)
  have st: "mul64 (JFin 10000000000000000000000)
        (JFin (6646139978924579 / 664613997892457936451903530140172288)) =
      JFin 100"
    using fl_eval [of 6
        "(10000000000000000000000) * (6646139978924579 / 664613997892457936451903530140172288)"]
    by (simp add: mul64_def jsub_def rne_def)
  have en: "mul64 (JFin 11000000000000000000000)
        (JFin (6646139978924579 / 664613997892457936451903530140172288)) =
      JFin 110"
    using fl_eval [of 6
        "(11000000000000000000000) * (6646139978924579 / 664613997892457936451903530140172288)"]
    by (simp add: mul64_def jsub_def rne_def)
  have s0: "add64 (JFin 100) (JFin (6646139978924579 / 664613997892457936451903530140172288)) =
      JFin 100"
    using fl_eval [of 6
        "(100) + (6646139978924579 / 664613997892457936451903530140172288)"]
    by (simp add: add64_def jsub_def rne_def)
  have s1: "add64 (JFin 100) (JFin (6646139978924579 / 664613997892457936451903530140172288)) =
      JFin 100"
    using fl_eval [of 6
        "(100) + (6646139978924579 / 664613997892457936451903530140172288)"]
    by (simp add: add64_def jsub_def rne_def)
  have a: "planStart64 (JFin 100) (JFin (6646139978924579 / 664613997892457936451903530140172288)) =
      JFin 100"
    by (simp add: planStart64_def q0 st)
  have b: "planEnd64 (JFin 110) (JFin (6646139978924579 / 664613997892457936451903530140172288)) =
      JFin 110"
    by (simp add: planEnd64_def q1 en)
  show ?thesis
    unfolding thresholds64_def a b s0
    by (rule forLoop_stuck) (simp_all add: s1)
qed

section \<open>Threshold planning\<close>

text \<open>
  C1 (as amended). The planner computes, in binary64, \<open>start = floor(min / i) * i\<close>
  and \<open>end = ceil(max / i) * i\<close>, and a loop that returns has pushed the running
  sums \<open>start + i\<close>, \<open>(start + i) + i\<close>, \<dots>, each sum rounded: every one of
  them is \<open>\<le> end\<close> and the next sum is not. For elevations that are multiples of
  \<open>1 / 256\<close> up to \<open>2 ^ 23\<close> in magnitude, as the decoder returns them, and a
  whole-number interval \<open>i\<close> from 1 to \<open>2 ^ 20\<close>, no sum is rounded, the loop
  returns, and the thresholds are \<open>start + k * i\<close> for \<open>k = 1, 2, \<dots>\<close>, exactly
  those that are \<open>\<le> end\<close>. For \<open>min = 105\<close>, \<open>max = 242\<close>, \<open>i = 30\<close> these
  are the six thresholds 120, 150, 180, 210, 240, 270 (\<open>end\<close> is 270 and is itself
  a threshold).
\<close>

theorem threshold_plan:
  fixes m M i :: int
  shows
  "(\<forall>r. thresholds64 minE maxE interval = Some r \<longrightarrow>
      (\<exists>n. r = Inr (map (\<lambda>k. ((\<lambda>t. add64 t interval) ^^ k) (add64 (planStart64 minE interval) interval))
                        [0..<n]) \<and>
           (\<forall>k<n. jle (((\<lambda>t. add64 t interval) ^^ k) (add64 (planStart64 minE interval) interval))
                     (planEnd64 maxE interval)) \<and>
           \<not> jle (((\<lambda>t. add64 t interval) ^^ n) (add64 (planStart64 minE interval) interval))
                 (planEnd64 maxE interval))) \<and>
   (0 < i \<and> i \<le> 2 ^ 20 \<and> \<bar>m\<bar> \<le> 2 ^ 31 \<and> \<bar>M\<bar> \<le> 2 ^ 31 \<longrightarrow>
      planStart64 (JFin (of_int m / 256)) (JFin (of_int i)) =
        JFin (of_int \<lfloor>of_int m / 256 / of_int i :: real\<rfloor> * of_int i) \<and>
      planEnd64 (JFin (of_int M / 256)) (JFin (of_int i)) =
        JFin (of_int \<lceil>of_int M / 256 / of_int i :: real\<rceil> * of_int i) \<and>
      thresholds64 (JFin (of_int m / 256)) (JFin (of_int M / 256)) (JFin (of_int i)) =
        Some (Inr (map (\<lambda>k. JFin (of_int \<lfloor>of_int m / 256 / of_int i :: real\<rfloor> * of_int i +
                                   real k * of_int i))
                     [1..<Suc (nat (\<lceil>of_int M / 256 / of_int i :: real\<rceil> -
                                    \<lfloor>of_int m / 256 / of_int i :: real\<rfloor>))])) \<and>
      (\<forall>k. (k \<in> set [1..<Suc (nat (\<lceil>of_int M / 256 / of_int i :: real\<rceil> -
                                     \<lfloor>of_int m / 256 / of_int i :: real\<rfloor>))]) =
           (1 \<le> k \<and> of_int \<lfloor>of_int m / 256 / of_int i :: real\<rfloor> * of_int i + real k * of_int i
                       \<le> of_int \<lceil>of_int M / 256 / of_int i :: real\<rceil> * (of_int i :: real)))) \<and>
   thresholds64 (JFin 105) (JFin 242) (JFin 30) =
     Some (Inr [JFin 120, JFin 150, JFin 180, JFin 210, JFin 240, JFin 270])"
proof (intro conjI impI allI)
  fix r assume "thresholds64 minE maxE interval = Some r"
  thus "\<exists>n. r = Inr (map (\<lambda>k. ((\<lambda>t. add64 t interval) ^^ k) (add64 (planStart64 minE interval) interval))
                        [0..<n]) \<and>
           (\<forall>k<n. jle (((\<lambda>t. add64 t interval) ^^ k) (add64 (planStart64 minE interval) interval))
                     (planEnd64 maxE interval)) \<and>
           \<not> jle (((\<lambda>t. add64 t interval) ^^ n) (add64 (planStart64 minE interval) interval))
                 (planEnd64 maxE interval)"
    by (rule thresholds64_run)
next
  assume h: "0 < i \<and> i \<le> 2 ^ 20 \<and> \<bar>m\<bar> \<le> 2 ^ 31 \<and> \<bar>M\<bar> \<le> 2 ^ 31"
  hence i: "0 < i" "i \<le> 2 ^ 20" and m: "\<bar>m\<bar> \<le> 2 ^ 31" and M: "\<bar>M\<bar> \<le> 2 ^ 31" by simp_all
  show "planStart64 (JFin (of_int m / 256)) (JFin (of_int i)) =
        JFin (of_int \<lfloor>of_int m / 256 / of_int i :: real\<rfloor> * of_int i)"
    using planStart64_exact [OF i m] by simp
  show "planEnd64 (JFin (of_int M / 256)) (JFin (of_int i)) =
        JFin (of_int \<lceil>of_int M / 256 / of_int i :: real\<rceil> * of_int i)"
    using planEnd64_exact [OF i M] by simp
  show "thresholds64 (JFin (of_int m / 256)) (JFin (of_int M / 256)) (JFin (of_int i)) =
        Some (Inr (map (\<lambda>k. JFin (of_int \<lfloor>of_int m / 256 / of_int i :: real\<rfloor> * of_int i +
                                   real k * of_int i))
                     [1..<Suc (nat (\<lceil>of_int M / 256 / of_int i :: real\<rceil> -
                                    \<lfloor>of_int m / 256 / of_int i :: real\<rfloor>))]))"
    by (rule thresholds64_exact [OF i m M])
  fix k
  have "(0::real) < of_int i" using i(1) by simp
  thus "(k \<in> set [1..<Suc (nat (\<lceil>of_int M / 256 / of_int i :: real\<rceil> -
                                     \<lfloor>of_int m / 256 / of_int i :: real\<rfloor>))]) =
           (1 \<le> k \<and> of_int \<lfloor>of_int m / 256 / of_int i :: real\<rfloor> * of_int i + real k * of_int i
                       \<le> of_int \<lceil>of_int M / 256 / of_int i :: real\<rceil> * (of_int i :: real))"
    by (rule threshold_members)
next
  show "thresholds64 (JFin 105) (JFin 242) (JFin 30) =
     Some (Inr [JFin 120, JFin 150, JFin 180, JFin 210, JFin 240, JFin 270])"
    by (rule thresholds64_105_242_30)
qed

text \<open>
  The run of the loop at range 0 to 1.75 with interval \<^verbatim>\<open>0.3\<close>, and the formula
  at \<open>min = 3\<close>, \<open>max = 25\<close>, \<open>i = 10\<close>.
\<close>

theorem threshold_plan_witness:
  "thresholds64 (JFin 0) (JFin (7 / 4)) (JFin (5404319552844595 / 18014398509481984)) =
     Some (Inr [JFin (5404319552844595 / 18014398509481984), JFin (5404319552844595 / 9007199254740992),
                JFin (2026619832316723 / 2251799813685248), JFin (5404319552844595 / 4503599627370496),
                JFin (3 / 2)]) \<and>
   (\<exists>n. [JFin (5404319552844595 / 18014398509481984), JFin (5404319552844595 / 9007199254740992),
         JFin (2026619832316723 / 2251799813685248), JFin (5404319552844595 / 4503599627370496),
         JFin (3 / 2)] =
        map (\<lambda>k. ((\<lambda>t. add64 t (JFin (5404319552844595 / 18014398509481984))) ^^ k)
                  (add64 (planStart64 (JFin 0) (JFin (5404319552844595 / 18014398509481984)))
                     (JFin (5404319552844595 / 18014398509481984)))) [0..<n] \<and>
        \<not> jle (((\<lambda>t. add64 t (JFin (5404319552844595 / 18014398509481984))) ^^ n)
                  (add64 (planStart64 (JFin 0) (JFin (5404319552844595 / 18014398509481984)))
                     (JFin (5404319552844595 / 18014398509481984))))
               (planEnd64 (JFin (7 / 4)) (JFin (5404319552844595 / 18014398509481984)))) \<and>
   (0::int) < 10 \<and> (10::int) \<le> 2 ^ 20 \<and> \<bar>768 :: int\<bar> \<le> 2 ^ 31 \<and> \<bar>6400 :: int\<bar> \<le> 2 ^ 31 \<and>
   planStart64 (JFin 3) (JFin 10) = JFin 0 \<and>
   planEnd64 (JFin 25) (JFin 10) = JFin 30 \<and>
   thresholds64 (JFin 3) (JFin 25) (JFin 10) = Some (Inr [JFin 10, JFin 20, JFin 30])"
proof -
  note t = threshold_plan [of "JFin 0" "JFin (7 / 4)" "JFin (5404319552844595 / 18014398509481984)" 10 768 6400]
  from t thresholds64_running_sums(3) have
    "\<exists>n. Inr [JFin (5404319552844595 / 18014398509481984), JFin (5404319552844595 / 9007199254740992),
         JFin (2026619832316723 / 2251799813685248), JFin (5404319552844595 / 4503599627370496),
         JFin (3 / 2)] =
        (Inr (map (\<lambda>k. ((\<lambda>t. add64 t (JFin (5404319552844595 / 18014398509481984))) ^^ k)
                  (add64 (planStart64 (JFin 0) (JFin (5404319552844595 / 18014398509481984)))
                     (JFin (5404319552844595 / 18014398509481984)))) [0..<n]) :: response + jsnum list) \<and>
        (\<forall>k<n. jle (((\<lambda>t. add64 t (JFin (5404319552844595 / 18014398509481984))) ^^ k)
                  (add64 (planStart64 (JFin 0) (JFin (5404319552844595 / 18014398509481984)))
                     (JFin (5404319552844595 / 18014398509481984))))
               (planEnd64 (JFin (7 / 4)) (JFin (5404319552844595 / 18014398509481984)))) \<and>
        \<not> jle (((\<lambda>t. add64 t (JFin (5404319552844595 / 18014398509481984))) ^^ n)
                  (add64 (planStart64 (JFin 0) (JFin (5404319552844595 / 18014398509481984)))
                     (JFin (5404319552844595 / 18014398509481984))))
               (planEnd64 (JFin (7 / 4)) (JFin (5404319552844595 / 18014398509481984)))"
    by blast
  hence run: "\<exists>n. [JFin (5404319552844595 / 18014398509481984), JFin (5404319552844595 / 9007199254740992),
         JFin (2026619832316723 / 2251799813685248), JFin (5404319552844595 / 4503599627370496),
         JFin (3 / 2)] =
        map (\<lambda>k. ((\<lambda>t. add64 t (JFin (5404319552844595 / 18014398509481984))) ^^ k)
                  (add64 (planStart64 (JFin 0) (JFin (5404319552844595 / 18014398509481984)))
                     (JFin (5404319552844595 / 18014398509481984)))) [0..<n] \<and>
        \<not> jle (((\<lambda>t. add64 t (JFin (5404319552844595 / 18014398509481984))) ^^ n)
                  (add64 (planStart64 (JFin 0) (JFin (5404319552844595 / 18014398509481984)))
                     (JFin (5404319552844595 / 18014398509481984))))
               (planEnd64 (JFin (7 / 4)) (JFin (5404319552844595 / 18014398509481984)))"
    by (simp only: sum.inject) (erule ex_drop_middle)
  have h: "(0::int) < 10 \<and> (10::int) \<le> 2 ^ 20 \<and> \<bar>768 :: int\<bar> \<le> 2 ^ 31 \<and> \<bar>6400 :: int\<bar> \<le> 2 ^ 31"
    by simp
  from t h have s: "planStart64 (JFin (of_int 768 / 256)) (JFin (of_int 10)) =
        JFin (of_int \<lfloor>of_int 768 / 256 / of_int 10 :: real\<rfloor> * of_int 10)"
    by blast
  from t h have e: "planEnd64 (JFin (of_int 6400 / 256)) (JFin (of_int 10)) =
        JFin (of_int \<lceil>of_int 6400 / 256 / of_int 10 :: real\<rceil> * of_int 10)"
    by blast
  from t h have l: "thresholds64 (JFin (of_int 768 / 256)) (JFin (of_int 6400 / 256)) (JFin (of_int 10)) =
        Some (Inr (map (\<lambda>k. JFin (of_int \<lfloor>of_int 768 / 256 / of_int 10 :: real\<rfloor> * of_int 10 +
                                   real k * of_int 10))
                     [1..<Suc (nat (\<lceil>of_int 6400 / 256 / of_int 10 :: real\<rceil> -
                                    \<lfloor>of_int 768 / 256 / of_int 10 :: real\<rfloor>))]))"
    by blast
  from s have s': "planStart64 (JFin 3) (JFin 10) = JFin 0" by simp
  from e have e': "planEnd64 (JFin 25) (JFin 10) = JFin 30" by simp
  from l have l': "thresholds64 (JFin 3) (JFin 25) (JFin 10) = Some (Inr [JFin 10, JFin 20, JFin 30])"
    by (simp add: upt_rec [of _ "numeral n" for n])
  from thresholds64_running_sums(3) run h s' e' l' show ?thesis by (intro conjI) simp_all
qed

text \<open>
  The planner does not return the five thresholds 120, \<dots>, 240 for 105, 242, 30.
  And its thresholds are running sums, not multiples: for the range 0 to 1.75 with
  interval \<^verbatim>\<open>0.3\<close> it returns five thresholds, of which the last is \<^verbatim>\<open>1.5\<close> and
  not five times the interval, while \<^verbatim>\<open>6 * 0.3\<close>, in binary64
  \<^verbatim>\<open>1.7999999999999998\<close>, is \<open>\<le> end\<close> and is not among them.
\<close>

theorem threshold_plan_five_counterexample:
  "thresholds64 (JFin 105) (JFin 242) (JFin 30) \<noteq>
     Some (Inr [JFin 120, JFin 150, JFin 180, JFin 210, JFin 240]) \<and>
   thresholds64 (JFin 0) (JFin (7 / 4)) (JFin (5404319552844595 / 18014398509481984)) =
     Some (Inr [JFin (5404319552844595 / 18014398509481984), JFin (5404319552844595 / 9007199254740992),
                JFin (2026619832316723 / 2251799813685248), JFin (5404319552844595 / 4503599627370496),
                JFin (3 / 2)]) \<and>
   JFin (3 / 2) \<noteq> JFin (0 + 5 * (5404319552844595 / 18014398509481984)) \<and>
   jle (add64 (planStart64 (JFin 0) (JFin (5404319552844595 / 18014398509481984)))
          (mul64 (JFin 6) (JFin (5404319552844595 / 18014398509481984))))
       (planEnd64 (JFin (7 / 4)) (JFin (5404319552844595 / 18014398509481984)))"
proof -
  have m6: "mul64 (JFin 6) (JFin (5404319552844595 / 18014398509481984)) = JFin (2026619832316723 / 1125899906842624)"
    using fl_eval [of 0 "(6) * (5404319552844595 / 18014398509481984)"] by (simp add: mul64_def jsub_def rne_def)
  have a6: "add64 (JFin 0) (JFin (2026619832316723 / 1125899906842624)) = JFin (2026619832316723 / 1125899906842624)"
    using fl_eval [of 0 "(0) + (2026619832316723 / 1125899906842624)"] by (simp add: add64_def jsub_def rne_def)
  have "jle (add64 (planStart64 (JFin 0) (JFin (5404319552844595 / 18014398509481984)))
          (mul64 (JFin 6) (JFin (5404319552844595 / 18014398509481984))))
       (planEnd64 (JFin (7 / 4)) (JFin (5404319552844595 / 18014398509481984)))"
    by (simp only: thresholds64_running_sums(1,2) m6 a6) simp
  moreover have "thresholds64 (JFin 105) (JFin 242) (JFin 30) \<noteq>
     Some (Inr [JFin 120, JFin 150, JFin 180, JFin 210, JFin 240])"
    by (simp add: thresholds64_105_242_30)
  moreover have "JFin (3 / 2) \<noteq> JFin (0 + 5 * (5404319552844595 / 18014398509481984))" by simp
  ultimately show ?thesis using thresholds64_running_sums(3) by (intro conjI)
qed

section \<open>The no-layers check\<close>

text \<open>
  C2 (as amended). The export fails with the no-layers response, status 400,
  exactly when the loop returns the empty threshold set, and the set is empty
  exactly when the first sum \<open>start + i\<close>, as computed, is not \<open>\<le> end\<close>. For
  \<open>min = 100\<close>, \<open>max = 110\<close>, \<open>i = 50\<close> the planner returns the single threshold
  150 and the export goes on. The empty set is not confined to a minimum and a
  maximum in one bucket: for \<open>min = 1.40625\<close>, \<open>max = 1.5\<close> and the interval
  \<^verbatim>\<open>0.1\<close> (buckets 14 and 15) the set is empty.
\<close>

theorem no_layers:
  "(plan64 minE maxE interval = Some (Inl NoLayersProduced)) =
     (thresholds64 minE maxE interval = Some (Inr [])) \<and>
   (thresholds64 minE maxE interval = Some (Inr [])) =
     (\<not> jle (add64 (planStart64 minE interval) interval) (planEnd64 maxE interval)) \<and>
   status NoLayersProduced = 400 \<and>
   plan64 (JFin 100) (JFin 110) (JFin 50) = Some (Inr [JFin 150]) \<and>
   plan64 (JFin (45 / 32)) (JFin (3 / 2)) (JFin (3602879701896397 / 36028797018963968)) =
     Some (Inl NoLayersProduced)"
proof (intro conjI)
  show "(plan64 minE maxE interval = Some (Inl NoLayersProduced)) =
     (thresholds64 minE maxE interval = Some (Inr []))"
    by (rule plan64_no_layers)
  show "(thresholds64 minE maxE interval = Some (Inr [])) =
     (\<not> jle (add64 (planStart64 minE interval) interval) (planEnd64 maxE interval))"
    by (rule thresholds64_empty)
  show "status NoLayersProduced = 400" by simp
  show "plan64 (JFin 100) (JFin 110) (JFin 50) = Some (Inr [JFin 150])"
    by (simp add: plan64_def thresholds64_100_110_50)
  show "plan64 (JFin (45 / 32)) (JFin (3 / 2)) (JFin (3602879701896397 / 36028797018963968)) =
     Some (Inl NoLayersProduced)"
    by (simp add: plan64_def thresholds64_across_buckets(3))
qed

text \<open>The two equivalences at an interval that is \<open>NaN\<close>: no threshold, no layers.\<close>

theorem no_layers_witness:
  "\<not> jle (add64 (planStart64 (JFin 100) JNaN) JNaN) (planEnd64 (JFin 110) JNaN) \<and>
   thresholds64 (JFin 100) (JFin 110) JNaN = Some (Inr []) \<and>
   plan64 (JFin 100) (JFin 110) JNaN = Some (Inl NoLayersProduced)"
proof -
  have a: "\<not> jle (add64 (planStart64 (JFin 100) JNaN) JNaN) (planEnd64 (JFin 110) JNaN)"
    by (simp add: planEnd64_def mul64_def jle_NaN_right)
  note t = no_layers [of "JFin 100" "JFin 110" JNaN]
  from t a have b: "thresholds64 (JFin 100) (JFin 110) JNaN = Some (Inr [])" by blast
  from t b have c: "plan64 (JFin 100) (JFin 110) JNaN = Some (Inl NoLayersProduced)" by blast
  from a b c show ?thesis by (intro conjI)
qed

text \<open>
  For 100, 110, 50 the export does not fail for want of layers. And for
  \<open>min = 1.40625\<close>, \<open>max = 1.5\<close> with the interval \<^verbatim>\<open>0.1\<close> the threshold set is
  empty although \<open>floor(min / i) = 14\<close> and \<open>floor(max / i) = ceil(max / i) = 15\<close>.
\<close>

theorem no_layers_100_110_50_counterexample:
  "plan64 (JFin 100) (JFin 110) (JFin 50) \<noteq> Some (Inl NoLayersProduced) \<and>
   thresholds64 (JFin (45 / 32)) (JFin (3 / 2)) (JFin (3602879701896397 / 36028797018963968)) =
     Some (Inr []) \<and>
   jfloor (div64 (JFin (45 / 32)) (JFin (3602879701896397 / 36028797018963968))) = JFin 14 \<and>
   jfloor (div64 (JFin (3 / 2)) (JFin (3602879701896397 / 36028797018963968))) = JFin 15 \<and>
   jceil (div64 (JFin (3 / 2)) (JFin (3602879701896397 / 36028797018963968))) = JFin 15"
  using thresholds64_across_buckets(3,4,5,6)
  by (simp add: plan64_def thresholds64_100_110_50)

section \<open>Request validation\<close>

lemma lonLatToTile_origin: "lonLatToTile (JFin 0) (JFin 0) zoom = (JFin 2048, JFin 2048)"
  by (simp add: lonLatToTile_def zoom_def jsub_def Let_def)

text \<open>
  An interval that is \<open>\<le> 0\<close> (zero, negative or \<open>-Infinity\<close>) gets the 400
  response \<open>BadRequest\<close>, whatever the tile server is, and no tile is requested.
\<close>

lemma interval_le_zero:
  "jle (intervalM rq) (JFin 0) \<Longrightarrow> POST ev rq = Some (BadRequest, []) \<and> status BadRequest = 400"
  by (auto simp add: POST_def badRequest_def split: option.splits)

text \<open>A one-tile range whose tile cannot be fetched: the fetch is made, then the route fails.\<close>

lemma stitch_one_missing:
  "stitch \<lparr> fetchPng = (\<lambda>tx ty. None), maxArrayLength = 4294967296, contourPath = cp \<rparr>
     \<lparr> xMin = JFin 2048, xMax = JFin 2048, yMin = JFin 2048, yMax = JFin 2048 \<rparr> =
   Some (Inl (ExportError, [(JFin 2048, JFin 2048)]))"
  unfolding stitch_def
  apply (simp add: newFloat32Array_def jsub_def tileSize_def)
  apply (subst forLoop.simps)
  apply simp
  apply (subst forLoop.simps)
  apply (simp add: stitchTile_def)
  done

text \<open>
  C6. An interval that is not finite is to be answered with the 400 validation
  response before any tile work. The route does not do so: the test
  \<^verbatim>\<open>intervalM <= 0\<close> is false for \<open>NaN\<close> and for \<open>+Infinity\<close>, and no other test
  looks at the interval. With the default fields, bounds at the origin and a
  \<open>NaN\<close> interval (the \<^verbatim>\<open>Number\<close> of a string that is not a number) the request
  passes validation, tile \<open>(2048, 2048)\<close> is requested, and with a tile server that
  fails the response is the 500 one. The validation of the copy in
  \<^verbatim>\<open>src/app/api/geocode/route.ts\<close> rejects the same requests.
\<close>

theorem nan_interval_passes_validation:
  "\<not> badRequest ((defaults (Some \<lparr>west = JFin 0, south = JFin 0, east = JFin 0, north = JFin 0\<rparr>))
                    \<lparr>intervalM := JNaN\<rparr>) \<and>
   \<not> badRequest ((defaults (Some \<lparr>west = JFin 0, south = JFin 0, east = JFin 0, north = JFin 0\<rparr>))
                    \<lparr>intervalM := JPosInf\<rparr>) \<and>
   POST \<lparr> fetchPng = (\<lambda>tx ty. None), maxArrayLength = 4294967296, contourPath = (\<lambda>values g t. None) \<rparr>
     ((defaults (Some \<lparr>west = JFin 0, south = JFin 0, east = JFin 0, north = JFin 0\<rparr>))
         \<lparr>intervalM := JNaN\<rparr>) = Some (ExportError, [(JFin 2048, JFin 2048)]) \<and>
   status ExportError = 500 \<and>
   badRequestFinite ((defaults (Some \<lparr>west = JFin 0, south = JFin 0, east = JFin 0, north = JFin 0\<rparr>))
                       \<lparr>intervalM := JNaN\<rparr>) \<and>
   badRequestFinite ((defaults (Some \<lparr>west = JFin 0, south = JFin 0, east = JFin 0, north = JFin 0\<rparr>))
                       \<lparr>intervalM := JPosInf\<rparr>)"
  by (simp add: POST_def badRequest_def badRequestFinite_def defaults_def lonLatToTile_origin
      tileRange_def tileCount_def jsub_def jgt_def stitch_one_missing)

section \<open>Stroke width\<close>

lemma jmax_fin: "jmax (JFin a) (JFin b) = JFin (max a b)"
  by (simp add: max_def)

lemma jmin_fin: "jmin (JFin a) (JFin b) = JFin (min a b)"
  by (simp add: min_def)

text \<open>The literal \<^verbatim>\<open>0.001\<close>.\<close>

lemma fl_thousandth: "fl (1 / 1000) = JFin (1152921504606847 / 1152921504606846976)"
  using fl_eval [of "- 10" "1 / 1000"] by (simp add: rne_def)

text \<open>
  Width 20, height 12, grid 158: the scale factors, the stroke width, and its
  product with the larger scale factor, which is the binary64 number just below the
  literal \<^verbatim>\<open>0.001\<close>.
\<close>

lemma stroke_20_12_158:
  "scaleOf64 (JFin 20) (JFin 158) = JFin (4589655671205601 / 36028797018963968)"
  "scaleOf64 (JFin 12) (JFin 158) = JFin (5507586805446721 / 72057594037927936)"
  "strokeWidth64 (scaleOf64 (JFin 20) (JFin 158)) (scaleOf64 (JFin 12) (JFin 158)) =
     JFin (2262608452790937 / 288230376151711744)"
  "mul64 (strokeWidth64 (scaleOf64 (JFin 20) (JFin 158)) (scaleOf64 (JFin 12) (JFin 158)))
         (jmax (scaleOf64 (JFin 20) (JFin 158)) (scaleOf64 (JFin 12) (JFin 158))) =
     JFin (4611686018427387 / 4611686018427387904)"
proof -
  have g: "sub64 (JFin 158) (JFin 1) = JFin 157"
    using fl_eval [of 7 "(158) - (1)"] by (simp add: sub64_def jsub_def rne_def)
  have sx: "div64 (JFin 20) (JFin 157) = JFin (4589655671205601 / 36028797018963968)"
    using fl_eval [of "- 3" "(20) / (157)"] by (simp add: div64_def jsub_def rne_def)
  have sy: "div64 (JFin 12) (JFin 157) = JFin (5507586805446721 / 72057594037927936)"
    using fl_eval [of "- 4" "(12) / (157)"] by (simp add: div64_def jsub_def rne_def)
  have s: "div64 (JFin (1152921504606847 / 1152921504606846976))
        (JFin (4589655671205601 / 36028797018963968)) =
      JFin (2262608452790937 / 288230376151711744)"
    using fl_eval [of "- 7"
        "(1152921504606847 / 1152921504606846976) / (4589655671205601 / 36028797018963968)"]
    by (simp add: div64_def jsub_def rne_def)
  have p: "mul64 (JFin (2262608452790937 / 288230376151711744))
        (JFin (4589655671205601 / 36028797018963968)) =
      JFin (4611686018427387 / 4611686018427387904)"
    using fl_eval [of "- 10"
        "(2262608452790937 / 288230376151711744) * (4589655671205601 / 36028797018963968)"]
    by (simp add: mul64_def jsub_def rne_def)
  show x: "scaleOf64 (JFin 20) (JFin 158) = JFin (4589655671205601 / 36028797018963968)"
    by (simp only: scaleOf64_def g sx)
  show y: "scaleOf64 (JFin 12) (JFin 158) = JFin (5507586805446721 / 72057594037927936)"
    by (simp only: scaleOf64_def g sy)
  have m: "jmax (JFin (4589655671205601 / 36028797018963968)) (JFin (5507586805446721 / 72057594037927936)) =
      JFin (4589655671205601 / 36028797018963968)"
    by simp
  show w: "strokeWidth64 (scaleOf64 (JFin 20) (JFin 158)) (scaleOf64 (JFin 12) (JFin 158)) =
     JFin (2262608452790937 / 288230376151711744)"
    by (simp only: x y strokeWidth64_def m fl_thousandth s)
  show "mul64 (strokeWidth64 (scaleOf64 (JFin 20) (JFin 158)) (scaleOf64 (JFin 12) (JFin 158)))
         (jmax (scaleOf64 (JFin 20) (JFin 158)) (scaleOf64 (JFin 12) (JFin 158))) =
     JFin (4611686018427387 / 4611686018427387904)"
    by (simp only: w) (simp only: x y m p)
qed

text \<open>A positive number between two bounds of the normal range, rounded.\<close>

lemma fl_between:
  assumes "lo \<le> x" "x \<le> hi" "2 powi (- 1022) \<le> lo" "hi \<le> 2 ^ 1000"
  shows "\<exists>y. fl x = JFin y \<and> x * (1 - 1 / 2 ^ 53) \<le> y \<and> y \<le> x * (1 + 1 / 2 ^ 53) \<and>
             lo / 2 \<le> y \<and> y \<le> 2 * hi"
proof -
  have x: "2 powi (- 1022) \<le> x" "x \<le> 2 ^ 1000" using assms by linarith+
  have "(0::real) < 2 powi (- 1022)" by (rule zero_less_power_int) simp
  hence pos: "0 < x" "0 \<le> lo" using x(1) assms(3) by linarith+
  from fl_pos [OF x] obtain y where
    y: "fl x = JFin y" "x * (1 - 1 / 2 ^ 53) \<le> y" "y \<le> x * (1 + 1 / 2 ^ 53)" by blast
  have "x * (1 / 2) \<le> x * (1 - 1 / 2 ^ 53)" using pos(1) by (intro mult_left_mono) simp_all
  hence "lo / 2 \<le> y" using y(2) assms(1) by linarith
  moreover have "x * (1 + 1 / 2 ^ 53) \<le> x * 2" using pos(1) by (intro mult_left_mono) simp_all
  hence "y \<le> 2 * hi" using y(3) assms(2) by linarith
  ultimately show ?thesis using y by blast
qed

lemma three_roundings:
  fixes k c t p :: real
  assumes k: "0 < k"
    and c: "k * (1 - 1 / 2 ^ 53) \<le> c" "c \<le> k * (1 + 1 / 2 ^ 53)"
    and t: "c * (1 - 1 / 2 ^ 53) \<le> t" "t \<le> c * (1 + 1 / 2 ^ 53)"
    and p: "t * (1 - 1 / 2 ^ 53) \<le> p" "p \<le> t * (1 + 1 / 2 ^ 53)"
  shows "\<bar>p - k\<bar> \<le> k / 2 ^ 51"
proof -
  define u :: real where "u = 1 + 1 / 2 ^ 53"
  define l :: real where "l = 1 - 1 / 2 ^ 53"
  have u0: "0 \<le> u" and l0: "0 \<le> l" by (simp_all add: u_def l_def)
  have "p \<le> t * u" using p(2) by (simp add: u_def)
  also have "t * u \<le> c * u * u" using t(2) u0 unfolding u_def [symmetric] by (rule mult_right_mono)
  also have "c * u * u \<le> k * u * u * u"
    using c(2) u0 unfolding u_def [symmetric] by (intro mult_right_mono)
  also have "k * u * u * u = k * (u * u * u)" by simp
  also have "\<dots> \<le> k * (1 + 1 / 2 ^ 51)"
    using k by (intro mult_left_mono) (simp_all add: u_def)
  finally have hi: "p \<le> k + k / 2 ^ 51" by (simp add: algebra_simps)
  have "k * (1 - 1 / 2 ^ 51) \<le> k * (l * l * l)"
    using k by (intro mult_left_mono) (simp_all add: l_def)
  also have "\<dots> = k * l * l * l" by simp
  also have "\<dots> \<le> c * l * l"
    using c(1) l0 unfolding l_def [symmetric] by (intro mult_right_mono)
  also have "\<dots> \<le> t * l" using t(1) l0 unfolding l_def [symmetric] by (rule mult_right_mono)
  also have "\<dots> \<le> p" using p(1) by (simp add: l_def)
  finally have lo: "k - k / 2 ^ 51 \<le> p" by (simp add: algebra_simps)
  from lo hi show ?thesis by (auto simp: abs_if split: if_splits)
qed

lemma scaleOf64_range:
  fixes z n :: real
  assumes n: "2 \<le> n" "n \<le> 2 ^ 30" and z: "1 / 2 ^ 30 \<le> z" "z \<le> 2 ^ 30"
  shows "\<exists>s. scaleOf64 (JFin z) (JFin n) = JFin s \<and> 1 / 2 ^ 62 \<le> s \<and> s \<le> 2 ^ 32"
proof -
  have "\<exists>y. fl (n - 1) = JFin y \<and> (n - 1) * (1 - 1 / 2 ^ 53) \<le> y \<and> y \<le> (n - 1) * (1 + 1 / 2 ^ 53) \<and>
             1 / 2 \<le> y \<and> y \<le> 2 * 2 ^ 30"
    using n by (intro fl_between) (simp_all add: power_int_minus_divide)
  then obtain y where y: "fl (n - 1) = JFin y" "1 / 2 \<le> y" "y \<le> 2 ^ 31" by auto
  have ypos: "0 < y" using y(2) by linarith
  have lo: "1 / 2 ^ 30 / 2 ^ 31 \<le> z / y"
    using z(1) y(3) ypos by (intro frac_le) simp_all
  have hi: "z / y \<le> 2 ^ 30 / (1 / 2)"
    using z y(2) by (intro frac_le) simp_all
  have "\<exists>s. fl (z / y) = JFin s \<and> z / y * (1 - 1 / 2 ^ 53) \<le> s \<and> s \<le> z / y * (1 + 1 / 2 ^ 53) \<and>
             1 / 2 ^ 30 / 2 ^ 31 / 2 \<le> s \<and> s \<le> 2 * (2 ^ 30 / (1 / 2))"
    using lo hi by (intro fl_between) (simp_all add: power_int_minus_divide)
  then obtain s where s: "fl (z / y) = JFin s" "1 / 2 ^ 62 \<le> s" "s \<le> 2 ^ 32" by auto
  have "scaleOf64 (JFin z) (JFin n) = JFin s"
    using ypos by (simp add: scaleOf64_def sub64_fin y(1) div64_fin s(1))
  thus ?thesis using s(2,3) by blast
qed

text \<open>
  For a grid size from 2 to \<open>2 ^ 30\<close> and a width and a height between
  \<open>2 powi - 30\<close> and \<open>2 ^ 30\<close>, the scale factors and the stroke width are
  finite, and the rounded product of the stroke width with the larger scale factor
  differs from \<open>1 / 1000\<close> by at most \<open>1 / 1000 / 2 ^ 51\<close>.
\<close>

lemma stroke_product64:
  fixes n w h :: real
  assumes "2 \<le> n" "n \<le> 2 ^ 30" "1 / 2 ^ 30 \<le> w" "w \<le> 2 ^ 30" "1 / 2 ^ 30 \<le> h" "h \<le> 2 ^ 30"
  shows "\<exists>sx sy s p.
     scaleOf64 (JFin w) (JFin n) = JFin sx \<and> scaleOf64 (JFin h) (JFin n) = JFin sy \<and>
     strokeWidth64 (JFin sx) (JFin sy) = JFin s \<and>
     mul64 (JFin s) (jmax (JFin sx) (JFin sy)) = JFin p \<and>
     \<bar>p - 1 / 1000\<bar> \<le> 1 / 1000 / 2 ^ 51"
proof -
  from scaleOf64_range [OF assms(1,2,3,4)] obtain sx where
    sx: "scaleOf64 (JFin w) (JFin n) = JFin sx" "1 / 2 ^ 62 \<le> sx" "sx \<le> 2 ^ 32" by blast
  from scaleOf64_range [OF assms(1,2,5,6)] obtain sy where
    sy: "scaleOf64 (JFin h) (JFin n) = JFin sy" "1 / 2 ^ 62 \<le> sy" "sy \<le> 2 ^ 32" by blast
  define mx where "mx = max sx sy"
  have mx: "1 / 2 ^ 62 \<le> mx" "mx \<le> 2 ^ 32" using sx(2,3) sy(2,3) by (simp_all add: mx_def)
  have mpos: "0 < mx" using mx(1) by (smt (verit) divide_pos_pos zero_less_power zero_less_numeral zero_less_one)
  have jm: "jmax (JFin sx) (JFin sy) = JFin mx" by (simp only: jmax_fin mx_def)
  define c :: real where "c = 1152921504606847 / 1152921504606846976"
  have c: "(1 / 1000) * (1 - 1 / 2 ^ 53) \<le> c" "c \<le> (1 / 1000) * (1 + 1 / 2 ^ 53)" "0 < c"
    by (simp_all add: c_def)
  have flc: "fl (1 / 1000) = JFin c" by (simp only: fl_thousandth c_def)
  have lo: "c / 2 ^ 32 \<le> c / mx"
    using c(3) mx(2) mpos by (intro divide_left_mono) simp_all
  have hi: "c / mx \<le> c / (1 / 2 ^ 62)"
    using c(3) mx(1) mpos by (intro divide_left_mono) simp_all
  have "\<exists>s. fl (c / mx) = JFin s \<and> c / mx * (1 - 1 / 2 ^ 53) \<le> s \<and> s \<le> c / mx * (1 + 1 / 2 ^ 53) \<and>
             c / 2 ^ 32 / 2 \<le> s \<and> s \<le> 2 * (c / (1 / 2 ^ 62))"
    using lo hi by (intro fl_between) (simp_all add: c_def power_int_minus_divide)
  then obtain s where s: "fl (c / mx) = JFin s" "c / mx * (1 - 1 / 2 ^ 53) \<le> s"
      "s \<le> c / mx * (1 + 1 / 2 ^ 53)" by blast
  have nz: "mx \<noteq> 0" using mpos by simp
  have sw: "strokeWidth64 (JFin sx) (JFin sy) = JFin s"
    by (simp only: strokeWidth64_def jm flc div64_fin [OF nz] s(1))
  define t where "t = s * mx"
  have "c / mx * (1 - 1 / 2 ^ 53) * mx \<le> s * mx"
    using s(2) mpos by (intro mult_right_mono) simp_all
  moreover have "c / mx * (1 - 1 / 2 ^ 53) * mx = c * (1 - 1 / 2 ^ 53)"
    using mpos by simp
  ultimately have t1: "c * (1 - 1 / 2 ^ 53) \<le> t" by (simp only: t_def)
  have "s * mx \<le> c / mx * (1 + 1 / 2 ^ 53) * mx"
    using s(3) mpos by (intro mult_right_mono) simp_all
  moreover have "c / mx * (1 + 1 / 2 ^ 53) * mx = c * (1 + 1 / 2 ^ 53)"
    using mpos by simp
  ultimately have t2: "t \<le> c * (1 + 1 / 2 ^ 53)" by (simp only: t_def)
  have tl: "c / 2 \<le> t" using t1 c(3) by (simp add: algebra_simps)
  have th: "t \<le> 2 * c" using t2 c(3) by (simp add: algebra_simps)
  have "\<exists>p. fl t = JFin p \<and> t * (1 - 1 / 2 ^ 53) \<le> p \<and> p \<le> t * (1 + 1 / 2 ^ 53) \<and>
             c / 2 / 2 \<le> p \<and> p \<le> 2 * (2 * c)"
    using tl th by (intro fl_between) (simp_all add: c_def power_int_minus_divide)
  then obtain p where p: "fl t = JFin p" "t * (1 - 1 / 2 ^ 53) \<le> p" "p \<le> t * (1 + 1 / 2 ^ 53)"
    by blast
  have pm: "mul64 (JFin s) (jmax (JFin sx) (JFin sy)) = JFin p"
    by (simp only: jm mul64_fin t_def [symmetric] p(1))
  have "\<bar>p - 1 / 1000\<bar> \<le> 1 / 1000 / 2 ^ 51"
    by (rule three_roundings [OF _ c(1,2) t1 t2 p(2,3)]) simp
  with sx(1) sy(1) sw pm show ?thesis by blast
qed

text \<open>Every SVG document of the archive is \<open>layerSvg64\<close> of the request and a path.\<close>

lemma writeLayers64_docs:
  assumes "\<forall>f \<in> set (fst acc). \<forall>doc. snd f = Svg doc \<longrightarrow> (\<exists>d. doc = layerSvg64 rq d)"
  shows "\<forall>f \<in> set (fst (writeLayers64 rq idx fs acc)).
           \<forall>doc. snd f = Svg doc \<longrightarrow> (\<exists>d. doc = layerSvg64 rq d)"
  using assms
proof (induction fs arbitrary: idx acc)
  case Nil
  then show ?case by simp
next
  case (Cons f fs)
  obtain files written where acc: "acc = (files, written)" by (cases acc)
  show ?case
  proof (cases "snd f")
    case None
    then show ?thesis using Cons.IH [of acc "Suc idx"] Cons.prems by (simp add: acc)
  next
    case (Some d)
    show ?thesis
    proof (cases "d = []")
      case True
      then show ?thesis using Some Cons.IH [of acc "Suc idx"] Cons.prems by (simp add: acc)
    next
      case False
      have "\<forall>g \<in> set (fst (files @ [(layerName idx (fst f), Svg (layerSvg64 rq d))], Suc written)).
              \<forall>doc. snd g = Svg doc \<longrightarrow> (\<exists>d. doc = layerSvg64 rq d)"
        using Cons.prems by (auto simp add: acc)
      from Cons.IH [OF this] show ?thesis using Some False by (simp add: acc)
    qed
  qed
qed

lemma buildZip64_docs:
  "(name, Svg doc) \<in> set (buildZip64 ev rq values minE maxE ths) \<Longrightarrow>
   \<exists>d. doc = layerSvg64 rq d"
proof -
  assume a: "(name, Svg doc) \<in> set (buildZip64 ev rq values minE maxE ths)"
  have "\<forall>f \<in> set (fst (writeLayers64 rq 0 (contourFeatures ev rq values ths) ([], 0))).
          \<forall>doc. snd f = Svg doc \<longrightarrow> (\<exists>d. doc = layerSvg64 rq d)"
    by (rule writeLayers64_docs) simp
  moreover obtain files written where
    w: "writeLayers64 rq 0 (contourFeatures ev rq values ths) ([], 0) = (files, written)"
    by (cases "writeLayers64 rq 0 (contourFeatures ev rq values ths) ([], 0)")
  ultimately show ?thesis
    using a by (force simp add: buildZip64_def)
qed

text \<open>
  C8 (as amended). For a grid size from 2 to \<open>2 ^ 30\<close> and a width and a height
  between \<open>2 powi - 30\<close> and \<open>2 ^ 30\<close> inches, every layer document of the
  archive carries the binary64 scale factors \<open>width / (n - 1)\<close> and
  \<open>height / (n - 1)\<close> and the binary64 stroke width, all finite, and the product
  of its stroke width with the larger of its scale factors, as a binary64 number,
  is \<open>0.001\<close> up to the rounding of the literal, of the quotient and of the
  product: it differs from \<open>1 / 1000\<close> by at most \<open>1 / 1000 / 2 ^ 51\<close>,
  whatever the grid size, the width and the height are.
\<close>

theorem stroke_compensation:
  fixes n w h :: real
  assumes "2 \<le> n" "n \<le> 2 ^ 30" "1 / 2 ^ 30 \<le> w" "w \<le> 2 ^ 30" "1 / 2 ^ 30 \<le> h" "h \<le> 2 ^ 30"
    and "grid rq = JFin n" and "widthIn rq = JFin w" and "heightIn rq = JFin h"
    and "(name, Svg doc) \<in> set (buildZip64 ev rq values minE maxE ths)"
  shows "\<exists>sx sy s p.
     docScaleX doc = JFin sx \<and> docScaleY doc = JFin sy \<and> docStroke doc = JFin s \<and>
     scaleOf64 (JFin w) (JFin n) = JFin sx \<and> scaleOf64 (JFin h) (JFin n) = JFin sy \<and>
     strokeWidth64 (JFin sx) (JFin sy) = JFin s \<and>
     mul64 (docStroke doc) (jmax (docScaleX doc) (docScaleY doc)) = JFin p \<and>
     \<bar>p - 1 / 1000\<bar> \<le> 1 / 1000 / 2 ^ 51"
proof -
  from assms(10) obtain d where d: "doc = layerSvg64 rq d" using buildZip64_docs by blast
  from stroke_product64 [OF assms(1-6)] obtain sx sy s p where
    r: "scaleOf64 (JFin w) (JFin n) = JFin sx" "scaleOf64 (JFin h) (JFin n) = JFin sy"
       "strokeWidth64 (JFin sx) (JFin sy) = JFin s"
       "mul64 (JFin s) (jmax (JFin sx) (JFin sy)) = JFin p"
       "\<bar>p - 1 / 1000\<bar> \<le> 1 / 1000 / 2 ^ 51"
    by blast
  have x: "docScaleX doc = JFin sx" by (simp only: d layerSvg64_def svgDoc.simps assms(7,8) r(1))
  have y: "docScaleY doc = JFin sy" by (simp only: d layerSvg64_def svgDoc.simps assms(7,9) r(2))
  have s: "docStroke doc = JFin s"
    by (simp only: d layerSvg64_def svgDoc.simps assms(7,8,9) r(1,2,3))
  have m: "mul64 (docStroke doc) (jmax (docScaleX doc) (docScaleY doc)) = JFin p"
    by (simp only: x y s r(4))
  from x y s r(1,2,3) m r(5) show ?thesis by blast
qed

text \<open>The default request (20 by 12 inches, grid 256) with one layer at 120 m.\<close>

theorem stroke_compensation_witness:
  "(2::real) \<le> 256 \<and> (256::real) \<le> 2 ^ 30 \<and> (1::real) / 2 ^ 30 \<le> 20 \<and> (20::real) \<le> 2 ^ 30 \<and>
   (1::real) / 2 ^ 30 \<le> 12 \<and> (12::real) \<le> 2 ^ 30 \<and>
   (LayerSvg ''001'' (JFin 120), Svg (layerSvg64 (defaults None) ''M1,1L2,1L1,2Z'')) \<in>
     set (buildZip64 \<lparr> fetchPng = (\<lambda>tx ty. None), maxArrayLength = 0,
                       contourPath = (\<lambda>values g t. Some ''M1,1L2,1L1,2Z'') \<rparr>
            (defaults None) [] (JFin 105) (JFin 130) [JFin 120]) \<and>
   (\<exists>sx sy s p.
     docScaleX (layerSvg64 (defaults None) ''M1,1L2,1L1,2Z'') = JFin sx \<and>
     docScaleY (layerSvg64 (defaults None) ''M1,1L2,1L1,2Z'') = JFin sy \<and>
     docStroke (layerSvg64 (defaults None) ''M1,1L2,1L1,2Z'') = JFin s \<and>
     scaleOf64 (JFin 20) (JFin 256) = JFin sx \<and> scaleOf64 (JFin 12) (JFin 256) = JFin sy \<and>
     strokeWidth64 (JFin sx) (JFin sy) = JFin s \<and>
     mul64 (docStroke (layerSvg64 (defaults None) ''M1,1L2,1L1,2Z''))
           (jmax (docScaleX (layerSvg64 (defaults None) ''M1,1L2,1L1,2Z''))
                 (docScaleY (layerSvg64 (defaults None) ''M1,1L2,1L1,2Z''))) = JFin p \<and>
     \<bar>p - 1 / 1000\<bar> \<le> 1 / 1000 / 2 ^ 51)"
proof -
  have g: "grid (defaults None) = JFin 256" "widthIn (defaults None) = JFin 20"
      "heightIn (defaults None) = JFin 12"
    by (simp_all add: defaults_def)
  have m: "(LayerSvg ''001'' (JFin 120), Svg (layerSvg64 (defaults None) ''M1,1L2,1L1,2Z'')) \<in>
     set (buildZip64 \<lparr> fetchPng = (\<lambda>tx ty. None), maxArrayLength = 0,
                       contourPath = (\<lambda>values g t. Some ''M1,1L2,1L1,2Z'') \<rparr>
            (defaults None) [] (JFin 105) (JFin 130) [JFin 120])"
    by (simp add: buildZip64_def contourFeatures_def layerName_def padStart_def natString.simps
        digitChar_def numeral_2_eq_2)
  have n: "(2::real) \<le> 256" "(256::real) \<le> 2 ^ 30" "(1::real) / 2 ^ 30 \<le> 20" "(20::real) \<le> 2 ^ 30"
    "(1::real) / 2 ^ 30 \<le> 12" "(12::real) \<le> 2 ^ 30" by simp_all
  note r = stroke_compensation [OF n g m]
  show ?thesis
    by (intro conjI n m r)
qed

text \<open>
  Width 20, height 12, grid 158, which the validation accepts: in the layer
  document the product of the stroke width and the larger scale factor is
  \<^verbatim>\<open>0.0009999999999999998\<close>, not the number that the literal \<^verbatim>\<open>0.001\<close> denotes,
  and not \<open>1 / 1000\<close> either.
\<close>

theorem stroke_compensation_counterexample:
  "mul64
     (docStroke
        (layerSvg64
           ((defaults (Some \<lparr>west = JFin 0, south = JFin 0, east = JFin 0, north = JFin 0\<rparr>))
              \<lparr>grid := JFin 158\<rparr>)
           ''M1,1L2,1L1,2Z''))
     (jmax
        (docScaleX
           (layerSvg64
              ((defaults (Some \<lparr>west = JFin 0, south = JFin 0, east = JFin 0, north = JFin 0\<rparr>))
                 \<lparr>grid := JFin 158\<rparr>)
              ''M1,1L2,1L1,2Z''))
        (docScaleY
           (layerSvg64
              ((defaults (Some \<lparr>west = JFin 0, south = JFin 0, east = JFin 0, north = JFin 0\<rparr>))
                 \<lparr>grid := JFin 158\<rparr>)
              ''M1,1L2,1L1,2Z''))) =
     JFin (4611686018427387 / 4611686018427387904) \<and>
   JFin (4611686018427387 / 4611686018427387904) \<noteq> fl (1 / 1000) \<and>
   JFin (4611686018427387 / 4611686018427387904) \<noteq> JFin (1 / 1000) \<and>
   \<not> badRequest ((defaults (Some \<lparr>west = JFin 0, south = JFin 0, east = JFin 0, north = JFin 0\<rparr>))
                    \<lparr>grid := JFin 158\<rparr>)"
proof -
  have d: "\<And>rq d. docStroke (layerSvg64 rq d) =
      strokeWidth64 (scaleOf64 (widthIn rq) (grid rq)) (scaleOf64 (heightIn rq) (grid rq))"
    "\<And>rq d. docScaleX (layerSvg64 rq d) = scaleOf64 (widthIn rq) (grid rq)"
    "\<And>rq d. docScaleY (layerSvg64 rq d) = scaleOf64 (heightIn rq) (grid rq)"
    by (simp_all add: layerSvg64_def)
  have r: "widthIn ((defaults (Some \<lparr>west = JFin 0, south = JFin 0, east = JFin 0, north = JFin 0\<rparr>))
                     \<lparr>grid := JFin 158\<rparr>) = JFin 20"
    "heightIn ((defaults (Some \<lparr>west = JFin 0, south = JFin 0, east = JFin 0, north = JFin 0\<rparr>))
                 \<lparr>grid := JFin 158\<rparr>) = JFin 12"
    "grid ((defaults (Some \<lparr>west = JFin 0, south = JFin 0, east = JFin 0, north = JFin 0\<rparr>))
             \<lparr>grid := JFin 158\<rparr>) = JFin 158"
    by (simp_all add: defaults_def)
  show ?thesis
    unfolding d r
    using stroke_20_12_158(4) by (simp add: fl_thousandth badRequest_def defaults_def)
qed

section \<open>The resampling loop\<close>

lemma nat_less_ceiling: "(k < nat \<lceil>r :: real\<rceil>) = (real k < r)"
proof -
  have "(k < nat \<lceil>r\<rceil>) = (int k < \<lceil>r\<rceil>)" by arith
  also have "\<dots> = (of_int (int k) < r)" by (rule less_ceiling_iff)
  finally show ?thesis by simp
qed

lemma countLoop:
  assumes "g \<noteq> JPosInf"
  shows "forLoop (\<lambda>t. jlt t g) inc body (JFin 0) s =
         iterE body (map (\<lambda>k. JFin (real k)) [0..<loopCount g]) s"
proof -
  have c1: "\<And>k. k < loopCount g \<Longrightarrow> jlt ((inc ^^ k) (JFin 0)) g"
    by (cases g) (simp_all add: loopCount_def inc_funpow nat_less_ceiling)
  have c2: "\<not> jlt ((inc ^^ loopCount g) (JFin 0)) g"
  proof (cases g)
    case (JFin r)
    have "\<not> real (nat \<lceil>r\<rceil>) < r"
      using nat_less_ceiling [of "nat \<lceil>r\<rceil>" r] by simp
    then show ?thesis by (simp add: JFin loopCount_def inc_funpow)
  qed (use assms in \<open>simp_all add: loopCount_def\<close>)
  have "forLoop (\<lambda>t. jlt t g) inc body (JFin 0) s =
      iterE body (map (\<lambda>k. (inc ^^ k) (JFin 0)) [0..<loopCount g]) s"
    by (rule forLoop_unroll [where cond = "\<lambda>t. jlt t g" and step = inc and n = "loopCount g", OF c1 c2])
  then show ?thesis by (simp only: inc_funpow add_0)
qed

lemma countLoop_fun:
  "g \<noteq> JPosInf \<Longrightarrow>
   forLoop (\<lambda>t. jlt t g) inc body (JFin 0) = iterE body (map (\<lambda>k. JFin (real k)) [0..<loopCount g])"
  by (rule ext) (rule countLoop)

lemma iterE_total_fun: "iterE (\<lambda>t s. Some (Inr (f t s))) ts = (\<lambda>s. Some (Inr (fold f ts s)))"
  by (rule ext) (rule iterE_total)

lemma alloc_square: "newFloat32Array limit (jmul g g) = Some values \<Longrightarrow> g \<noteq> JPosInf"
  by (auto simp add: newFloat32Array_def)

lemma resample_result:
  "resample ev stitched stitchedW stitchedH rect g =
     (case newFloat32Array (maxArrayLength ev) (jmul g g) of
        None \<Rightarrow> Some (Inl ExportError)
      | Some values \<Rightarrow>
          Some (Inr (fold (\<lambda>j. fold (sampleCell stitched stitchedW stitchedH rect g j)
                                  (map (\<lambda>k. JFin (real k)) [0..<loopCount g]))
                          (map (\<lambda>k. JFin (real k)) [0..<loopCount g])
                          (values, JPosInf, JNegInf))))"
proof (cases "newFloat32Array (maxArrayLength ev) (jmul g g)")
  case None
  then show ?thesis by (simp add: resample_def)
next
  case (Some vals)
  then have g: "g \<noteq> JPosInf" by (rule alloc_square)
  show ?thesis
    by (simp add: resample_def Some countLoop_fun [OF g] iterE_total_fun iterE_total)
qed





lemma resample_returns: "\<exists>r. resample ev stitched stitchedW stitchedH rect g = Some r"
  by (cases "newFloat32Array (maxArrayLength ev) (jmul g g)") (simp_all only: resample_result option.case, simp_all)

section \<open>The degenerate-data check\<close>





section \<open>Nearest-neighbour sampling\<close>

lemma f32index_nat: "k < length xs \<Longrightarrow> f32index xs (JFin (real k)) = Some k"
  by (simp add: f32index_def)

lemma clamp_fin: "clamp (JFin n) (JFin a) (JFin b) = JFin (max a (min b n))"
  by (simp only: clamp_def jmax_fin jmin_fin)

lemma clamp_round_index:
  assumes "1 \<le> w"
  shows "clamp (jround (JFin x)) (JFin 0) (jsub (JFin (real w)) (JFin 1)) =
           JFin (real (nat (max 0 (min (int w - 1) \<lfloor>x + 1 / 2\<rfloor>))))"
    and "nat (max 0 (min (int w - 1) \<lfloor>x + 1 / 2\<rfloor>)) < w"
proof -
  let ?z = "\<lfloor>x + 1 / 2\<rfloor>"
  have "real (nat (max 0 (min (int w - 1) ?z))) = of_int (max 0 (min (int w - 1) ?z))"
    by simp
  also have "\<dots> = max 0 (min (real w - 1) (of_int ?z))"
    using assms by (simp add: of_int_max of_int_min)
  finally show "clamp (jround (JFin x)) (JFin 0) (jsub (JFin (real w)) (JFin 1)) =
           JFin (real (nat (max 0 (min (int w - 1) ?z))))"
    by (simp add: clamp_fin jsub_def)
  show "nat (max 0 (min (int w - 1) ?z)) < w"
    using assms by arith
qed

lemma nearestSample_index:
  assumes "1 \<le> w" and "1 \<le> h" and "length src = w * h"
  shows "\<exists>ix iy. ix < w \<and> iy < h \<and>
           clamp (jround (JFin x)) (JFin 0) (jsub (JFin (real w)) (JFin 1)) = JFin (real ix) \<and>
           clamp (jround (JFin y)) (JFin 0) (jsub (JFin (real h)) (JFin 1)) = JFin (real iy) \<and>
           iy * w + ix < length src \<and>
           f32index src (jadd (jmul (JFin (real iy)) (JFin (real w))) (JFin (real ix))) =
             Some (iy * w + ix) \<and>
           nearestSample src (JFin (real w)) (JFin (real h)) (JFin x) (JFin y) = src ! (iy * w + ix)"
proof -
  let ?ix = "nat (max 0 (min (int w - 1) \<lfloor>x + 1 / 2\<rfloor>))"
  let ?iy = "nat (max 0 (min (int h - 1) \<lfloor>y + 1 / 2\<rfloor>))"
  note cx = clamp_round_index [OF assms(1), of x]
  note cy = clamp_round_index [OF assms(2), of y]
  have "?iy * w + ?ix < ?iy * w + w" using cx(2) by simp
  also have "\<dots> = (?iy + 1) * w" by simp
  also have "\<dots> \<le> h * w" using cy(2) by (intro mult_le_mono1) simp
  finally have lt: "?iy * w + ?ix < length src" by (simp add: assms(3) mult.commute)
  have idx: "jadd (jmul (JFin (real ?iy)) (JFin (real w))) (JFin (real ?ix)) =
      JFin (real (?iy * w + ?ix))"
    by simp
  have ind: "f32index src (jadd (jmul (JFin (real ?iy)) (JFin (real w))) (JFin (real ?ix))) =
      Some (?iy * w + ?ix)"
    by (simp only: idx f32index_nat [OF lt])
  have "nearestSample src (JFin (real w)) (JFin (real h)) (JFin x) (JFin y) = src ! (?iy * w + ?ix)"
    by (simp only: nearestSample_def Let_def cx(1) cy(1) f32get_def ind option.case)
  with cx cy lt ind show ?thesis by blast
qed

lemma sampleCoord_finite:
  assumes "g \<noteq> 1"
  shows "sampleCoord (JFin pxWest, JFin pxEast, JFin pxNorth, JFin pxSouth) (JFin g) (JFin j) (JFin i) =
           (JFin (pxWest + (pxEast - pxWest) * (i / (g - 1))),
            JFin (pxNorth + (pxSouth - pxNorth) * (j / (g - 1))))"
  using assms by (simp add: sampleCoord_def jsub_def Let_def)

lemma jmin_NaN_right [simp]: "jmin x JNaN = JNaN"
  by (cases x) simp_all

lemma jmax_NaN_right [simp]: "jmax x JNaN = JNaN"
  by (cases x) simp_all

text \<open>A \<open>NaN\<close> coordinate addresses no cell: the read is \<^verbatim>\<open>undefined\<close>.\<close>

lemma nearestSample_nan: "nearestSample src srcW srcH JNaN y = JNaN"
  by (simp add: nearestSample_def clamp_def Let_def f32get_def f32index_def)

text \<open>
  C10. On a raster of width \<open>w \<ge> 1\<close> and height \<open>h \<ge> 1\<close> (with \<open>w * h\<close>
  cells) and for all finite coordinates, however far outside, \<open>nearestSample\<close>
  clamps the rounded coordinates to column \<open>ix < w\<close> and row \<open>iy < h\<close>, and the
  cell it reads, \<open>iy * w + ix\<close>, exists. In the sampling loop, with a finite pixel
  rectangle and a finite grid size other than 1, the coordinates of every cell
  \<open>(i, j)\<close> are finite, so every read of the loop is such a read.
\<close>

theorem nearestSample_in_bounds:
  assumes "1 \<le> w" and "1 \<le> h" and "length src = w * h"
  shows "(\<exists>ix iy. ix < w \<and> iy < h \<and>
            clamp (jround (JFin x)) (JFin 0) (jsub (JFin (real w)) (JFin 1)) = JFin (real ix) \<and>
            clamp (jround (JFin y)) (JFin 0) (jsub (JFin (real h)) (JFin 1)) = JFin (real iy) \<and>
            iy * w + ix < length src \<and>
            f32index src (jadd (jmul (JFin (real iy)) (JFin (real w))) (JFin (real ix))) =
              Some (iy * w + ix) \<and>
            nearestSample src (JFin (real w)) (JFin (real h)) (JFin x) (JFin y) =
              src ! (iy * w + ix)) \<and>
         (g \<noteq> 1 \<longrightarrow>
            (\<exists>sx sy k.
               sampleCoord (JFin pxWest, JFin pxEast, JFin pxNorth, JFin pxSouth)
                 (JFin g) (JFin j) (JFin i) = (JFin sx, JFin sy) \<and>
               k < length src \<and>
               nearestSample src (JFin (real w)) (JFin (real h)) (JFin sx) (JFin sy) = src ! k))"
proof (intro conjI impI)
  show "\<exists>ix iy. ix < w \<and> iy < h \<and>
            clamp (jround (JFin x)) (JFin 0) (jsub (JFin (real w)) (JFin 1)) = JFin (real ix) \<and>
            clamp (jround (JFin y)) (JFin 0) (jsub (JFin (real h)) (JFin 1)) = JFin (real iy) \<and>
            iy * w + ix < length src \<and>
            f32index src (jadd (jmul (JFin (real iy)) (JFin (real w))) (JFin (real ix))) =
              Some (iy * w + ix) \<and>
            nearestSample src (JFin (real w)) (JFin (real h)) (JFin x) (JFin y) =
              src ! (iy * w + ix)"
    using assms by (rule nearestSample_index)
next
  assume g: "g \<noteq> 1"
  let ?sx = "pxWest + (pxEast - pxWest) * (i / (g - 1))"
  let ?sy = "pxNorth + (pxSouth - pxNorth) * (j / (g - 1))"
  from nearestSample_index [OF assms, of ?sx ?sy] obtain k where
    "k < length src"
    "nearestSample src (JFin (real w)) (JFin (real h)) (JFin ?sx) (JFin ?sy) = src ! k"
    by blast
  with sampleCoord_finite [OF g]
  show "\<exists>sx sy k.
          sampleCoord (JFin pxWest, JFin pxEast, JFin pxNorth, JFin pxSouth)
            (JFin g) (JFin j) (JFin i) = (JFin sx, JFin sy) \<and>
          k < length src \<and>
          nearestSample src (JFin (real w)) (JFin (real h)) (JFin sx) (JFin sy) = src ! k"
    by blast
qed

text \<open>A 2 by 2 raster read at \<open>(1000, -7)\<close>: column 1 of row 0.\<close>

theorem nearestSample_in_bounds_witness:
  "(1::nat) \<le> 2 \<and> length [JFin 10, JFin 20, JFin 30, JFin 40] = 2 * 2 \<and>
   nearestSample [JFin 10, JFin 20, JFin 30, JFin 40] (JFin 2) (JFin 2) (JFin 1000) (JFin (- 7)) =
     JFin 20"
proof -
  let ?src = "[JFin 10, JFin 20, JFin 30, JFin 40]"
  have l: "length ?src = 2 * 2" and o: "(1::nat) \<le> 2" by simp_all
  from nearestSample_in_bounds [OF o o l, of 1000 "- 7" 2]
  obtain ix iy where
    c: "clamp (jround (JFin 1000)) (JFin 0) (jsub (JFin (real 2)) (JFin 1)) = JFin (real ix)"
       "clamp (jround (JFin (- 7))) (JFin 0) (jsub (JFin (real 2)) (JFin 1)) = JFin (real iy)"
    and n: "nearestSample ?src (JFin (real 2)) (JFin (real 2)) (JFin 1000) (JFin (- 7)) =
       ?src ! (iy * 2 + ix)"
    by blast
  from c have "ix = 1" "iy = 0" by (simp_all add: clamp_fin jsub_def)
  with n o l show ?thesis by simp
qed

section \<open>Tile range\<close>

lemma tileRange_finite:
  "tileRange (JFin a, JFin b) (JFin c, JFin d) =
     \<lparr> xMin = JFin (of_int \<lfloor>min a c\<rfloor>), xMax = JFin (of_int \<lfloor>max a c\<rfloor>),
       yMin = JFin (of_int \<lfloor>min b d\<rfloor>), yMax = JFin (of_int \<lfloor>max b d\<rfloor>) \<rparr>"
  by (simp only: tileRange_def fst_conv snd_conv jmin_fin jmax_fin jfloor.simps)

lemma tileCount_finite:
  "tileCount \<lparr> xMin = JFin (of_int x0), xMax = JFin (of_int x1),
               yMin = JFin (of_int y0), yMax = JFin (of_int y1) \<rparr> =
     JFin (of_int ((x1 - x0 + 1) * (y1 - y0 + 1)))"
  by (simp add: tileCount_def jsub_def)

lemma floor_covers:
  fixes a c :: real
  shows "of_int \<lfloor>min a c\<rfloor> \<le> a" and "a < of_int \<lfloor>max a c\<rfloor> + 1"
    and "of_int \<lfloor>min a c\<rfloor> \<le> c" and "c < of_int \<lfloor>max a c\<rfloor> + 1"
    and "\<lfloor>min a c\<rfloor> \<le> \<lfloor>max a c\<rfloor>"
proof -
  have l: "of_int \<lfloor>min a c\<rfloor> \<le> min a c" by (rule of_int_floor_le)
  have u: "max a c < of_int \<lfloor>max a c\<rfloor> + 1" using floor_correct [of "max a c"] by simp
  have "min a c \<le> a" "min a c \<le> c" by simp_all
  with l show "of_int \<lfloor>min a c\<rfloor> \<le> a" "of_int \<lfloor>min a c\<rfloor> \<le> c" by linarith+
  have "a \<le> max a c" "c \<le> max a c" by simp_all
  with u show "a < of_int \<lfloor>max a c\<rfloor> + 1" "c < of_int \<lfloor>max a c\<rfloor> + 1" by linarith+
  show "\<lfloor>min a c\<rfloor> \<le> \<lfloor>max a c\<rfloor>" by (rule floor_mono) simp
qed

lemma fl_small [simp]:
  "fl 0 = JFin 0" "fl 1 = JFin 1" "fl 2048 = JFin 2048" "fl 4096 = JFin 4096"
  "fl (1 / 2) = JFin (1 / 2)"
proof -
  show "fl 2048 = JFin 2048" using fl_of_int [of 2048] by simp
  show "fl 0 = JFin 0" by (simp add: fl_def round64_def)
  show "fl 1 = JFin 1" using fl_of_int [of 1] by simp
  show "fl 4096 = JFin 4096" using fl_of_int [of 4096] by simp
  show "fl (1 / 2) = JFin (1 / 2)" using fl_eval [of "- 1" "1 / 2"] by (simp add: rne_def)
qed

text \<open>
  On the equator at zoom 12, with a library that is exact at \<open>tan 0\<close>, \<open>cos 0\<close>
  and \<open>log 1\<close>.
\<close>

lemma lonLatToTile64_equator:
  "lonLatToTile64 \<lparr>mathTan = jtan, mathCos = jcos, mathLog = jlog\<rparr> lon (JFin 0) 12 =
     (mul64 (div64 (add64 lon (JFin 180)) (JFin 360)) (JFin 4096), JFin 2048)"
proof -
  have c0: "mul64 (JFin (1 / 2)) (JFin 4096) = JFin 2048"
    using fl_eval [of 11 "(1 / 2) * (4096)"] by (simp add: mul64_def jsub_def rne_def)
  show ?thesis
    by (simp add: lonLatToTile64_def Let_def mathPI_def mul64_fin div64_fin add64_fin sub64_fin c0)
qed

lemma lonLatToTile64_strip:
  "lonLatToTile64 \<lparr>mathTan = jtan, mathCos = jcos, mathLog = jlog\<rparr> (JFin 0) (JFin 0) 12 =
     (JFin 2048, JFin 2048)"
  "lonLatToTile64 \<lparr>mathTan = jtan, mathCos = jcos, mathLog = jlog\<rparr> (JFin (5715 / 1024)) (JFin 0) 12 =
     (JFin (4223 / 2), JFin 2048)"
proof -
  have a0: "add64 (JFin 0) (JFin 180) = JFin 180"
    using fl_eval [of 7 "(0) + (180)"] by (simp add: add64_def jsub_def rne_def)
  have b0: "div64 (JFin 180) (JFin 360) = JFin (1 / 2)"
    using fl_eval [of "- 1" "(180) / (360)"] by (simp add: div64_def jsub_def rne_def)
  have c0: "mul64 (JFin (1 / 2)) (JFin 4096) = JFin 2048"
    using fl_eval [of 11 "(1 / 2) * (4096)"] by (simp add: mul64_def jsub_def rne_def)
  have a1: "add64 (JFin (5715 / 1024)) (JFin 180) = JFin (190035 / 1024)"
    using fl_eval [of 7 "(5715 / 1024) + (180)"] by (simp add: add64_def jsub_def rne_def)
  have b1: "div64 (JFin (190035 / 1024)) (JFin 360) = JFin (4223 / 8192)"
    using fl_eval [of "- 1" "(190035 / 1024) / (360)"] by (simp add: div64_def jsub_def rne_def)
  have c1: "mul64 (JFin (4223 / 8192)) (JFin 4096) = JFin (4223 / 2)"
    using fl_eval [of 11 "(4223 / 8192) * (4096)"] by (simp add: mul64_def jsub_def rne_def)
  show "lonLatToTile64 \<lparr>mathTan = jtan, mathCos = jcos, mathLog = jlog\<rparr> (JFin 0) (JFin 0) 12 =
     (JFin 2048, JFin 2048)"
    by (simp only: lonLatToTile64_equator a0 b0 c0)
  show "lonLatToTile64 \<lparr>mathTan = jtan, mathCos = jcos, mathLog = jlog\<rparr> (JFin (5715 / 1024)) (JFin 0) 12 =
     (JFin (4223 / 2), JFin 2048)"
    by (simp only: lonLatToTile64_equator a1 b1 c1)
qed

text \<open>A \<open>NaN\<close> longitude gives a \<open>NaN\<close> coordinate, whatever the library.\<close>

lemma rnd_NaN_ops [simp]:
  "add64 JNaN y = JNaN" "div64 JNaN y = JNaN" "mul64 JNaN y = JNaN"
  by (simp_all add: add64_def div64_def mul64_def)

lemma lonLatToTile64_nan: "fst (lonLatToTile64 lm JNaN lat z) = JNaN"
  by (simp add: lonLatToTile64_def Let_def)

text \<open>The tile count of a range of integers of magnitude at most \<open>2 ^ 25\<close> is not rounded.\<close>

lemma tileCount64_int:
  fixes x0 x1 y0 y1 :: int
  assumes "\<bar>x0\<bar> \<le> 2 ^ 25" "\<bar>x1\<bar> \<le> 2 ^ 25" "\<bar>y0\<bar> \<le> 2 ^ 25" "\<bar>y1\<bar> \<le> 2 ^ 25"
  shows "tileCount64 \<lparr> xMin = JFin (of_int x0), xMax = JFin (of_int x1),
                        yMin = JFin (of_int y0), yMax = JFin (of_int y1) \<rparr> =
           JFin (of_int ((x1 - x0 + 1) * (y1 - y0 + 1)))"
proof -
  have dx: "\<bar>x1 - x0\<bar> \<le> 2 ^ 26" and dy: "\<bar>y1 - y0\<bar> \<le> 2 ^ 26"
    using assms by (auto simp: abs_if split: if_splits)
  have ex: "\<bar>x1 - x0 + 1\<bar> \<le> 2 ^ 26 + 1" and ey: "\<bar>y1 - y0 + 1\<bar> \<le> 2 ^ 26 + 1"
    using dx dy by (auto simp: abs_if split: if_splits)
  have "\<bar>(x1 - x0 + 1) * (y1 - y0 + 1)\<bar> = \<bar>x1 - x0 + 1\<bar> * \<bar>y1 - y0 + 1\<bar>" by (rule abs_mult)
  also have "\<dots> \<le> (2 ^ 26 + 1) * (2 ^ 26 + 1)" using ex ey by (intro mult_mono) simp_all
  also have "\<dots> < 2 ^ 53" by simp
  finally have p: "\<bar>(x1 - x0 + 1) * (y1 - y0 + 1)\<bar> < 2 ^ 53" .
  have sx: "sub64 (JFin (of_int x1)) (JFin (of_int x0)) = JFin (of_int (x1 - x0))"
    using dx by (intro sub64_int) simp
  have sy: "sub64 (JFin (of_int y1)) (JFin (of_int y0)) = JFin (of_int (y1 - y0))"
    using dy by (intro sub64_int) simp
  have ax: "add64 (JFin (of_int (x1 - x0))) (JFin (of_int 1)) = JFin (of_int (x1 - x0 + 1))"
    using ex by (intro add64_int) simp
  have ay: "add64 (JFin (of_int (y1 - y0))) (JFin (of_int 1)) = JFin (of_int (y1 - y0 + 1))"
    using ey by (intro add64_int) simp
  have "mul64 (JFin (of_int (x1 - x0 + 1))) (JFin (of_int (y1 - y0 + 1))) =
      JFin (of_int ((x1 - x0 + 1) * (y1 - y0 + 1)))"
    using p by (rule mul64_int)
  thus ?thesis
    using ax ay by (simp add: tileCount64_def sx sy)
qed

lemma floor_bound:
  fixes a :: real
  assumes "\<bar>a\<bar> \<le> 2 ^ 25"
  shows "\<bar>\<lfloor>a\<rfloor>\<bar> \<le> 2 ^ 25"
proof -
  have b: "- (2 ^ 25) \<le> a" "a \<le> 2 ^ 25" using assms by (auto simp: abs_if split: if_splits)
  have "(- (2 ^ 25) :: int) \<le> \<lfloor>a\<rfloor>" using b(1) by (simp add: le_floor_iff)
  moreover have "\<lfloor>a\<rfloor> \<le> 2 ^ 25" using b(2) by (simp add: floor_le_iff)
  ultimately show ?thesis by linarith
qed

text \<open>
  For a longitude between \<open>-180\<close> and 180 the \<open>x\<close> coordinate at zoom 12 is
  finite and, whatever the three roundings do, far below \<open>2 ^ 25\<close> in magnitude.
\<close>

lemma tileX64_valid:
  fixes lon :: real
  assumes "\<bar>lon\<bar> \<le> 180"
  shows "\<exists>x. fst (lonLatToTile64 lm (JFin lon) lat 12) = JFin x \<and> \<bar>x\<bar> \<le> 2 ^ 25"
proof -
  have "\<bar>lon + 180\<bar> \<le> 360" using assms by (auto simp: abs_if split: if_splits)
  from fl_crude [OF this] obtain y1 where y1: "fl (lon + 180) = JFin y1" "\<bar>y1\<bar> \<le> 2 * 360 + 1"
    by auto
  have "\<bar>y1 / 360\<bar> \<le> 3" using y1(2) by (simp add: abs_divide field_simps)
  from fl_crude [OF this] obtain y2 where y2: "fl (y1 / 360) = JFin y2" "\<bar>y2\<bar> \<le> 2 * 3 + 1"
    by auto
  have "\<bar>y2 * 4096\<bar> \<le> 28672" using y2(2) by (simp add: abs_mult)
  from fl_crude [OF this] obtain y3 where y3: "fl (y2 * 4096) = JFin y3" "\<bar>y3\<bar> \<le> 2 * 28672 + 1"
    by auto
  have b3: "\<bar>y3\<bar> \<le> 2 ^ 25" using y3(2) by simp
  have "fst (lonLatToTile64 lm (JFin lon) lat 12) = JFin y3"
    by (simp add: lonLatToTile64_def Let_def add64_fin y1(1) div64_fin y2(1) mul64_fin y3(1))
  thus ?thesis using b3 by blast
qed

text \<open>
  The computed coordinate is not the exact projection: the longitude
  \<^verbatim>\<open>0.08789062499999999\<close>, just west of the boundary between the tile columns
  2048 and 2049, has the computed \<open>x = 2049\<close>.
\<close>

lemma tileX64_rounds_up:
  "fst (lonLatToTile64 lm (JFin (6333186975989759 / 72057594037927936)) lat 12) = JFin 2049"
  "(6333186975989759 / 72057594037927936 + 180) / 360 * 2 ^ 12 < (2049::real)"
proof -
  have a: "add64 (JFin (6333186975989759 / 72057594037927936)) (JFin 180) = JFin (92205 / 512)"
    using fl_eval [of 7
        "(6333186975989759 / 72057594037927936) + (180)"]
    by (simp add: add64_def jsub_def rne_def)
  have b: "div64 (JFin (92205 / 512)) (JFin 360) = JFin (2049 / 4096)"
    using fl_eval [of "- 1" "(92205 / 512) / (360)"] by (simp add: div64_def jsub_def rne_def)
  have c: "mul64 (JFin (2049 / 4096)) (JFin 4096) = JFin 2049"
    using fl_eval [of 11 "(2049 / 4096) * (4096)"] by (simp add: mul64_def jsub_def rne_def)
  show "fst (lonLatToTile64 lm (JFin (6333186975989759 / 72057594037927936)) lat 12) = JFin 2049"
    by (simp add: lonLatToTile64_def Let_def a b c)
  show "(6333186975989759 / 72057594037927936 + 180) / 360 * 2 ^ 12 < (2049::real)"
    by simp
qed

text \<open>
  C4 (as amended). Whenever the two corners project to finite tile coordinates
  \<open>(ax, ay)\<close> and \<open>(cx, cy)\<close>, at every zoom and with every library: the range is
  the floor of the smaller and the floor of the larger coordinate on each axis, an
  inclusive range of integer tile indices with \<open>xMin \<le> xMax\<close> and
  \<open>yMin \<le> yMax\<close> whose tiles cover both corners; and for coordinates of
  magnitude at most \<open>2 ^ 25\<close> the tile count, computed in binary64, is
  \<open>(xMax - xMin + 1) * (yMax - yMin + 1)\<close> unrounded, the number that the handler
  compares with 64.
\<close>

theorem tile_range:
  assumes "lonLatToTile64 lm (west bd) (north bd) z = (JFin ax, JFin ay)"
    and "lonLatToTile64 lm (east bd) (south bd) z = (JFin cx, JFin cy)"
    and "rng = tileRange (lonLatToTile64 lm (west bd) (north bd) z)
                         (lonLatToTile64 lm (east bd) (south bd) z)"
    and "x0 = \<lfloor>min ax cx\<rfloor>" and "x1 = \<lfloor>max ax cx\<rfloor>"
    and "y0 = \<lfloor>min ay cy\<rfloor>" and "y1 = \<lfloor>max ay cy\<rfloor>"
  shows "rng = \<lparr> xMin = JFin (of_int x0), xMax = JFin (of_int x1),
                 yMin = JFin (of_int y0), yMax = JFin (of_int y1) \<rparr> \<and>
     x0 \<le> x1 \<and> y0 \<le> y1 \<and> jle (xMin rng) (xMax rng) \<and> jle (yMin rng) (yMax rng) \<and>
     of_int x0 \<le> ax \<and> ax < of_int x1 + 1 \<and> of_int x0 \<le> cx \<and> cx < of_int x1 + 1 \<and>
     of_int y0 \<le> ay \<and> ay < of_int y1 + 1 \<and> of_int y0 \<le> cy \<and> cy < of_int y1 + 1 \<and>
     (\<bar>ax\<bar> \<le> 2 ^ 25 \<and> \<bar>cx\<bar> \<le> 2 ^ 25 \<and> \<bar>ay\<bar> \<le> 2 ^ 25 \<and> \<bar>cy\<bar> \<le> 2 ^ 25 \<longrightarrow>
        tileCount64 rng = JFin (of_int ((x1 - x0 + 1) * (y1 - y0 + 1))) \<and>
        tileCount rng = tileCount64 rng)"
proof -
  have r: "rng = \<lparr> xMin = JFin (of_int x0), xMax = JFin (of_int x1),
             yMin = JFin (of_int y0), yMax = JFin (of_int y1) \<rparr>"
    by (simp only: assms tileRange_finite)
  have fx: "of_int x0 \<le> ax" "ax < of_int x1 + 1" "of_int x0 \<le> cx" "cx < of_int x1 + 1" "x0 \<le> x1"
    unfolding assms(4,5) by (rule floor_covers)+
  have fy: "of_int y0 \<le> ay" "ay < of_int y1 + 1" "of_int y0 \<le> cy" "cy < of_int y1 + 1" "y0 \<le> y1"
    unfolding assms(6,7) by (rule floor_covers)+
  have j: "jle (xMin rng) (xMax rng)" "jle (yMin rng) (yMax rng)"
    using fx(5) fy(5) by (simp_all add: r)
  have c: "\<bar>ax\<bar> \<le> 2 ^ 25 \<and> \<bar>cx\<bar> \<le> 2 ^ 25 \<and> \<bar>ay\<bar> \<le> 2 ^ 25 \<and> \<bar>cy\<bar> \<le> 2 ^ 25 \<longrightarrow>
        tileCount64 rng = JFin (of_int ((x1 - x0 + 1) * (y1 - y0 + 1))) \<and>
        tileCount rng = tileCount64 rng"
  proof (rule impI)
    assume b: "\<bar>ax\<bar> \<le> 2 ^ 25 \<and> \<bar>cx\<bar> \<le> 2 ^ 25 \<and> \<bar>ay\<bar> \<le> 2 ^ 25 \<and> \<bar>cy\<bar> \<le> 2 ^ 25"
    have m: "\<bar>min ax cx\<bar> \<le> 2 ^ 25" "\<bar>max ax cx\<bar> \<le> 2 ^ 25" "\<bar>min ay cy\<bar> \<le> 2 ^ 25" "\<bar>max ay cy\<bar> \<le> 2 ^ 25"
      using b by (auto simp: min_def max_def)
    have i: "\<bar>x0\<bar> \<le> 2 ^ 25" "\<bar>x1\<bar> \<le> 2 ^ 25" "\<bar>y0\<bar> \<le> 2 ^ 25" "\<bar>y1\<bar> \<le> 2 ^ 25"
      unfolding assms(4-7) by (rule floor_bound [OF m(1)] floor_bound [OF m(2)]
          floor_bound [OF m(3)] floor_bound [OF m(4)])+
    have t: "tileCount64 rng = JFin (of_int ((x1 - x0 + 1) * (y1 - y0 + 1)))"
      unfolding r by (rule tileCount64_int [OF i])
    moreover have "tileCount rng = JFin (of_int ((x1 - x0 + 1) * (y1 - y0 + 1)))"
      unfolding r by (rule tileCount_finite)
    ultimately show "tileCount64 rng = JFin (of_int ((x1 - x0 + 1) * (y1 - y0 + 1))) \<and>
        tileCount rng = tileCount64 rng" by simp
  qed
  from r fx(5) fy(5) j fx(1-4) fy(1-4) c show ?thesis
    by (intro conjI)
qed

text \<open>
  A strip on the equator from longitude 0 east, 64 tiles wide at zoom 12: the
  eastern corner has \<open>x = 2111.5\<close>.
\<close>

theorem tile_range_witness:
  "lonLatToTile64 \<lparr>mathTan = jtan, mathCos = jcos, mathLog = jlog\<rparr> (JFin 0) (JFin 0) 12 =
     (JFin 2048, JFin 2048) \<and>
   lonLatToTile64 \<lparr>mathTan = jtan, mathCos = jcos, mathLog = jlog\<rparr> (JFin (5715 / 1024)) (JFin 0) 12 =
     (JFin (4223 / 2), JFin 2048) \<and>
   tileRange (lonLatToTile64 \<lparr>mathTan = jtan, mathCos = jcos, mathLog = jlog\<rparr> (JFin 0) (JFin 0) 12)
     (lonLatToTile64 \<lparr>mathTan = jtan, mathCos = jcos, mathLog = jlog\<rparr> (JFin (5715 / 1024)) (JFin 0) 12) =
     \<lparr> xMin = JFin 2048, xMax = JFin 2111, yMin = JFin 2048, yMax = JFin 2048 \<rparr> \<and>
   tileCount64 (tileRange
       (lonLatToTile64 \<lparr>mathTan = jtan, mathCos = jcos, mathLog = jlog\<rparr> (JFin 0) (JFin 0) 12)
       (lonLatToTile64 \<lparr>mathTan = jtan, mathCos = jcos, mathLog = jlog\<rparr> (JFin (5715 / 1024)) (JFin 0) 12)) =
     JFin 64"
proof -
  let ?lm = "\<lparr>mathTan = jtan, mathCos = jcos, mathLog = jlog\<rparr>"
  let ?bd = "\<lparr>west = JFin 0, south = JFin 0, east = JFin (5715 / 1024), north = JFin 0\<rparr>"
  have a: "lonLatToTile64 ?lm (west ?bd) (north ?bd) 12 = (JFin 2048, JFin 2048)"
    using lonLatToTile64_strip(1) by simp
  have c: "lonLatToTile64 ?lm (east ?bd) (south ?bd) 12 = (JFin (4223 / 2), JFin 2048)"
    using lonLatToTile64_strip(2) by simp
  have x: "(2048::int) = \<lfloor>min (2048::real) (4223 / 2)\<rfloor>" "(2111::int) = \<lfloor>max (2048::real) (4223 / 2)\<rfloor>"
    by simp_all
  have y: "(2048::int) = \<lfloor>min (2048::real) 2048\<rfloor>" "(2048::int) = \<lfloor>max (2048::real) 2048\<rfloor>"
    by simp_all
  note r = tile_range [OF a c refl x y]
  have h: "\<bar>2048 :: real\<bar> \<le> 2 ^ 25 \<and> \<bar>4223 / 2 :: real\<bar> \<le> 2 ^ 25 \<and>
      \<bar>2048 :: real\<bar> \<le> 2 ^ 25 \<and> \<bar>2048 :: real\<bar> \<le> 2 ^ 25" by simp
  from r have rg: "tileRange (lonLatToTile64 ?lm (west ?bd) (north ?bd) 12)
      (lonLatToTile64 ?lm (east ?bd) (south ?bd) 12) =
     \<lparr> xMin = JFin (of_int 2048), xMax = JFin (of_int 2111),
       yMin = JFin (of_int 2048), yMax = JFin (of_int 2048) \<rparr>"
    by (elim conjE)
  from r h have ct: "tileCount64 (tileRange (lonLatToTile64 ?lm (west ?bd) (north ?bd) 12)
      (lonLatToTile64 ?lm (east ?bd) (south ?bd) 12)) =
      JFin (of_int ((2111 - 2048 + 1) * (2048 - 2048 + 1)))"
    by blast
  from rg have rg': "tileRange (lonLatToTile64 ?lm (JFin 0) (JFin 0) 12)
      (lonLatToTile64 ?lm (JFin (5715 / 1024)) (JFin 0) 12) =
     \<lparr> xMin = JFin 2048, xMax = JFin 2111, yMin = JFin 2048, yMax = JFin 2048 \<rparr>"
    by simp
  from ct have ct': "tileCount64 (tileRange (lonLatToTile64 ?lm (JFin 0) (JFin 0) 12)
      (lonLatToTile64 ?lm (JFin (5715 / 1024)) (JFin 0) 12)) = JFin 64"
    by simp
  from lonLatToTile64_strip rg' ct' show ?thesis by (intro conjI)
qed

text \<open>
  With a \<open>NaN\<close> western longitude the range has \<open>NaN\<close> ends, and
  \<open>xMin \<le> xMax\<close> is false. And the upper end of a range is a floor, not a
  ceiling: for the equator strip whose eastern corner has \<open>x = 2111.5\<close> it is 2111.
\<close>

theorem tile_range_counterexample:
  "(\<forall>lm. \<not> jle (xMin (tileRange (lonLatToTile64 lm JNaN (JFin 0) 12) (lonLatToTile64 lm (JFin 0) (JFin 0) 12)))
               (xMax (tileRange (lonLatToTile64 lm JNaN (JFin 0) 12) (lonLatToTile64 lm (JFin 0) (JFin 0) 12)))) \<and>
   fst (lonLatToTile64 \<lparr>mathTan = jtan, mathCos = jcos, mathLog = jlog\<rparr> (JFin (5715 / 1024)) (JFin 0) 12) =
     JFin (4223 / 2) \<and>
   xMax (tileRange
       (lonLatToTile64 \<lparr>mathTan = jtan, mathCos = jcos, mathLog = jlog\<rparr> (JFin 0) (JFin 0) 12)
       (lonLatToTile64 \<lparr>mathTan = jtan, mathCos = jcos, mathLog = jlog\<rparr> (JFin (5715 / 1024)) (JFin 0) 12)) =
     JFin 2111 \<and>
   jceil (JFin (4223 / 2)) = JFin 2112"
proof -
  have "\<not> jle (xMin (tileRange (lonLatToTile64 lm JNaN (JFin 0) 12) (lonLatToTile64 lm (JFin 0) (JFin 0) 12)))
               (xMax (tileRange (lonLatToTile64 lm JNaN (JFin 0) 12) (lonLatToTile64 lm (JFin 0) (JFin 0) 12)))" for lm
    by (simp add: tileRange_def lonLatToTile64_nan)
  thus ?thesis
    by (simp add: lonLatToTile64_strip tileRange_def)
qed

section \<open>Stitching\<close>

text \<open>A loop \<^verbatim>\<open>for (let t = lo; t <= hi; t++)\<close> between two integers runs over \<open>[lo..hi]\<close>.\<close>

lemma rangeLoop:
  "forLoop (\<lambda>t. jle t (JFin (of_int hi))) inc body (JFin (of_int lo)) s =
     iterE body (map (\<lambda>k. JFin (of_int k)) [lo..hi]) s"
proof (induction "nat (hi + 1 - lo)" arbitrary: lo s)
  case 0
  then have "hi < lo" by simp
  then show ?case by (subst forLoop.simps) simp
next
  case (Suc n)
  then have le: "lo \<le> hi" and n: "n = nat (hi + 1 - (lo + 1))" by simp_all
  have next_t: "inc (JFin (of_int lo)) = JFin (of_int lo + 1)"
    by (simp add: inc_def)
  have ih: "forLoop (\<lambda>t. jle t (JFin (of_int hi))) inc body (JFin (of_int lo + 1)) =
      iterE body (map (\<lambda>k. JFin (of_int k)) [lo + 1..hi])"
    using Suc.hyps(1) [OF n] by (intro ext) simp
  have u: "[lo..hi] = lo # [lo + 1..hi]" using le by (simp add: upto_rec1)
  show ?case
    by (subst forLoop.simps) (simp add: le next_t ih u)
qed

lemma iterE_returns:
  assumes "\<And>t s. \<exists>r. body t s = Some r"
  shows "\<exists>r. iterE body ts s = Some r"
proof (induction ts arbitrary: s)
  case Nil
  show ?case by simp
next
  case (Cons t ts)
  from assms obtain r where r: "body t s = Some r" by blast
  show ?case
  proof (cases r)
    case (Inl e)
    then show ?thesis by (simp add: r)
  next
    case (Inr s')
    with Cons [of s'] show ?thesis by (simp add: r)
  qed
qed

lemma stitchTile_returns: "\<exists>r. stitchTile ev rng stitchedW ty tx s = Some r"
  by (cases s) (simp add: stitchTile_def split: option.splits)

lemma length_f32set [simp]: "length (f32set xs i v) = length xs"
  by (simp add: f32set_def split: option.splits)

lemma length_fold_keeps:
  "(\<And>p s. length (f p s) = length s) \<Longrightarrow> length (fold f ps st) = length st"
  by (induction ps arbitrary: st) simp_all

lemma length_putTile [simp]: "length (putTile png rng stitchedW ty tx stitched) = length stitched"
  unfolding putTile_def
  by (rule length_fold_keeps, rule length_fold_keeps) (simp add: Let_def)

lemma stitchTile_fetched:
  "fetchPng ev tx ty = Some png \<Longrightarrow>
   stitchTile ev rng stitchedW ty tx (stitched, fetched) =
     Some (Inr (putTile png rng stitchedW ty tx stitched, fetched @ [(tx, ty)]))"
  by (simp add: stitchTile_def)

text \<open>With every tile available, a row and then all rows are fetched in order.\<close>

lemma stitchRow_available:
  assumes "\<And>tx. tx \<in> set txs \<Longrightarrow> fetchPng ev tx ty \<noteq> None"
  shows "\<exists>stitched'. length stitched' = length stitched \<and>
           iterE (stitchTile ev rng stitchedW ty) txs (stitched, fetched) =
             Some (Inr (stitched', fetched @ map (\<lambda>tx. (tx, ty)) txs))"
  using assms
proof (induction txs arbitrary: stitched fetched)
  case Nil
  show ?case by simp
next
  case (Cons tx txs)
  from Cons.prems [of tx] obtain png where png: "fetchPng ev tx ty = Some png" by auto
  from Cons.IH [of "putTile png rng stitchedW ty tx stitched" "fetched @ [(tx, ty)]"] Cons.prems
  obtain stitched' where
    "length stitched' = length stitched"
    "iterE (stitchTile ev rng stitchedW ty) txs
       (putTile png rng stitchedW ty tx stitched, fetched @ [(tx, ty)]) =
     Some (Inr (stitched', (fetched @ [(tx, ty)]) @ map (\<lambda>tx. (tx, ty)) txs))"
    by auto
  then show ?case
    by (intro exI [of _ stitched']) (simp add: stitchTile_fetched [OF png])
qed

lemma stitchRows_available:
  assumes "\<And>tx ty. tx \<in> set txs \<Longrightarrow> ty \<in> set tys \<Longrightarrow> fetchPng ev tx ty \<noteq> None"
  shows "\<exists>stitched'. length stitched' = length stitched \<and>
           iterE (\<lambda>ty. iterE (stitchTile ev rng stitchedW ty) txs) tys (stitched, fetched) =
             Some (Inr (stitched', fetched @ concat (map (\<lambda>ty. map (\<lambda>tx. (tx, ty)) txs) tys)))"
  using assms
proof (induction tys arbitrary: stitched fetched)
  case Nil
  show ?case by simp
next
  case (Cons ty tys)
  have "\<And>tx. tx \<in> set txs \<Longrightarrow> fetchPng ev tx ty \<noteq> None"
    using Cons.prems by simp
  from stitchRow_available [OF this, where stitched = stitched and rng = rng
      and stitchedW = stitchedW and fetched = fetched]
  obtain s1 where s1: "length s1 = length stitched"
    "iterE (stitchTile ev rng stitchedW ty) txs (stitched, fetched) =
       Some (Inr (s1, fetched @ map (\<lambda>tx. (tx, ty)) txs))"
    by blast
  from Cons.IH [of s1 "fetched @ map (\<lambda>tx. (tx, ty)) txs"] Cons.prems
  obtain s2 where "length s2 = length s1"
    "iterE (\<lambda>ty. iterE (stitchTile ev rng stitchedW ty) txs) tys
       (s1, fetched @ map (\<lambda>tx. (tx, ty)) txs) =
     Some (Inr (s2, (fetched @ map (\<lambda>tx. (tx, ty)) txs) @
                    concat (map (\<lambda>ty. map (\<lambda>tx. (tx, ty)) txs) tys)))"
    by auto
  then show ?case
    by (intro exI [of _ s2]) (simp add: s1)
qed

text \<open>
  The number of tiles along one axis is \<open>NaN\<close>, \<open>+Infinity\<close>, or both
  coordinates are finite; so a tile count that is \<open>\<le> 64\<close> comes from finite
  corners, and the range is one of integers.
\<close>

lemma span_cases:
  "jadd (jsub (jfloor (jmax a c)) (jfloor (jmin a c))) (JFin 1) = JNaN \<or>
   jadd (jsub (jfloor (jmax a c)) (jfloor (jmin a c))) (JFin 1) = JPosInf \<or>
   (\<exists>p q. a = JFin p \<and> c = JFin q)"
  by (cases a; cases c) (simp_all add: jsub_def)

lemma span_value:
  "jadd (jsub (jfloor (jmax (JFin p) (JFin q))) (jfloor (jmin (JFin p) (JFin q)))) (JFin 1) =
     JFin (of_int (\<lfloor>max p q\<rfloor> - \<lfloor>min p q\<rfloor> + 1))"
  by (simp only: jmax_fin jmin_fin jfloor.simps) (simp add: jsub_def)

lemma span_pos:
  fixes p q :: real
  shows "0 < \<lfloor>max p q\<rfloor> - \<lfloor>min p q\<rfloor> + 1"
proof -
  have "\<lfloor>min p q\<rfloor> \<le> \<lfloor>max p q\<rfloor>" by (rule floor_covers)
  then show ?thesis by simp
qed

lemma count_le_finite:
  assumes "jle (tileCount (tileRange tlc brc)) (JFin 64)"
  shows "\<exists>a b c d. tlc = (JFin a, JFin b) \<and> brc = (JFin c, JFin d)"
proof -
  let ?dx = "jadd (jsub (jfloor (jmax (fst tlc) (fst brc))) (jfloor (jmin (fst tlc) (fst brc)))) (JFin 1)"
  let ?dy = "jadd (jsub (jfloor (jmax (snd tlc) (snd brc))) (jfloor (jmin (snd tlc) (snd brc)))) (JFin 1)"
  have m: "jle (jmul ?dx ?dy) (JFin 64)"
    using assms by (simp add: tileCount_def tileRange_def)
  have fx: "\<exists>p q. fst tlc = JFin p \<and> fst brc = JFin q"
  proof (rule ccontr)
    assume "\<not> ?thesis"
    with span_cases [of "fst tlc" "fst brc"] have x: "?dx = JNaN \<or> ?dx = JPosInf" by blast
    from span_cases [of "snd tlc" "snd brc"] show False
    proof (elim disjE exE conjE)
      assume "?dy = JNaN"
      with m show False by simp
    next
      assume "?dy = JPosInf"
      with m x show False by auto
    next
      fix p q
      assume "snd tlc = JFin p" "snd brc = JFin q"
      then have "?dy = JFin (of_int (\<lfloor>max p q\<rfloor> - \<lfloor>min p q\<rfloor> + 1))"
        by (simp only: span_value)
      with m x span_pos [of p q] show False by auto
    qed
  qed
  have fy: "\<exists>p q. snd tlc = JFin p \<and> snd brc = JFin q"
  proof (rule ccontr)
    assume "\<not> ?thesis"
    with span_cases [of "snd tlc" "snd brc"] have y: "?dy = JNaN \<or> ?dy = JPosInf" by blast
    from fx obtain p q where "fst tlc = JFin p" "fst brc = JFin q" by blast
    then have "?dx = JFin (of_int (\<lfloor>max p q\<rfloor> - \<lfloor>min p q\<rfloor> + 1))"
      by (simp only: span_value)
    with m y span_pos [of p q] show False by auto
  qed
  from fx fy show ?thesis
    by (cases tlc; cases brc) auto
qed

lemma count_le_range:
  assumes "jle (tileCount (tileRange tlc brc)) (JFin 64)"
  shows "\<exists>x0 x1 y0 y1.
     tileRange tlc brc = \<lparr> xMin = JFin (of_int x0), xMax = JFin (of_int x1),
                            yMin = JFin (of_int y0), yMax = JFin (of_int y1) \<rparr> \<and>
     x0 \<le> x1 \<and> y0 \<le> y1 \<and> (x1 - x0 + 1) * (y1 - y0 + 1) \<le> 64"
proof -
  from count_le_finite [OF assms] obtain a b c d where
    p: "tlc = (JFin a, JFin b)" "brc = (JFin c, JFin d)" by blast
  let ?x0 = "\<lfloor>min a c\<rfloor>" and ?x1 = "\<lfloor>max a c\<rfloor>" and ?y0 = "\<lfloor>min b d\<rfloor>" and ?y1 = "\<lfloor>max b d\<rfloor>"
  have r: "tileRange tlc brc = \<lparr> xMin = JFin (of_int ?x0), xMax = JFin (of_int ?x1),
                            yMin = JFin (of_int ?y0), yMax = JFin (of_int ?y1) \<rparr>"
    by (simp only: p tileRange_finite)
  have "jle (JFin (of_int ((?x1 - ?x0 + 1) * (?y1 - ?y0 + 1)))) (JFin 64)"
    using assms by (simp only: r tileCount_finite)
  then have "(of_int ((?x1 - ?x0 + 1) * (?y1 - ?y0 + 1)) :: real) \<le> of_int 64"
    by simp
  then have "(?x1 - ?x0 + 1) * (?y1 - ?y0 + 1) \<le> 64"
    by (simp only: of_int_le_iff)
  with r floor_covers(5) [of a c] floor_covers(5) [of b d] show ?thesis by blast
qed

lemma rangeLoop_fun:
  "forLoop (\<lambda>t. jle t (JFin (of_int hi))) inc body (JFin (of_int lo)) =
     iterE body (map (\<lambda>k. JFin (of_int k)) [lo..hi])"
  by (rule ext) (rule rangeLoop)

lemma stitch_range:
  "stitch ev \<lparr> xMin = JFin (of_int x0), xMax = JFin (of_int x1),
               yMin = JFin (of_int y0), yMax = JFin (of_int y1) \<rparr> =
     (case newFloat32Array (maxArrayLength ev)
             (JFin (of_int ((x1 - x0 + 1) * (y1 - y0 + 1) * 65536))) of
        None \<Rightarrow> Some (Inl (ExportError, []))
      | Some stitched \<Rightarrow>
          iterE (\<lambda>ty. iterE (stitchTile ev
                    \<lparr> xMin = JFin (of_int x0), xMax = JFin (of_int x1),
                      yMin = JFin (of_int y0), yMax = JFin (of_int y1) \<rparr>
                    (JFin (of_int ((x1 - x0 + 1) * 256))) ty)
                  (map (\<lambda>k. JFin (of_int k)) [x0..x1]))
            (map (\<lambda>k. JFin (of_int k)) [y0..y1]) (stitched, []))"
proof -
  have h: "jmul (jadd (jsub (JFin (of_int y1)) (JFin (of_int y0))) (JFin 1)) (JFin (real tileSize)) =
           JFin (of_int ((y1 - y0 + 1) * 256))"
    by (simp add: jsub_def tileSize_def)
  have a: "jmul (JFin (of_int ((x1 - x0 + 1) * 256))) (JFin (of_int ((y1 - y0 + 1) * 256))) =
           JFin (of_int ((x1 - x0 + 1) * (y1 - y0 + 1) * 65536))"
    by (simp add: algebra_simps)
  have w: "jmul (jadd (jsub (JFin (of_int x1)) (JFin (of_int x0))) (JFin 1)) (JFin (real tileSize)) =
           JFin (of_int ((x1 - x0 + 1) * 256))"
    by (simp add: jsub_def tileSize_def)
  show ?thesis
    unfolding stitch_def Let_def tiles.simps w h a
    by (simp only: rangeLoop_fun rangeLoop)
qed

lemma stitch_returns:
  "\<exists>res. stitch ev \<lparr> xMin = JFin (of_int x0), xMax = JFin (of_int x1),
                     yMin = JFin (of_int y0), yMax = JFin (of_int y1) \<rparr> = Some res"
proof (cases "newFloat32Array (maxArrayLength ev) (JFin (of_int ((x1 - x0 + 1) * (y1 - y0 + 1) * 65536)))")
  case None
  then show ?thesis by (simp only: stitch_range option.case) simp
next
  case (Some stitched)
  have "\<exists>r. iterE (\<lambda>ty. iterE (stitchTile ev
                    \<lparr> xMin = JFin (of_int x0), xMax = JFin (of_int x1),
                      yMin = JFin (of_int y0), yMax = JFin (of_int y1) \<rparr>
                    (JFin (of_int ((x1 - x0 + 1) * 256))) ty)
                  (map (\<lambda>k. JFin (of_int k)) [x0..x1]))
            (map (\<lambda>k. JFin (of_int k)) [y0..y1]) (stitched, []) = Some r"
    by (rule iterE_returns, rule iterE_returns, rule stitchTile_returns)
  then show ?thesis by (simp only: stitch_range Some option.case)
qed

lemma alloc_fits:
  assumes "0 \<le> n" and "n \<le> int limit"
  shows "newFloat32Array limit (JFin (of_int n)) = Some (replicate (nat n) (JFin 0))"
  using assms by (simp add: newFloat32Array_def)

lemma stitch_available:
  assumes "x0 \<le> x1" and "y0 \<le> y1" and "(x1 - x0 + 1) * (y1 - y0 + 1) \<le> 64"
    and "64 * 65536 \<le> maxArrayLength ev"
    and "\<forall>x \<in> set [x0..x1]. \<forall>y \<in> set [y0..y1]. fetchPng ev (JFin (of_int x)) (JFin (of_int y)) \<noteq> None"
  shows "\<exists>stitched.
     stitch ev \<lparr> xMin = JFin (of_int x0), xMax = JFin (of_int x1),
                 yMin = JFin (of_int y0), yMax = JFin (of_int y1) \<rparr> =
       Some (Inr (stitched,
              concat (map (\<lambda>y. map (\<lambda>x. (JFin (of_int x), JFin (of_int y))) [x0..x1]) [y0..y1]))) \<and>
     int (length stitched) = (x1 - x0 + 1) * (y1 - y0 + 1) * 65536"
proof -
  let ?n = "(x1 - x0 + 1) * (y1 - y0 + 1) * 65536"
  let ?rng = "\<lparr> xMin = JFin (of_int x0), xMax = JFin (of_int x1),
                 yMin = JFin (of_int y0), yMax = JFin (of_int y1) \<rparr>"
  let ?xs = "map (\<lambda>k. JFin (of_int k)) [x0..x1]" and ?ys = "map (\<lambda>k. JFin (of_int k)) [y0..y1]"
  have n0: "0 \<le> ?n" using assms(1,2) by simp
  have "?n \<le> 64 * 65536" using assms(3) by simp
  then have nl: "?n \<le> int (maxArrayLength ev)" using assms(4) by linarith
  have al: "newFloat32Array (maxArrayLength ev) (JFin (of_int ?n)) = Some (replicate (nat ?n) (JFin 0))"
    using n0 nl by (rule alloc_fits)
  have av: "\<And>tx ty. tx \<in> set ?xs \<Longrightarrow> ty \<in> set ?ys \<Longrightarrow> fetchPng ev tx ty \<noteq> None"
    using assms(5) by auto
  from stitchRows_available [where txs = ?xs and tys = ?ys and ev = ev, OF av,
      where stitched = "replicate (nat ?n) (JFin 0)" and rng = ?rng
        and stitchedW = "JFin (of_int ((x1 - x0 + 1) * 256))" and fetched = "[]"]
  obtain stitched where s: "length stitched = length (replicate (nat ?n) (JFin 0))"
    "iterE (\<lambda>ty. iterE (stitchTile ev ?rng (JFin (of_int ((x1 - x0 + 1) * 256))) ty) ?xs) ?ys
        (replicate (nat ?n) (JFin 0), []) =
     Some (Inr (stitched, [] @ concat (map (\<lambda>ty. map (\<lambda>tx. (tx, ty)) ?xs) ?ys)))"
    by blast
  have c: "concat (map (\<lambda>ty. map (\<lambda>tx. (tx, ty)) ?xs) ?ys) =
      concat (map (\<lambda>y. map (\<lambda>x. (JFin (of_int x), JFin (of_int y))) [x0..x1]) [y0..y1])"
    by (simp add: o_def)
  have "stitch ev ?rng = Some (Inr (stitched,
      concat (map (\<lambda>y. map (\<lambda>x. (JFin (of_int x), JFin (of_int y))) [x0..x1]) [y0..y1])))"
    by (simp only: stitch_range al option.case s(2) c append_Nil)
  moreover have "int (length stitched) = ?n" using s(1) n0 by simp
  ultimately show ?thesis by blast
qed

section \<open>The tile-count ceiling\<close>

lemma POST_valid:
  assumes "bounds rq = Some b" and "\<not> badRequest rq"
  shows "POST ev rq =
     (if jgt (tileCount (tileRange (lonLatToTile (west b) (north b) zoom)
                                   (lonLatToTile (east b) (south b) zoom))) (JFin 64)
      then Some (SelectionTooLarge
                   (tileCount (tileRange (lonLatToTile (west b) (north b) zoom)
                                         (lonLatToTile (east b) (south b) zoom))), [])
      else Option.bind
             (stitch ev (tileRange (lonLatToTile (west b) (north b) zoom)
                                   (lonLatToTile (east b) (south b) zoom)))
             (\<lambda>r. case r of
                    Inl (e, fetched) \<Rightarrow> Some (e, fetched)
                  | Inr (stitched, fetched) \<Rightarrow>
                      Option.bind
                        (sampleAndExport ev rq (lonLatToTile (west b) (north b) zoom)
                           (lonLatToTile (east b) (south b) zoom)
                           (tileRange (lonLatToTile (west b) (north b) zoom)
                                      (lonLatToTile (east b) (south b) zoom)) stitched)
                        (\<lambda>resp. Some (resp, fetched))))"
  using assms by (simp add: POST_def Let_def)

lemma jle_not_jgt: "jle x y \<Longrightarrow> \<not> jgt x y"
  by (cases x; cases y) (simp_all add: jgt_def)

text \<open>
  C3. For a request that passed validation, with \<open>rng\<close> the tile range of its
  bounds: when the tile count is more than 64 the route answers
  \<open>SelectionTooLarge\<close> (413) carrying that count, and no tile has been requested;
  when it is at most 64, the range is a finite range of integer indices, the
  stitching loops are entered and return, and the response is the one that follows
  from them. If moreover the raster can be allocated and every tile of the range
  is available, each tile of the range is requested once, row by row, and the
  raster has 65536 cells per tile.
\<close>

theorem tile_ceiling:
  assumes "bounds rq = Some b" and "\<not> badRequest rq"
    and "tlc = lonLatToTile (west b) (north b) zoom"
    and "brc = lonLatToTile (east b) (south b) zoom"
    and "rng = tileRange tlc brc"
  shows
   "(jgt (tileCount rng) (JFin 64) \<longrightarrow>
       POST ev rq = Some (SelectionTooLarge (tileCount rng), []) \<and>
       status (SelectionTooLarge (tileCount rng)) = 413) \<and>
    (jle (tileCount rng) (JFin 64) \<longrightarrow>
       (\<exists>res. stitch ev rng = Some res) \<and>
       POST ev rq =
         Option.bind (stitch ev rng)
           (\<lambda>r. case r of
                  Inl (e, fetched) \<Rightarrow> Some (e, fetched)
                | Inr (stitched, fetched) \<Rightarrow>
                    Option.bind (sampleAndExport ev rq tlc brc rng stitched)
                      (\<lambda>resp. Some (resp, fetched))) \<and>
       (\<exists>x0 x1 y0 y1.
          rng = \<lparr> xMin = JFin (of_int x0), xMax = JFin (of_int x1),
                  yMin = JFin (of_int y0), yMax = JFin (of_int y1) \<rparr> \<and>
          x0 \<le> x1 \<and> y0 \<le> y1 \<and>
          tileCount rng = JFin (of_int ((x1 - x0 + 1) * (y1 - y0 + 1))) \<and>
          (64 * 65536 \<le> maxArrayLength ev \<and>
           (\<forall>x \<in> set [x0..x1]. \<forall>y \<in> set [y0..y1].
              fetchPng ev (JFin (of_int x)) (JFin (of_int y)) \<noteq> None) \<longrightarrow>
           (\<exists>stitched.
              stitch ev rng =
                Some (Inr (stitched,
                  concat (map (\<lambda>y. map (\<lambda>x. (JFin (of_int x), JFin (of_int y))) [x0..x1])
                            [y0..y1]))) \<and>
              int (length stitched) = (x1 - x0 + 1) * (y1 - y0 + 1) * 65536))))"
proof (intro conjI impI)
  assume "jgt (tileCount rng) (JFin 64)"
  then show "POST ev rq = Some (SelectionTooLarge (tileCount rng), [])"
    by (simp add: POST_valid [OF assms(1,2)] assms(3,4,5))
next
  show "status (SelectionTooLarge (tileCount rng)) = 413" by simp
next
  assume le: "jle (tileCount rng) (JFin 64)"
  then obtain x0 x1 y0 y1 where
    r: "rng = \<lparr> xMin = JFin (of_int x0), xMax = JFin (of_int x1),
                 yMin = JFin (of_int y0), yMax = JFin (of_int y1) \<rparr>"
    and o: "x0 \<le> x1" "y0 \<le> y1" and c: "(x1 - x0 + 1) * (y1 - y0 + 1) \<le> 64"
    unfolding assms(5) using count_le_range by blast
  show "\<exists>res. stitch ev rng = Some res"
    unfolding r by (rule stitch_returns)
  have "\<not> jgt (tileCount rng) (JFin 64)" using le by (rule jle_not_jgt)
  then have ng: "jgt (tileCount (tileRange (lonLatToTile (west b) (north b) zoom)
      (lonLatToTile (east b) (south b) zoom))) (JFin 64) = False"
    by (simp only: assms(3,4,5))
  show "POST ev rq =
         Option.bind (stitch ev rng)
           (\<lambda>r. case r of
                  Inl (e, fetched) \<Rightarrow> Some (e, fetched)
                | Inr (stitched, fetched) \<Rightarrow>
                    Option.bind (sampleAndExport ev rq tlc brc rng stitched)
                      (\<lambda>resp. Some (resp, fetched)))"
    unfolding assms(3,4,5) by (simp only: POST_valid [OF assms(1,2)] ng if_False)
  have tc: "tileCount rng = JFin (of_int ((x1 - x0 + 1) * (y1 - y0 + 1)))"
    unfolding r by (rule tileCount_finite)
  have "64 * 65536 \<le> maxArrayLength ev \<and>
         (\<forall>x \<in> set [x0..x1]. \<forall>y \<in> set [y0..y1].
            fetchPng ev (JFin (of_int x)) (JFin (of_int y)) \<noteq> None) \<longrightarrow>
        (\<exists>stitched.
           stitch ev rng =
             Some (Inr (stitched,
               concat (map (\<lambda>y. map (\<lambda>x. (JFin (of_int x), JFin (of_int y))) [x0..x1])
                         [y0..y1]))) \<and>
           int (length stitched) = (x1 - x0 + 1) * (y1 - y0 + 1) * 65536)"
    unfolding r using stitch_available [OF o c] by blast
  with r o tc show "\<exists>x0 x1 y0 y1.
          rng = \<lparr> xMin = JFin (of_int x0), xMax = JFin (of_int x1),
                  yMin = JFin (of_int y0), yMax = JFin (of_int y1) \<rparr> \<and>
          x0 \<le> x1 \<and> y0 \<le> y1 \<and>
          tileCount rng = JFin (of_int ((x1 - x0 + 1) * (y1 - y0 + 1))) \<and>
          (64 * 65536 \<le> maxArrayLength ev \<and>
           (\<forall>x \<in> set [x0..x1]. \<forall>y \<in> set [y0..y1].
              fetchPng ev (JFin (of_int x)) (JFin (of_int y)) \<noteq> None) \<longrightarrow>
           (\<exists>stitched.
              stitch ev rng =
                Some (Inr (stitched,
                  concat (map (\<lambda>y. map (\<lambda>x. (JFin (of_int x), JFin (of_int y))) [x0..x1])
                            [y0..y1]))) \<and>
              int (length stitched) = (x1 - x0 + 1) * (y1 - y0 + 1) * 65536))"
    by (intro exI [of _ x0] exI [of _ x1] exI [of _ y0] exI [of _ y1] conjI)
qed

lemma count_65:
  "tileCount (tileRange (lonLatToTile (JFin 0) (JFin 0) zoom)
                        (lonLatToTile (JFin (45 / 8)) (JFin 0) zoom)) = JFin 65"
  by (simp add: lonLatToTile_def zoom_def tileRange_def tileCount_def jsub_def Let_def)

lemma count_64:
  "tileCount (tileRange (lonLatToTile (JFin 0) (JFin 0) zoom)
                        (lonLatToTile (JFin (5715 / 1024)) (JFin 0) zoom)) = JFin 64"
  by (simp add: lonLatToTile_def zoom_def tileRange_def tileCount_def jsub_def Let_def)

text \<open>
  A strip on the equator 65 tiles wide is refused with the count 65; the strip 64
  tiles wide is stitched.
\<close>

theorem tile_ceiling_witness:
  "\<not> badRequest (defaults (Some \<lparr>west = JFin 0, south = JFin 0, east = JFin (45 / 8), north = JFin 0\<rparr>)) \<and>
   jgt (JFin 65) (JFin 64) \<and>
   POST \<lparr> fetchPng = (\<lambda>tx ty. None), maxArrayLength = 4294967296, contourPath = (\<lambda>values g t. None) \<rparr>
     (defaults (Some \<lparr>west = JFin 0, south = JFin 0, east = JFin (45 / 8), north = JFin 0\<rparr>)) =
     Some (SelectionTooLarge (JFin 65), []) \<and>
   \<not> badRequest (defaults (Some \<lparr>west = JFin 0, south = JFin 0, east = JFin (5715 / 1024), north = JFin 0\<rparr>)) \<and>
   jle (JFin 64) (JFin 64) \<and>
   (\<exists>res. stitch \<lparr> fetchPng = (\<lambda>tx ty. None), maxArrayLength = 4294967296,
                    contourPath = (\<lambda>values g t. None) \<rparr>
             (tileRange (lonLatToTile (JFin 0) (JFin 0) zoom)
                        (lonLatToTile (JFin (5715 / 1024)) (JFin 0) zoom)) = Some res)"
proof -
  let ?ev = "\<lparr> fetchPng = (\<lambda>tx ty. None), maxArrayLength = 4294967296,
                contourPath = (\<lambda>values g t. None) \<rparr>"
  let ?b65 = "\<lparr>west = JFin 0, south = JFin 0, east = JFin (45 / 8), north = JFin 0\<rparr>"
  let ?b64 = "\<lparr>west = JFin 0, south = JFin 0, east = JFin (5715 / 1024), north = JFin 0\<rparr>"
  have b65: "bounds (defaults (Some ?b65)) = Some ?b65" and v65: "\<not> badRequest (defaults (Some ?b65))"
    by (simp_all add: defaults_def badRequest_def)
  have b64: "bounds (defaults (Some ?b64)) = Some ?b64" and v64: "\<not> badRequest (defaults (Some ?b64))"
    by (simp_all add: defaults_def badRequest_def)
  have g: "jgt (JFin 65) (JFin 64)" and l: "jle (JFin 64) (JFin 64)"
    by (simp_all add: jgt_def)
  from tile_ceiling [OF b65 v65 refl refl refl, of ?ev]
  have "POST ?ev (defaults (Some ?b65)) = Some (SelectionTooLarge (JFin 65), [])"
    by (simp add: count_65 g)
  moreover from tile_ceiling [OF b64 v64 refl refl refl, of ?ev]
  have "\<exists>res. stitch ?ev (tileRange (lonLatToTile (JFin 0) (JFin 0) zoom)
                        (lonLatToTile (JFin (5715 / 1024)) (JFin 0) zoom)) = Some res"
    by (simp add: count_64)
  ultimately show ?thesis using v65 v64 g l by (intro conjI)
qed

section \<open>Layer names and manifest\<close>




















text \<open>
  The number in a name is the position of the feature in \<^verbatim>\<open>contourFeatures\<close>: a
  feature without a path before one with a path would leave its number unused.
\<close>

lemma layer_number_is_feature_index:
  "writeLayers rq 0 [(JFin 120, None), (JFin 150, Some ''M1,1L2,1L1,2Z'')] ([], 0) =
     ([(LayerSvg ''002'' (JFin 150), Svg (layerSvg rq ''M1,1L2,1L1,2Z''))], 1)"
  by (simp add: layerName_def padStart_def natString.simps digitChar_def numeral_2_eq_2)


end
